(* ===== verification/Prelude.thy ===== *)
theory Prelude
  imports Main "HOL-Library.List_Lexorder" "HOL-Library.Char_ord"
begin

text \<open>
  Shared vocabulary of the development: the Python values the events module
  stores and exchanges (\<open>pyval\<close>), the exceptions it can raise
  (\<open>py_error\<close>), Python truthiness and the \<open>x or default\<close> idiom of the
  constructors, the dictionary operations the codecs use (\<open>dict.get\<close>,
  item assignment, \<open>dict.update\<close>), Python's \<open>==\<close> on values, and the
  runtime services the code reads (\<open>time.time()\<close>, \<open>uuid.uuid1()\<close>, the
  date helpers of \<open>datetime\<close> and \<open>dateutil\<close>).
  Numbers are modelled by integers: the events module never computes with
  them, it only stores, compares and tests them for truth.
\<close>

section \<open>Python values\<close>

text \<open>
  A dictionary is an association list in insertion order, as Python 3.7
  keeps it; its keys are strings, the only keys the wire records and the
  story parameters carry.
\<close>

datatype pyval =
    PNone
  | PBool bool
  | PNum int
  | PStr string
  | PList "pyval list"
  | PDict "(string \<times> pyval) list"

type_synonym pydict = "(string \<times> pyval) list"

datatype py_error =
    UnknownEventName pyval   \<comment> \<open>\<open>ValueError(f"Unknown event name ...")\<close>\<close>
  | AttributeError           \<comment> \<open>a method called on a value that lacks it\<close>
  | TypeError                \<comment> \<open>a value of the wrong type, e.g.\ \<open>len(None)\<close>\<close>
  | KeyError string          \<comment> \<open>\<open>d[k]\<close> on a missing key\<close>
  | DateParseError           \<comment> \<open>\<open>dateutil.parser.parse\<close> rejected its input\<close>
  | JSONDecodeError          \<comment> \<open>\<open>json.loads\<close> rejected its input\<close>
  | ValueError               \<comment> \<open>e.g.\ \<open>dict.update\<close> with an item that is not a pair\<close>
  | OutOfModel               \<comment> \<open>not a Python exception: \<open>json.loads\<close> returned a value the model has no type for\<close>

named_theorems py_simps "evaluation rules of the Python value layer"

subsection \<open>Truthiness\<close>

fun py_truthy :: "pyval \<Rightarrow> bool" where
  "py_truthy PNone = False"
| "py_truthy (PBool b) = b"
| "py_truthy (PNum n) = (n \<noteq> 0)"
| "py_truthy (PStr s) = (s \<noteq> [])"
| "py_truthy (PList xs) = (xs \<noteq> [])"
| "py_truthy (PDict d) = (d \<noteq> [])"

text \<open>\<open>a or b\<close>: the first operand when it is truthy, the second otherwise.\<close>

definition py_or :: "pyval \<Rightarrow> pyval \<Rightarrow> pyval" where
  "py_or a b = (if py_truthy a then a else b)"

subsection \<open>Dictionaries\<close>

text \<open>\<open>d.get(k, default)\<close> and \<open>d.get(k)\<close>.\<close>

definition dict_get_default :: "pydict \<Rightarrow> string \<Rightarrow> pyval \<Rightarrow> pyval" where
  "dict_get_default d k dflt = (case map_of d k of None \<Rightarrow> dflt | Some v \<Rightarrow> v)"

abbreviation dict_get :: "pydict \<Rightarrow> string \<Rightarrow> pyval" where
  "dict_get d k \<equiv> dict_get_default d k PNone"

text \<open>\<open>k in d\<close>.\<close>

definition dict_has :: "pydict \<Rightarrow> string \<Rightarrow> bool" where
  "dict_has d k = (k \<in> set (map fst d))"

text \<open>
  \<open>d[k] = v\<close>: an existing key keeps its position and takes the new value,
  a new key is appended.
\<close>

definition dict_set :: "pydict \<Rightarrow> string \<Rightarrow> pyval \<Rightarrow> pydict" where
  "dict_set d k v =
     (if dict_has d k then map (\<lambda>(k', v'). if k' = k then (k', v) else (k', v')) d
      else d @ [(k, v)])"

text \<open>\<open>d.update(e)\<close>: the items of \<open>e\<close> assigned in order.\<close>

definition dict_update :: "pydict \<Rightarrow> pydict \<Rightarrow> pydict" where
  "dict_update d e = fold (\<lambda>(k, v) acc. dict_set acc k v) e d"

text \<open>A method call \<open>x.get(k, default)\<close> on a value that may not be a dict.\<close>

fun py_get :: "pyval \<Rightarrow> string \<Rightarrow> pyval \<Rightarrow> py_error + pyval" where
  "py_get (PDict d) k dflt = Inr (dict_get_default d k dflt)"
| "py_get _ k dflt = Inl AttributeError"

text \<open>A Python dict has no duplicate keys; nested values neither.\<close>

fun wf_pyval :: "pyval \<Rightarrow> bool" where
  "wf_pyval (PList xs) = (\<forall>x \<in> set xs. wf_pyval x)"
| "wf_pyval (PDict d) = (distinct (map fst d) \<and> (\<forall>kv \<in> set d. wf_pyval (snd kv)))"
| "wf_pyval _ = True"

subsection \<open>Python equality\<close>

text \<open>
  Python's \<open>==\<close> on values identifies \<open>True\<close> with \<open>1\<close> and \<open>False\<close>
  with \<open>0\<close> (at any depth) and compares dicts without regard to key order.
  \<open>py_norm\<close> maps each value to a representative of its \<open>==\<close>-class:
  booleans become numbers and dict items are sorted by key.
\<close>

fun py_norm :: "pyval \<Rightarrow> pyval" where
  "py_norm (PBool b) = PNum (if b then 1 else 0)"
| "py_norm (PList xs) = PList (map py_norm xs)"
| "py_norm (PDict d) = PDict (sort_key fst (map (\<lambda>kv. (fst kv, py_norm (snd kv))) d))"
| "py_norm v = v"

definition py_eq :: "pyval \<Rightarrow> pyval \<Rightarrow> bool" where
  "py_eq a b \<longleftrightarrow> py_norm a = py_norm b"

subsection \<open>Exceptions as values\<close>

text \<open>
  Sequencing of computations that may raise: the first exception is the
  result, as it would propagate out of the Python function.
\<close>

definition err_bind :: "py_error + 'a \<Rightarrow> ('a \<Rightarrow> py_error + 'b) \<Rightarrow> py_error + 'b" where
  "err_bind m f = (case m of Inl e \<Rightarrow> Inl e | Inr a \<Rightarrow> f a)"

lemma err_bind_simps [simp, py_simps]:
  "err_bind (Inl e) f = Inl e"
  "err_bind (Inr a) f = f a"
  by (simp_all add: err_bind_def)

lemma err_bind_eq_Inr [py_simps]:
  "err_bind m f = Inr b \<longleftrightarrow> (\<exists>a. m = Inr a \<and> f a = Inr b)"
  by (cases m) simp_all

text \<open>Iteration \<open>for x in v\<close>: lists by element, dicts by key, strings by character.\<close>

fun py_iter :: "pyval \<Rightarrow> py_error + pyval list" where
  "py_iter (PList xs) = Inr xs"
| "py_iter (PDict d) = Inr (map (\<lambda>kv. PStr (fst kv)) d)"
| "py_iter (PStr s) = Inr (map (\<lambda>c. PStr [c]) s)"
| "py_iter _ = Inl TypeError"

subsection \<open>Dictionary lemmas\<close>

lemma map_of_map_replace:
  "map_of (map (\<lambda>(k', v'). if k' = k then (k', v) else (k', v')) d) k'' =
     (if k'' = k then (if k \<in> fst ` set d then Some v else None) else map_of d k'')"
  by (induction d) force+

lemma map_of_dict_set [simp, py_simps]: "map_of (dict_set d k v) = (map_of d)(k \<mapsto> v)"
proof (rule ext)
  fix x
  show "map_of (dict_set d k v) x = ((map_of d)(k \<mapsto> v)) x"
  proof (cases "dict_has d k")
    case True
    then show ?thesis by (simp add: dict_set_def dict_has_def map_of_map_replace)
  next
    case False
    then have "map_of d k = None" by (simp add: dict_has_def map_of_eq_None_iff)
    with False show ?thesis
      by (simp add: dict_set_def dict_has_def map_add_def split: option.splits)
  qed
qed

lemma map_of_dict_update [py_simps]: "map_of (dict_update d e) = map_of d ++ map_of (rev e)"
  unfolding dict_update_def
proof (induction e arbitrary: d)
  case Nil
  then show ?case by simp
next
  case (Cons kv e)
  then show ?case
    by (cases kv) (auto simp: fun_eq_iff map_add_def split: option.splits)
qed

lemma dict_get_default_update [simp, py_simps]:
  "dict_get_default (dict_update d e) k dflt =
     (case map_of (rev e) k of Some v \<Rightarrow> v | None \<Rightarrow> dict_get_default d k dflt)"
  by (simp add: dict_get_default_def map_of_dict_update map_add_def split: option.splits)

lemma dict_get_default_Cons [simp, py_simps]:
  "dict_get_default ((k', v) # d) k dflt = (if k = k' then v else dict_get_default d k dflt)"
  by (simp add: dict_get_default_def)

lemma dict_get_default_Nil [simp, py_simps]: "dict_get_default [] k dflt = dflt"
  by (simp add: dict_get_default_def)

lemma dict_get_default_append [py_simps]:
  "dict_get_default (d @ e) k dflt =
     (case map_of d k of Some v \<Rightarrow> v | None \<Rightarrow> dict_get_default e k dflt)"
  by (simp add: dict_get_default_def map_add_def split: option.splits)

lemma dict_has_dom: "dict_has d k \<longleftrightarrow> k \<in> dom (map_of d)"
  by (simp add: dict_has_def dom_map_of_conv_image_fst)

lemma dict_has_Nil [simp, py_simps]: "\<not> dict_has [] k"
  by (simp add: dict_has_def)

lemma dict_has_Cons [simp, py_simps]: "dict_has ((k', v) # d) k \<longleftrightarrow> k = k' \<or> dict_has d k"
  by (auto simp: dict_has_def)

lemma dict_has_update [py_simps]: "dict_has (dict_update d e) k \<longleftrightarrow> dict_has d k \<or> dict_has e k"
  by (auto simp: dict_has_dom map_of_dict_update dom_map_of_conv_image_fst)

lemma wf_dict_set:
  assumes "wf_pyval (PDict d)" and "wf_pyval v"
  shows "wf_pyval (PDict (dict_set d k v))"
proof (cases "dict_has d k")
  case True
  have "fst \<circ> (\<lambda>(k', v'). if k' = k then (k', v) else (k', v')) = fst" by auto
  then show ?thesis using True assms by (auto simp: dict_set_def split: if_splits)
next
  case False
  then show ?thesis using assms by (auto simp: dict_set_def dict_has_def)
qed

lemma py_get_Inr [py_simps]:
  "py_get v k dflt = Inr r \<longleftrightarrow> (\<exists>d. v = PDict d \<and> r = dict_get_default d k dflt)"
  by (cases v) auto

lemma py_or_idem [simp, py_simps]: "py_or (py_or a b) b = py_or a b"
  by (simp add: py_or_def)

lemma py_or_truthy [simp, py_simps]: "py_truthy a \<Longrightarrow> py_or a b = a"
  by (simp add: py_or_def)

lemma py_or_falsy [simp, py_simps]: "\<not> py_truthy a \<Longrightarrow> py_or a b = b"
  by (simp add: py_or_def)

subsection \<open>Runtime services\<close>

text \<open>
  The environment the constructors and decoders read: the clock
  (\<open>time.time()\<close>), a fresh reminder id (\<open>str(uuid.uuid1())\<close>),
  \<open>datetime.isoformat\<close>, \<open>dateutil.parser.parse\<close> (\<open>None\<close> where it
  raises) and \<open>str\<close> of a date, which the log text of reminders uses. Injecting them makes the model deterministic, as the design notes of
  the repository ask for the clock.
\<close>

record runtime =
  now :: pyval
  fresh_uuid :: pyval
  isoformat :: "pyval \<Rightarrow> pyval"
  parse_date :: "pyval \<Rightarrow> pyval option"
  date_str :: "pyval \<Rightarrow> string"   \<comment> \<open>\<open>str(datetime)\<close>, the ISO form with a space separator\<close>

text \<open>
  A concrete runtime for the examples: a fixed clock and uuid, dates
  represented by their ISO strings, so that \<open>isoformat\<close> is the identity
  and \<open>parse\<close> accepts exactly the strings.
\<close>

definition demo_runtime :: runtime where
  "demo_runtime = \<lparr>now = PNum 1700000000, fresh_uuid = PStr ''uuid-1'', isoformat = id,
     parse_date = (\<lambda>v. case v of PStr s \<Rightarrow> Some (PStr s) | _ \<Rightarrow> None),
     date_str = (\<lambda>v. case v of PStr s \<Rightarrow> map (\<lambda>c. if c = CHR ''T'' then CHR '' '' else c) s | _ \<Rightarrow> [])\<rparr>"


end
