(* ===== verification/Json.thy ===== *)
theory Json
  imports Prelude
begin

text \<open>
  The text form of Python's \<open>json.dumps\<close> with its default separators
  (\<open>", "\<close> and \<open>": "\<close>), as the events module calls it: with
  \<open>ensure_ascii=False\<close> for the parameters of \<open>SlotSet\<close> and
  \<open>UserUttered\<close> story lines, with the default \<open>ensure_ascii=True\<close> for the
  other story lines and inside \<open>jsonpickle.encode\<close>, which serialises plain
  data through the same encoder. This is a model of the standard library the
  module calls, not of the module itself. Strings are sequences of code points
  below 256 (one \<open>char\<close> each).
\<close>

section \<open>Numbers\<close>

definition digit_char :: "nat \<Rightarrow> char" where
  "digit_char n = char_of (48 + n)"

fun show_nat :: "nat \<Rightarrow> string" where
  "show_nat n = (if n < 10 then [digit_char n] else show_nat (n div 10) @ [digit_char (n mod 10)])"

declare show_nat.simps [simp del]

definition show_int :: "int \<Rightarrow> string" where
  "show_int i = (if i < 0 then CHR ''-'' # show_nat (nat (- i)) else show_nat (nat i))"

section \<open>Strings\<close>

definition hex_char :: "nat \<Rightarrow> char" where
  "hex_char n = (if n < 10 then char_of (48 + n) else char_of (87 + n))"

text \<open>The escape of one character by its four-digit lower-case hex code.\<close>

definition u_escape :: "char \<Rightarrow> string" where
  "u_escape c = (let n = (of_char c :: nat) in
     [CHR 0x5C, CHR ''u'', hex_char (n div 4096 mod 16), hex_char (n div 256 mod 16),
      hex_char (n div 16 mod 16), hex_char (n mod 16)])"

text \<open>
  The escape table \<open>ESCAPE_DCT\<close> of \<open>json.encoder\<close>: backslash, double
  quote and the five named control characters; every other control character
  below 0x20 by its hex code. With \<open>ensure_ascii\<close>, every character outside
  the printable range 0x20--0x7e is escaped as well.
\<close>

definition json_escape_char :: "bool \<Rightarrow> char \<Rightarrow> string" where
  "json_escape_char ensure_ascii c =
     (if c = CHR 0x5C then [CHR 0x5C, CHR 0x5C]
      else if c = CHR 0x22 then [CHR 0x5C, CHR 0x22]
      else if c = CHR 0x08 then [CHR 0x5C, CHR ''b'']
      else if c = CHR 0x0C then [CHR 0x5C, CHR ''f'']
      else if c = CHR 0x0A then [CHR 0x5C, CHR ''n'']
      else if c = CHR 0x0D then [CHR 0x5C, CHR ''r'']
      else if c = CHR 0x09 then [CHR 0x5C, CHR ''t'']
      else if (of_char c :: nat) < 32 then u_escape c
      else if ensure_ascii \<and> 126 < (of_char c :: nat) then u_escape c
      else [c])"

definition json_str :: "bool \<Rightarrow> string \<Rightarrow> string" where
  "json_str ensure_ascii s = CHR 0x22 # concat (map (json_escape_char ensure_ascii) s) @ [CHR 0x22]"

section \<open>Values\<close>

text \<open>\<open>sep.join(parts)\<close>.\<close>

fun join_str :: "string \<Rightarrow> string list \<Rightarrow> string" where
  "join_str sep [] = []"
| "join_str sep [x] = x"
| "join_str sep (x # xs) = x @ sep @ join_str sep xs"

fun json_dumps :: "bool \<Rightarrow> pyval \<Rightarrow> string" where
  "json_dumps a PNone = ''null''"
| "json_dumps a (PBool b) = (if b then ''true'' else ''false'')"
| "json_dumps a (PNum n) = show_int n"
| "json_dumps a (PStr s) = json_str a s"
| "json_dumps a (PList xs) = CHR ''['' # join_str '', '' (map (json_dumps a) xs) @ '']''"
| "json_dumps a (PDict d) = CHR ''{'' #
     join_str '', '' (map (\<lambda>kv. json_str a (fst kv) @ '': '' @ json_dumps a (snd kv)) d)
     @ ''}''"

text \<open>\<open>jsonpickle.encode\<close> on plain data: the default \<open>json.dumps\<close>.\<close>

definition jsonpickle_encode :: "pyval \<Rightarrow> string" where
  "jsonpickle_encode v = json_dumps True v"

end
