(* ===== verification/Events.thy ===== *)
theory Events
  imports Json
begin

text \<open>
  The event variants of \<open>src/rasa/core/events/__init__.py\<close>: the payload
  of each subclass of \<open>Event\<close> as one constructor of \<open>payload\<close>, the
  common fields \<open>timestamp\<close> and \<open>_metadata\<close> of the base class in the
  record \<open>event\<close>, the class of an event (\<open>event_class\<close>) with its
  \<open>type_name\<close>, the \<open>__init__\<close> of each class with its defaults, and the
  identity of each class: \<open>__eq__\<close> as \<open>event_eq\<close> and the tuple that
  \<open>__hash__\<close> hashes as \<open>hash_key\<close>.
\<close>

section \<open>Data\<close>

text \<open>
  The payload fields in the order of the classes in the source. Every field is
  a Python value: the module stores what its callers pass, without checks.
  \<open>ActionExecuted.unpredictable\<close> is always \<open>False\<close> and never read in the
  module, so it is not a field of the model.
\<close>

datatype payload =
    UserUttered pyval pyval pyval pyval pyval pyval
      \<comment> \<open>text, intent, entities, parse_data, input_channel, message_id\<close>
  | BotUttered pyval pyval                     \<comment> \<open>text, data\<close>
  | SlotSet pyval pyval                        \<comment> \<open>key, value\<close>
  | Restarted
  | UserUtteranceReverted
  | AllSlotsReset
  | ReminderScheduled pyval pyval pyval pyval
      \<comment> \<open>action_name, trigger_date_time, name, kill_on_user_message\<close>
  | ReminderCancelled pyval                    \<comment> \<open>action_name\<close>
  | ActionReverted
  | StoryExported pyval                        \<comment> \<open>path\<close>
  | FollowupAction pyval                       \<comment> \<open>action_name\<close>
  | ConversationPaused
  | ConversationResumed
  | ActionExecuted pyval pyval pyval           \<comment> \<open>action_name, policy, confidence\<close>
  | AgentUttered pyval pyval                   \<comment> \<open>text, data\<close>
  | Form pyval                                 \<comment> \<open>name\<close>
  | FormValidation pyval                       \<comment> \<open>validate\<close>
  | ActionExecutionRejected pyval pyval pyval  \<comment> \<open>action_name, policy, confidence\<close>

record event =
  timestamp :: pyval
  metadata :: pyval
  body :: payload

datatype event_class =
    CUserUttered | CBotUttered | CSlotSet | CRestarted | CUserUtteranceReverted
  | CAllSlotsReset | CReminderScheduled | CReminderCancelled | CActionReverted
  | CStoryExported | CFollowupAction | CConversationPaused | CConversationResumed
  | CActionExecuted | CAgentUttered | CForm | CFormValidation | CActionExecutionRejected

fun class_of :: "payload \<Rightarrow> event_class" where
  "class_of (UserUttered _ _ _ _ _ _) = CUserUttered"
| "class_of (BotUttered _ _) = CBotUttered"
| "class_of (SlotSet _ _) = CSlotSet"
| "class_of Restarted = CRestarted"
| "class_of UserUtteranceReverted = CUserUtteranceReverted"
| "class_of AllSlotsReset = CAllSlotsReset"
| "class_of (ReminderScheduled _ _ _ _) = CReminderScheduled"
| "class_of (ReminderCancelled _) = CReminderCancelled"
| "class_of ActionReverted = CActionReverted"
| "class_of (StoryExported _) = CStoryExported"
| "class_of (FollowupAction _) = CFollowupAction"
| "class_of ConversationPaused = CConversationPaused"
| "class_of ConversationResumed = CConversationResumed"
| "class_of (ActionExecuted _ _ _) = CActionExecuted"
| "class_of (AgentUttered _ _) = CAgentUttered"
| "class_of (Form _) = CForm"
| "class_of (FormValidation _) = CFormValidation"
| "class_of (ActionExecutionRejected _ _ _) = CActionExecutionRejected"

text \<open>The class attribute \<open>type_name\<close>: the wire tag and story keyword.\<close>

fun type_name :: "event_class \<Rightarrow> string" where
  "type_name CUserUttered = ''user''"
| "type_name CBotUttered = ''bot''"
| "type_name CSlotSet = ''slot''"
| "type_name CRestarted = ''restart''"
| "type_name CUserUtteranceReverted = ''rewind''"
| "type_name CAllSlotsReset = ''reset_slots''"
| "type_name CReminderScheduled = ''reminder''"
| "type_name CReminderCancelled = ''cancel_reminder''"
| "type_name CActionReverted = ''undo''"
| "type_name CStoryExported = ''export''"
| "type_name CFollowupAction = ''followup''"
| "type_name CConversationPaused = ''pause''"
| "type_name CConversationResumed = ''resume''"
| "type_name CActionExecuted = ''action''"
| "type_name CAgentUttered = ''agent''"
| "type_name CForm = ''form''"
| "type_name CFormValidation = ''form_validation''"
| "type_name CActionExecutionRejected = ''action_execution_rejected''"

section \<open>Construction\<close>

text \<open>
  \<open>Event.__init__\<close>: \<open>self.timestamp = timestamp or time.time()\<close> and
  \<open>self._metadata = metadata or {}\<close>. A falsy timestamp (\<open>None\<close> or
  \<open>0\<close>) is replaced by the clock.
\<close>

definition Event_init :: "runtime \<Rightarrow> pyval \<Rightarrow> pyval \<Rightarrow> payload \<Rightarrow> event" where
  "Event_init rt ts md p = \<lparr>timestamp = py_or ts (now rt), metadata = py_or md (PDict []), body = p\<rparr>"

text \<open>
  \<open>UserUttered.__init__\<close>: intent and entities default to \<open>{}\<close> and
  \<open>[]\<close>; without a truthy \<open>parse_data\<close> one is built from the
  normalised fields and the normalised metadata.
\<close>

definition UserUttered_init ::
  "runtime \<Rightarrow> pyval \<Rightarrow> pyval \<Rightarrow> pyval \<Rightarrow> pyval \<Rightarrow> pyval \<Rightarrow> pyval \<Rightarrow> pyval \<Rightarrow> pyval \<Rightarrow> event" where
  "UserUttered_init rt text intent entities parse_data ts input_channel message_id md =
     (let i = py_or intent (PDict []);
          es = py_or entities (PList []);
          md' = py_or md (PDict []);
          pd = (if py_truthy parse_data then parse_data
                else PDict [(''intent'', i), (''entities'', es), (''text'', text),
                            (''message_id'', message_id), (''metadata'', md')])
      in Event_init rt ts md (UserUttered text i es pd input_channel message_id))"

definition BotUttered_init :: "runtime \<Rightarrow> pyval \<Rightarrow> pyval \<Rightarrow> pyval \<Rightarrow> pyval \<Rightarrow> event" where
  "BotUttered_init rt text data md ts = Event_init rt ts md (BotUttered text (py_or data (PDict [])))"

definition SlotSet_init :: "runtime \<Rightarrow> pyval \<Rightarrow> pyval \<Rightarrow> pyval \<Rightarrow> pyval \<Rightarrow> event" where
  "SlotSet_init rt key value ts md = Event_init rt ts md (SlotSet key value)"

text \<open>\<open>ReminderScheduled.__init__\<close>: an absent name is a fresh uuid.\<close>

definition ReminderScheduled_init ::
  "runtime \<Rightarrow> pyval \<Rightarrow> pyval \<Rightarrow> pyval \<Rightarrow> pyval \<Rightarrow> pyval \<Rightarrow> pyval \<Rightarrow> event" where
  "ReminderScheduled_init rt action_name trigger name kill ts md =
     Event_init rt ts md
       (ReminderScheduled action_name trigger (if name = PNone then fresh_uuid rt else name) kill)"

definition ActionExecuted_init :: "runtime \<Rightarrow> pyval \<Rightarrow> pyval \<Rightarrow> pyval \<Rightarrow> pyval \<Rightarrow> pyval \<Rightarrow> event" where
  "ActionExecuted_init rt action_name policy confidence ts md =
     Event_init rt ts md (ActionExecuted action_name policy confidence)"

definition ActionExecutionRejected_init ::
  "runtime \<Rightarrow> pyval \<Rightarrow> pyval \<Rightarrow> pyval \<Rightarrow> pyval \<Rightarrow> pyval \<Rightarrow> event" where
  "ActionExecutionRejected_init rt action_name policy confidence ts md =
     Event_init rt ts md (ActionExecutionRejected action_name policy confidence)"

definition AgentUttered_init :: "runtime \<Rightarrow> pyval \<Rightarrow> pyval \<Rightarrow> pyval \<Rightarrow> pyval \<Rightarrow> event" where
  "AgentUttered_init rt text data ts md = Event_init rt ts md (AgentUttered text data)"

text \<open>The static \<open>empty()\<close> constructors: every argument at its default.\<close>

definition UserUttered_empty :: "runtime \<Rightarrow> event" where
  "UserUttered_empty rt = UserUttered_init rt PNone PNone PNone PNone PNone PNone PNone PNone"

definition BotUttered_empty :: "runtime \<Rightarrow> event" where
  "BotUttered_empty rt = BotUttered_init rt PNone PNone PNone PNone"

definition AgentUttered_empty :: "runtime \<Rightarrow> event" where
  "AgentUttered_empty rt = AgentUttered_init rt PNone PNone PNone PNone"

text \<open>
  \<open>cls(a, b)\<close>: the call with two positional arguments that the base
  \<open>Event._from_story_string\<close> makes with the timestamp and the metadata of
  the parameters. Each class binds the two values to its own first two
  parameters; for the classes without payload these are timestamp and metadata.
\<close>

fun call2 :: "runtime \<Rightarrow> event_class \<Rightarrow> pyval \<Rightarrow> pyval \<Rightarrow> event" where
  "call2 rt CUserUttered a b = UserUttered_init rt a b PNone PNone PNone PNone PNone PNone"
| "call2 rt CBotUttered a b = BotUttered_init rt a b PNone PNone"
| "call2 rt CSlotSet a b = SlotSet_init rt a b PNone PNone"
| "call2 rt CRestarted a b = Event_init rt a b Restarted"
| "call2 rt CUserUtteranceReverted a b = Event_init rt a b UserUtteranceReverted"
| "call2 rt CAllSlotsReset a b = Event_init rt a b AllSlotsReset"
| "call2 rt CReminderScheduled a b = ReminderScheduled_init rt a b PNone (PBool True) PNone PNone"
| "call2 rt CReminderCancelled a b = Event_init rt b PNone (ReminderCancelled a)"
| "call2 rt CActionReverted a b = Event_init rt a b ActionReverted"
| "call2 rt CStoryExported a b = Event_init rt b PNone (StoryExported a)"
| "call2 rt CFollowupAction a b = Event_init rt b PNone (FollowupAction a)"
| "call2 rt CConversationPaused a b = Event_init rt a b ConversationPaused"
| "call2 rt CConversationResumed a b = Event_init rt a b ConversationResumed"
| "call2 rt CActionExecuted a b = ActionExecuted_init rt a b PNone PNone PNone"
| "call2 rt CAgentUttered a b = AgentUttered_init rt a b PNone PNone"
| "call2 rt CForm a b = Event_init rt b PNone (Form a)"
| "call2 rt CFormValidation a b = Event_init rt b PNone (FormValidation a)"
| "call2 rt CActionExecutionRejected a b = ActionExecutionRejected_init rt a b PNone PNone PNone"

section \<open>Identity\<close>

text \<open>
  \<open>rasa.core.utils.remove_none_values\<close> (outside this module):
  \<open>{k: v for k, v in obj.items() if v is not None}\<close>.
\<close>

fun remove_none_values :: "pyval \<Rightarrow> py_error + pyval" where
  "remove_none_values (PDict d) = Inr (PDict (filter (\<lambda>kv. snd kv \<noteq> PNone) d))"
| "remove_none_values _ = Inl AttributeError"

text \<open>
  The tuple \<open>UserUttered.__eq__\<close> compares: the text, \<open>intent.get("name")\<close>
  and the list of \<open>jsonpickle.encode(ent)\<close> over the entities.
\<close>

definition uu_members :: "pyval \<Rightarrow> pyval \<Rightarrow> pyval \<Rightarrow> py_error + (pyval \<times> pyval \<times> string list)" where
  "uu_members text intent entities =
     err_bind (py_get intent ''name'' PNone) (\<lambda>n.
     err_bind (py_iter entities) (\<lambda>ents. Inr (text, n, map jsonpickle_encode ents)))"

text \<open>\<open>BotUttered.__members\<close>.\<close>

definition bot_members :: "pyval \<Rightarrow> pyval \<Rightarrow> pyval \<Rightarrow> py_error + (pyval \<times> string \<times> string)" where
  "bot_members text data md =
     err_bind (remove_none_values data) (\<lambda>d.
     err_bind (remove_none_values md) (\<lambda>m. Inr (text, jsonpickle_encode d, jsonpickle_encode m)))"

text \<open>
  \<open>self.__eq__(other)\<close> for the payloads and metadata of two events. Every
  class answers \<open>False\<close> to an event of another class (its
  \<open>isinstance\<close> test); within a class it compares what its \<open>__eq__\<close> reads.
\<close>

fun variant_eq :: "pyval \<Rightarrow> payload \<Rightarrow> pyval \<Rightarrow> payload \<Rightarrow> py_error + bool" where
  "variant_eq _ (UserUttered t i es _ _ _) _ other = (case other of
     UserUttered t' i' es' _ _ _ \<Rightarrow>
       err_bind (uu_members t i es) (\<lambda>(a, b, c). err_bind (uu_members t' i' es') (\<lambda>(a', b', c').
         Inr (py_eq a a' \<and> py_eq b b' \<and> c = c')))
   | _ \<Rightarrow> Inr False)"
| "variant_eq md (BotUttered t d) md' other = (case other of
     BotUttered t' d' \<Rightarrow>
       err_bind (bot_members t d md) (\<lambda>(a, b, c). err_bind (bot_members t' d' md') (\<lambda>(a', b', c').
         Inr (py_eq a a' \<and> b = b' \<and> c = c')))
   | _ \<Rightarrow> Inr False)"
| "variant_eq _ (SlotSet k v) _ other = (case other of
     SlotSet k' v' \<Rightarrow> Inr (py_eq k k' \<and> py_eq v v') | _ \<Rightarrow> Inr False)"
| "variant_eq _ Restarted _ other = Inr (class_of other = CRestarted)"
| "variant_eq _ UserUtteranceReverted _ other = Inr (class_of other = CUserUtteranceReverted)"
| "variant_eq _ AllSlotsReset _ other = Inr (class_of other = CAllSlotsReset)"
| "variant_eq _ (ReminderScheduled _ _ n _) _ other = (case other of
     ReminderScheduled _ _ n' _ \<Rightarrow> Inr (py_eq n n') | _ \<Rightarrow> Inr False)"
| "variant_eq _ (ReminderCancelled _) _ other = Inr (class_of other = CReminderCancelled)"
| "variant_eq _ ActionReverted _ other = Inr (class_of other = CActionReverted)"
| "variant_eq _ (StoryExported _) _ other = Inr (class_of other = CStoryExported)"
| "variant_eq _ (FollowupAction a) _ other = (case other of
     FollowupAction a' \<Rightarrow> Inr (py_eq a a') | _ \<Rightarrow> Inr False)"
| "variant_eq _ ConversationPaused _ other = Inr (class_of other = CConversationPaused)"
| "variant_eq _ ConversationResumed _ other = Inr (class_of other = CConversationResumed)"
| "variant_eq _ (ActionExecuted a _ _) _ other = (case other of
     ActionExecuted a' _ _ \<Rightarrow> Inr (py_eq a a') | _ \<Rightarrow> Inr False)"
| "variant_eq _ (AgentUttered t d) _ other = (case other of
     AgentUttered t' d' \<Rightarrow> Inr (py_eq t t' \<and> jsonpickle_encode d = jsonpickle_encode d')
   | _ \<Rightarrow> Inr False)"
| "variant_eq _ (Form n) _ other = (case other of
     Form n' \<Rightarrow> Inr (py_eq n n') | _ \<Rightarrow> Inr False)"
| "variant_eq _ (FormValidation _) _ other = Inr (class_of other = CFormValidation)"
| "variant_eq _ (ActionExecutionRejected a _ _) _ other = (case other of
     ActionExecutionRejected a' _ _ \<Rightarrow> Inr (py_eq a a') | _ \<Rightarrow> Inr False)"

definition event_eq :: "event \<Rightarrow> event \<Rightarrow> py_error + bool" where
  "event_eq a b = variant_eq (metadata a) (body a) (metadata b) (body b)"

text \<open>
  What \<open>__hash__\<close> passes to \<open>hash\<close>, as the list of the components of the
  tuple it builds (a one-element list where it hashes a single value). Lists
  and dicts are unhashable: \<open>hash\<close> raises \<open>TypeError\<close> on them.
\<close>

fun py_hashable :: "pyval \<Rightarrow> bool" where
  "py_hashable (PList _) = False"
| "py_hashable (PDict _) = False"
| "py_hashable _ = True"

definition hash_of :: "pyval list \<Rightarrow> py_error + pyval list" where
  "hash_of vs = (if list_all py_hashable vs then Inr vs else Inl TypeError)"

definition hash_key :: "runtime \<Rightarrow> event \<Rightarrow> py_error + pyval list" where
  "hash_key rt e = (case body e of
      UserUttered t i es _ _ _ \<Rightarrow>
        err_bind (py_get i ''name'' PNone) (\<lambda>n. hash_of [t, n, PStr (jsonpickle_encode es)])
    | BotUttered t d \<Rightarrow>
        err_bind (bot_members t d (metadata e)) (\<lambda>(a, b, c). hash_of [a, PStr b, PStr c])
    | SlotSet k v \<Rightarrow> hash_of [k, PStr (jsonpickle_encode v)]
    | Restarted \<Rightarrow> hash_of [PNum 32143124312]
    | UserUtteranceReverted \<Rightarrow> hash_of [PNum 32143124315]
    | AllSlotsReset \<Rightarrow> hash_of [PNum 32143124316]
    | ReminderScheduled a trig n kill \<Rightarrow> hash_of [a, isoformat rt trig, kill, n]
    | ReminderCancelled a \<Rightarrow> hash_of [a]
    | ActionReverted \<Rightarrow> hash_of [PNum 32143124318]
    | StoryExported _ \<Rightarrow> hash_of [PNum 32143124319]
    | FollowupAction a \<Rightarrow> hash_of [a]
    | ConversationPaused \<Rightarrow> hash_of [PNum 32143124313]
    | ConversationResumed \<Rightarrow> hash_of [PNum 32143124314]
    | ActionExecuted a _ _ \<Rightarrow> hash_of [a]
    | AgentUttered t d \<Rightarrow> hash_of [t, PStr (jsonpickle_encode d)]
    | Form n \<Rightarrow> hash_of [n]
    | FormValidation v \<Rightarrow> hash_of [v]
    | ActionExecutionRejected a _ _ \<Rightarrow> hash_of [a])"

section \<open>Lemmas\<close>

lemma py_eq_refl [simp, py_simps]: "py_eq a a"
  by (simp add: py_eq_def)

lemma py_eq_sym: "py_eq a b \<Longrightarrow> py_eq b a"
  by (simp add: py_eq_def)

lemma hash_of_Inr [py_simps]: "hash_of vs = Inr ks \<longleftrightarrow> ks = vs \<and> list_all py_hashable vs"
  by (auto simp: hash_of_def)

lemma event_eq_Event_init [simp]:
  "event_eq (Event_init rt ts md p) (Event_init rt' ts' md' p') =
   variant_eq (py_or md (PDict [])) p (py_or md' (PDict [])) p'"
  by (simp add: event_eq_def Event_init_def)

subsection \<open>Identity rules\<close>

text \<open>C9: The classes that compare by their fields: \<open>ActionExecuted\<close>
  events are equal exactly when their action names are (policy, confidence,
  timestamp and metadata play no part), and \<open>SlotSet\<close> events exactly when
  key and value are equal by Python's \<open>==\<close>.\<close>

theorem field_identity:
  "event_eq (ActionExecuted_init rt a p c ts md) (ActionExecuted_init rt' a' p' c' ts' md')
     = Inr (py_eq a a')
   \<and> event_eq (SlotSet_init rt k v ts md) (SlotSet_init rt' k' v' ts' md')
     = Inr (py_eq k k' \<and> py_eq v v')"
  by (simp add: ActionExecuted_init_def SlotSet_init_def)

text \<open>C10: An event of a class that compares by type alone (\<open>Restarted\<close>,
  \<open>UserUtteranceReverted\<close>, \<open>AllSlotsReset\<close>, \<open>ActionReverted\<close>,
  \<open>ConversationPaused\<close>, \<open>ConversationResumed\<close>, \<open>StoryExported\<close>,
  \<open>ReminderCancelled\<close>, \<open>FormValidation\<close>) equals exactly the events of its
  own class, whatever their payload: two \<open>ReminderCancelled\<close> for different
  actions are equal.\<close>

theorem singleton_identity:
  assumes "class_of p \<in> {CRestarted, CUserUtteranceReverted, CAllSlotsReset, CActionReverted,
      CConversationPaused, CConversationResumed, CStoryExported, CReminderCancelled, CFormValidation}"
  shows "event_eq (Event_init rt ts md p) e = Inr (class_of (body e) = class_of p)"
  using assms by (cases p) (auto simp: event_eq_def Event_init_def)

theorem singleton_identity_witness:
  "event_eq (Event_init demo_runtime PNone PNone (ReminderCancelled (PStr ''remind_a'')))
            (Event_init demo_runtime PNone PNone (ReminderCancelled (PStr ''remind_b'')))
   = Inr (class_of (body (Event_init demo_runtime PNone PNone (ReminderCancelled (PStr ''remind_b''))))
          = class_of (ReminderCancelled (PStr ''remind_a'')))"
  by (rule singleton_identity) simp

text \<open>C8: Event equality is symmetric wherever it returns: \<open>a == b\<close> and
  \<open>b == a\<close> give the same answer.\<close>

theorem event_eq_sym:
  assumes "event_eq a b = Inr r"
  shows "event_eq b a = Inr r"
  using assms
  by (cases "body a"; cases "body b")
     (auto simp: event_eq_def err_bind_eq_Inr py_eq_def uu_members_def bot_members_def split: prod.splits)

theorem event_eq_sym_witness:
  "event_eq (SlotSet_init demo_runtime (PStr ''x'') (PNum 1) PNone PNone)
            (SlotSet_init demo_runtime (PStr ''x'') (PBool True) PNone PNone) = Inr True"
proof -
  have "event_eq (SlotSet_init demo_runtime (PStr ''x'') (PBool True) PNone PNone)
                 (SlotSet_init demo_runtime (PStr ''x'') (PNum 1) PNone PNone) = Inr True"
    by (simp add: SlotSet_init_def py_eq_def)
  then show ?thesis by (rule event_eq_sym)
qed

subsection \<open>Hash against equality\<close>

text \<open>C6: For every class other than \<open>SlotSet\<close>, \<open>ReminderScheduled\<close>,
  \<open>ReminderCancelled\<close>, \<open>FormValidation\<close> and \<open>UserUttered\<close>, equal
  events hash equal inputs (componentwise Python-equal), so \<open>hash\<close> agrees
  with \<open>==\<close> as Python's data model requires.\<close>

theorem hash_respects_eq:
  assumes "class_of (body a) \<notin> {CSlotSet, CReminderScheduled, CReminderCancelled, CFormValidation, CUserUttered}"
    and "event_eq a b = Inr True" and "hash_key rt a = Inr ka" and "hash_key rt b = Inr kb"
  shows "list_all2 py_eq ka kb"
  using assms
  by (cases "body a"; cases "body b")
     (auto simp: event_eq_def hash_key_def hash_of_Inr err_bind_eq_Inr bot_members_def split: prod.splits)

theorem hash_respects_eq_witness:
  "list_all2 py_eq [PStr ''utter_greet''] [PStr ''utter_greet'']"
proof (rule hash_respects_eq)
  show "class_of (body (ActionExecuted_init demo_runtime (PStr ''utter_greet'') (PStr ''p1'') (PNum 1) PNone PNone))
        \<notin> {CSlotSet, CReminderScheduled, CReminderCancelled, CFormValidation, CUserUttered}"
    by (simp add: ActionExecuted_init_def Event_init_def)
  show "event_eq (ActionExecuted_init demo_runtime (PStr ''utter_greet'') (PStr ''p1'') (PNum 1) PNone PNone)
                 (ActionExecuted_init demo_runtime (PStr ''utter_greet'') (PStr ''p2'') (PNum 0) PNone PNone) = Inr True"
    by (simp add: ActionExecuted_init_def)
  show "hash_key demo_runtime (ActionExecuted_init demo_runtime (PStr ''utter_greet'') (PStr ''p1'') (PNum 1) PNone PNone)
        = Inr [PStr ''utter_greet'']"
    by (simp add: ActionExecuted_init_def Event_init_def hash_key_def hash_of_def)
  show "hash_key demo_runtime (ActionExecuted_init demo_runtime (PStr ''utter_greet'') (PStr ''p2'') (PNum 0) PNone PNone)
        = Inr [PStr ''utter_greet'']"
    by (simp add: ActionExecuted_init_def Event_init_def hash_key_def hash_of_def)
qed

text \<open>C7: Four classes break the hash contract (equal events must hash
  Python-equal tuples): \<open>SlotSet\<close> compares values with \<open>==\<close> but hashes
  their \<open>jsonpickle\<close> text, so any two equal values with different texts
  (\<open>True\<close> and \<open>1\<close>) give equal events with unequal hashed tuples;
  \<open>ReminderCancelled\<close> and \<open>FormValidation\<close> compare by type alone and
  \<open>ReminderScheduled\<close> by name alone, but hash the action name, the flag,
  and the action with date, flag and name.\<close>

theorem hash_contract_violations:
  assumes "py_hashable k" and "py_eq v v'" and "jsonpickle_encode v \<noteq> jsonpickle_encode v'"
    and "py_hashable a" and "py_hashable a'" and "\<not> py_eq a a'"
    and "list_all py_hashable [isoformat rt t, kill, n]"
  shows "event_eq (SlotSet_init rt k v ts md) (SlotSet_init rt' k v' ts' md') = Inr True
       \<and> hash_key rt (SlotSet_init rt k v ts md) = Inr [k, PStr (jsonpickle_encode v)]
       \<and> hash_key rt (SlotSet_init rt' k v' ts' md') = Inr [k, PStr (jsonpickle_encode v')]
       \<and> \<not> list_all2 py_eq [k, PStr (jsonpickle_encode v)] [k, PStr (jsonpickle_encode v')]
       \<and> event_eq (Event_init rt ts md (ReminderCancelled a)) (Event_init rt' ts' md' (ReminderCancelled a')) = Inr True
       \<and> hash_key rt (Event_init rt ts md (ReminderCancelled a)) = Inr [a]
       \<and> hash_key rt (Event_init rt' ts' md' (ReminderCancelled a')) = Inr [a']
       \<and> event_eq (Event_init rt ts md (FormValidation a)) (Event_init rt' ts' md' (FormValidation a')) = Inr True
       \<and> hash_key rt (Event_init rt ts md (FormValidation a)) = Inr [a]
       \<and> hash_key rt (Event_init rt' ts' md' (FormValidation a')) = Inr [a']
       \<and> event_eq (Event_init rt ts md (ReminderScheduled a t n kill)) (Event_init rt' ts' md' (ReminderScheduled a' t n kill)) = Inr True
       \<and> hash_key rt (Event_init rt ts md (ReminderScheduled a t n kill)) = Inr [a, isoformat rt t, kill, n]
       \<and> hash_key rt (Event_init rt' ts' md' (ReminderScheduled a' t n kill)) = Inr [a', isoformat rt t, kill, n]
       \<and> \<not> list_all2 py_eq [a, isoformat rt t, kill, n] [a', isoformat rt t, kill, n]"
  using assms
  by (simp add: SlotSet_init_def Event_init_def event_eq_def hash_key_def hash_of_def py_eq_def)

theorem hash_contract_violations_witness:
  "event_eq (SlotSet_init demo_runtime (PStr ''x'') (PBool True) PNone PNone)
            (SlotSet_init demo_runtime (PStr ''x'') (PNum 1) PNone PNone) = Inr True
   \<and> \<not> list_all2 py_eq [PStr ''x'', PStr (jsonpickle_encode (PBool True))] [PStr ''x'', PStr (jsonpickle_encode (PNum 1))]"
proof -
  have h: "jsonpickle_encode (PBool True) \<noteq> jsonpickle_encode (PNum 1)" by code_simp
  have e: "py_eq (PBool True) (PNum 1)" by code_simp
  show ?thesis
    using hash_contract_violations[of "PStr ''x''" "PBool True" "PNum 1" "PStr ''a''" "PStr ''b''" demo_runtime
            "PStr ''t''" "PBool True" "PStr ''r''" PNone PNone demo_runtime PNone PNone] h e
    by (simp add: demo_runtime_def py_eq_def)
qed

end
