(* ===== verification/Registry.thy ===== *)
theory Registry
  imports Events
begin

text \<open>
  \<open>Event.resolve_by_type\<close>: the search of the subclasses of \<open>Event\<close> for
  the one whose \<open>type_name\<close> equals the given tag, the legacy tag
  \<open>topic\<close> that resolves to no class, the caller's default, and the
  \<open>ValueError\<close> for any other tag. \<open>utils.all_subclasses(Event)\<close> is the
  static list of the classes of the module in definition order, as the design
  notes of the repository prescribe. The abstract registry is a finite map from
  tags to classes; the lemmas show that the search implements it and that the
  tags are unique.
\<close>

section \<open>The class table\<close>

definition event_classes :: "event_class list" where
  "event_classes =
     [CUserUttered, CBotUttered, CSlotSet, CRestarted, CUserUtteranceReverted,
      CAllSlotsReset, CReminderScheduled, CReminderCancelled, CActionReverted,
      CStoryExported, CFollowupAction, CConversationPaused, CConversationResumed,
      CActionExecuted, CAgentUttered, CForm, CFormValidation, CActionExecutionRejected]"

text \<open>
  \<open>resolve_by_type(type_name, default)\<close>. The tag is any Python value: it is
  read from a dict; \<open>cls.type_name == type_name\<close> is Python equality.
\<close>

definition resolve_by_type :: "pyval \<Rightarrow> event_class option \<Rightarrow> py_error + event_class option" where
  "resolve_by_type tn dflt =
     (case find (\<lambda>c. py_eq (PStr (type_name c)) tn) event_classes of
        Some c \<Rightarrow> Inr (Some c)
      | None \<Rightarrow>
          if py_eq tn (PStr ''topic'') then Inr None
          else (case dflt of
                  Some d \<Rightarrow> Inr (Some d)
                | None \<Rightarrow> Inl (UnknownEventName tn)))"

text \<open>The abstract registry: tag to class.\<close>

definition registry :: "string \<rightharpoonup> event_class" where
  "registry = map_of (map (\<lambda>c. (type_name c, c)) event_classes)"

section \<open>Lemmas\<close>

lemma py_eq_PStr [simp, py_simps]: "py_eq (PStr s) v \<longleftrightarrow> v = PStr s"
  by (cases v) (auto simp: py_eq_def)

lemma event_classes_complete [simp]: "c \<in> set event_classes"
  by (cases c) (simp_all add: event_classes_def)

lemma type_name_inj: "type_name c = type_name c' \<longleftrightarrow> c = c'"
  by (cases c; cases c'; simp)

lemma find_type_name_map_of:
  "find (\<lambda>c. s = type_name c) cs = map_of (map (\<lambda>c. (type_name c, c)) cs) s"
  by (induction cs) auto

lemma find_type_name:
  "find (\<lambda>c. py_eq (PStr (type_name c)) tn) event_classes =
     (case tn of PStr s \<Rightarrow> registry s | _ \<Rightarrow> None)"
  by (cases tn) (simp_all add: find_type_name_map_of registry_def, simp_all add: event_classes_def)

lemma registry_Some_iff: "registry s = Some c \<longleftrightarrow> type_name c = s"
  by (cases c) (auto simp: registry_def event_classes_def split: if_splits)

lemma registry_type_name [simp]: "registry (type_name c) = Some c"
  by (simp add: registry_Some_iff)

lemma registry_None_iff: "registry s = None \<longleftrightarrow> s \<notin> type_name ` set event_classes"
  by (simp add: registry_def map_of_eq_None_iff image_image)

lemma resolve_by_type_str:
  "resolve_by_type (PStr s) dflt =
     (case registry s of
        Some c \<Rightarrow> Inr (Some c)
      | None \<Rightarrow> if s = ''topic'' then Inr None
                else (case dflt of Some d \<Rightarrow> Inr (Some d) | None \<Rightarrow> Inl (UnknownEventName (PStr s))))"
  unfolding resolve_by_type_def find_type_name by simp

lemma resolve_by_type_tag: "resolve_by_type (PStr (type_name c)) dflt = Inr (Some c)"
  by (simp add: resolve_by_type_str)

text \<open>C4: Every class is found by its own tag, and the legacy tag \<open>topic\<close>
  resolves to no class and raises nothing, whatever default the caller gives;
  an unregistered tag other than \<open>topic\<close> raises \<open>ValueError\<close> without a
  default and resolves to the default with one.\<close>

theorem resolve_by_type_outcomes:
  "resolve_by_type (PStr (type_name c)) dflt = Inr (Some c)
   \<and> resolve_by_type (PStr ''topic'') dflt = Inr None
   \<and> (s \<notin> type_name ` set event_classes \<and> s \<noteq> ''topic'' \<longrightarrow>
        resolve_by_type (PStr s) None = Inl (UnknownEventName (PStr s))
      \<and> resolve_by_type (PStr s) (Some d) = Inr (Some d))"
proof -
  have "registry ''topic'' = None"
    by (simp add: registry_None_iff event_classes_def)
  then show ?thesis by (simp add: resolve_by_type_str resolve_by_type_tag registry_None_iff[symmetric])
qed

theorem resolve_by_type_outcomes_witness:
  "resolve_by_type (PStr ''not_a_real_tag'') None = Inl (UnknownEventName (PStr ''not_a_real_tag''))
   \<and> resolve_by_type (PStr ''not_a_real_tag'') (Some CSlotSet) = Inr (Some CSlotSet)"
  using resolve_by_type_outcomes[of CSlotSet None "''not_a_real_tag''" CSlotSet]
  by (simp add: event_classes_def)

end
