(* ===== verification/DictCodec.thy ===== *)
theory DictCodec
  imports Registry
begin

text \<open>
  The dict codec of the events module: \<open>as_dict\<close> of every class (the base
  \<open>Event.as_dict\<close> and the \<open>d.update(...)\<close> each subclass adds), the
  per-class decoders \<open>_from_story_string\<close> and \<open>_from_parameters\<close> (the
  base versions and every override), the dispatcher \<open>Event.from_parameters\<close>
  and the batch loader \<open>deserialise_events\<close>. Every exception the code can
  raise on the way is an \<open>Inl\<close> value.
\<close>

section \<open>Encoding\<close>

text \<open>
  \<open>Event.as_dict\<close>: tag and timestamp, and the metadata only when it is
  truthy.
\<close>

definition base_as_dict :: "event \<Rightarrow> pydict" where
  "base_as_dict e =
     [(''event'', PStr (type_name (class_of (body e)))), (''timestamp'', timestamp e)]
     @ (if py_truthy (metadata e) then [(''metadata'', metadata e)] else [])"

text \<open>\<open>ReminderScheduled._data_obj\<close>.\<close>

definition reminder_data_obj :: "runtime \<Rightarrow> pyval \<Rightarrow> pyval \<Rightarrow> pyval \<Rightarrow> pyval \<Rightarrow> pydict" where
  "reminder_data_obj rt action_name trigger name kill =
     [(''action'', action_name), (''date_time'', isoformat rt trigger),
      (''name'', name), (''kill_on_user_msg'', kill)]"

text \<open>
  The items each subclass's \<open>as_dict\<close> adds with \<open>d.update\<close>; the classes
  that do not override \<open>as_dict\<close> add none.
\<close>

definition as_dict_items :: "runtime \<Rightarrow> event \<Rightarrow> pydict" where
  "as_dict_items rt e = (case body e of
      UserUttered t _ _ pd ic mid \<Rightarrow>
        [(''text'', t), (''parse_data'', pd), (''input_channel'', ic),
         (''message_id'', mid), (''metadata'', metadata e)]
    | BotUttered t d \<Rightarrow> [(''text'', t), (''data'', d), (''metadata'', metadata e)]
    | SlotSet k v \<Rightarrow> [(''name'', k), (''value'', v)]
    | ReminderScheduled a trig n kill \<Rightarrow> reminder_data_obj rt a trig n kill
    | FollowupAction a \<Rightarrow> [(''name'', a)]
    | ActionExecuted a p c \<Rightarrow> [(''name'', a), (''policy'', p), (''confidence'', c)]
    | AgentUttered t d \<Rightarrow> [(''text'', t), (''data'', d)]
    | Form n \<Rightarrow> [(''name'', n)]
    | FormValidation v \<Rightarrow> [(''validate'', v)]
    | ActionExecutionRejected a p c \<Rightarrow> [(''name'', a), (''policy'', p), (''confidence'', c)]
    | _ \<Rightarrow> [])"

definition as_dict :: "runtime \<Rightarrow> event \<Rightarrow> pydict" where
  "as_dict rt e = dict_update (base_as_dict e) (as_dict_items rt e)"

section \<open>Decoding\<close>

text \<open>
  \<open>UserUttered._from_parse_data\<close>: \<open>parse_data.get(...)\<close> raises
  \<open>AttributeError\<close> when \<open>parse_data\<close> is not a dict (the
  \<open>except KeyError\<close> around it never fires).
\<close>

definition UserUttered_from_parse_data ::
  "runtime \<Rightarrow> pyval \<Rightarrow> pyval \<Rightarrow> pyval \<Rightarrow> pyval \<Rightarrow> pyval \<Rightarrow> pyval \<Rightarrow> py_error + event" where
  "UserUttered_from_parse_data rt text parse_data ts input_channel message_id md =
     err_bind (py_get parse_data ''intent'' PNone) (\<lambda>intent.
     err_bind (py_get parse_data ''entities'' (PList [])) (\<lambda>entities.
       Inr (UserUttered_init rt text intent entities parse_data ts input_channel message_id md)))"

text \<open>
  \<open>cls._from_story_string(parameters)\<close> for each class: the overrides of
  \<open>UserUttered\<close>, \<open>SlotSet\<close> (one event per item, \<open>None\<close> for no
  items), \<open>ReminderScheduled\<close> (which parses the date first),
  \<open>ReminderCancelled\<close>, \<open>StoryExported\<close>, \<open>FollowupAction\<close>,
  \<open>ActionExecuted\<close> and \<open>Form\<close>; every other class inherits
  \<open>Event._from_story_string\<close>, the call \<open>cls(timestamp, metadata)\<close>.
\<close>

definition from_story_string_cls ::
  "runtime \<Rightarrow> event_class \<Rightarrow> pydict \<Rightarrow> py_error + event list option" where
  "from_story_string_cls rt c params = (let get = dict_get params in case c of
      CUserUttered \<Rightarrow>
        err_bind (UserUttered_from_parse_data rt (get ''text'') (get ''parse_data'') (get ''timestamp'')
                    (get ''input_channel'') (get ''message_id'') (get ''metadata''))
          (\<lambda>e. Inr (Some [e]))
    | CSlotSet \<Rightarrow>
        (let slots = map (\<lambda>kv. SlotSet_init rt (PStr (fst kv)) (snd kv) PNone PNone) params
         in Inr (if slots \<noteq> [] then Some slots else None))
    | CReminderScheduled \<Rightarrow>
        (case parse_date rt (get ''date_time'') of
           None \<Rightarrow> Inl DateParseError
         | Some trigger \<Rightarrow>
             Inr (Some [ReminderScheduled_init rt (get ''action'') trigger
                          (dict_get_default params ''name'' PNone)
                          (dict_get_default params ''kill_on_user_msg'' (PBool True))
                          (get ''timestamp'') (get ''metadata'')]))
    | CReminderCancelled \<Rightarrow>
        Inr (Some [Event_init rt (get ''timestamp'') (get ''metadata'') (ReminderCancelled (get ''action''))])
    | CStoryExported \<Rightarrow>
        Inr (Some [Event_init rt (get ''timestamp'') (get ''metadata'') (StoryExported (get ''path''))])
    | CFollowupAction \<Rightarrow>
        Inr (Some [Event_init rt (get ''timestamp'') (get ''metadata'') (FollowupAction (get ''name''))])
    | CActionExecuted \<Rightarrow>
        Inr (Some [ActionExecuted_init rt (get ''name'') (get ''policy'') (get ''confidence'')
                     (get ''timestamp'') (get ''metadata'')])
    | CForm \<Rightarrow>
        Inr (Some [Event_init rt (get ''timestamp'') (get ''metadata'') (Form (get ''name''))])
    | _ \<Rightarrow> Inr (Some [call2 rt c (get ''timestamp'') (get ''metadata'')]))"

text \<open>
  \<open>Event._from_parameters\<close>: the first event of \<open>_from_story_string\<close>;
  \<open>len(result)\<close> raises \<open>TypeError\<close> on \<open>None\<close>.
\<close>

definition base_from_parameters :: "runtime \<Rightarrow> event_class \<Rightarrow> pydict \<Rightarrow> py_error + event option" where
  "base_from_parameters rt c params =
     err_bind (from_story_string_cls rt c params) (\<lambda>result.
       case result of
         None \<Rightarrow> Inl TypeError
       | Some es \<Rightarrow> Inr (case es of [] \<Rightarrow> None | e # _ \<Rightarrow> Some e))"

text \<open>
  \<open>cls._from_parameters(parameters)\<close>: the overrides of \<open>BotUttered\<close>,
  \<open>SlotSet\<close>, \<open>AgentUttered\<close>, \<open>FormValidation\<close> and
  \<open>ActionExecutionRejected\<close>, the base version for the other classes.
\<close>

definition from_parameters_cls :: "runtime \<Rightarrow> event_class \<Rightarrow> pydict \<Rightarrow> py_error + event option" where
  "from_parameters_cls rt c params = (let get = dict_get params in case c of
      CBotUttered \<Rightarrow>
        Inr (Some (BotUttered_init rt (get ''text'') (get ''data'') (get ''metadata'') (get ''timestamp'')))
    | CSlotSet \<Rightarrow>
        Inr (Some (SlotSet_init rt (get ''name'') (get ''value'') (get ''timestamp'') (get ''metadata'')))
    | CAgentUttered \<Rightarrow>
        Inr (Some (AgentUttered_init rt (get ''text'') (get ''data'') (get ''timestamp'') (get ''metadata'')))
    | CFormValidation \<Rightarrow>
        Inr (Some (Event_init rt (get ''timestamp'') (get ''metadata'') (FormValidation (get ''validate''))))
    | CActionExecutionRejected \<Rightarrow>
        Inr (Some (ActionExecutionRejected_init rt (get ''name'') (get ''policy'') (get ''confidence'')
                     (get ''timestamp'') (get ''metadata'')))
    | _ \<Rightarrow> base_from_parameters rt c params)"

text \<open>
  \<open>Event.from_parameters(parameters, default)\<close>: no event without an
  \<open>event\<close> key (or with \<open>None\<close> there), otherwise the resolved class's
  decoder.
\<close>

definition from_parameters :: "runtime \<Rightarrow> pydict \<Rightarrow> event_class option \<Rightarrow> py_error + event option" where
  "from_parameters rt params dflt =
     (let event_name = dict_get params ''event'' in
      if event_name = PNone then Inr None
      else err_bind (resolve_by_type event_name dflt) (\<lambda>cls.
             case cls of None \<Rightarrow> Inr None | Some c \<Rightarrow> from_parameters_cls rt c params))"

text \<open>
  \<open>deserialise_events\<close>: the records with an \<open>event\<close> key are decoded in
  order without a default; a record that decodes to no event is skipped with
  a warning; an exception of any record propagates out of the loop.
\<close>

fun deserialise_events :: "runtime \<Rightarrow> pydict list \<Rightarrow> py_error + event list" where
  "deserialise_events rt [] = Inr []"
| "deserialise_events rt (e # es) =
     (if dict_has e ''event'' then
        err_bind (from_parameters rt e None) (\<lambda>r.
        err_bind (deserialise_events rt es) (\<lambda>rest.
          Inr (case r of None \<Rightarrow> rest | Some ev \<Rightarrow> ev # rest)))
      else deserialise_events rt es)"

text \<open>
  \<open>first_key(d, default_key)\<close>: with several keys the first one other than
  the default key (\<open>None\<close> when the loop finds none), with one key that key,
  with none \<open>None\<close>.
\<close>

definition first_key :: "pydict \<Rightarrow> string \<Rightarrow> string option" where
  "first_key d default_key =
     (if 1 < length d then find (\<lambda>k. k \<noteq> default_key) (map fst d)
      else if length d = 1 then Some (fst (hd d))
      else None)"

section \<open>Well-formed events\<close>

text \<open>
  What every constructor guarantees and the decoder needs back: a truthy
  timestamp (the clock is truthy), metadata that is truthy or the empty dict,
  and per class: a \<open>UserUttered\<close> whose \<open>parse_data\<close> is a non-empty dict
  agreeing with its intent and entities, a \<open>BotUttered\<close> whose data is
  truthy or \<open>{}\<close>, a \<open>ReminderScheduled\<close> with a name whose trigger
  survives \<open>isoformat\<close> and \<open>parse\<close>.
\<close>

fun wf_payload :: "runtime \<Rightarrow> payload \<Rightarrow> bool" where
  "wf_payload rt (UserUttered t i es pd ic mid) = (case pd of
      PDict d \<Rightarrow> d \<noteq> [] \<and> py_or (dict_get d ''intent'') (PDict []) = i
                \<and> py_or (dict_get_default d ''entities'' (PList [])) (PList []) = es
    | _ \<Rightarrow> False)"
| "wf_payload rt (BotUttered t d) = (py_truthy d \<or> d = PDict [])"
| "wf_payload rt (ReminderScheduled a trig n kill) =
     (n \<noteq> PNone \<and> parse_date rt (isoformat rt trig) = Some trig)"
| "wf_payload rt _ = True"

definition wf_event :: "runtime \<Rightarrow> event \<Rightarrow> bool" where
  "wf_event rt e \<longleftrightarrow> py_truthy (timestamp e) \<and> (py_truthy (metadata e) \<or> metadata e = PDict [])
     \<and> wf_payload rt (body e)"

text \<open>
  The event the dict form describes: \<open>as_dict\<close> of \<open>ReminderCancelled\<close>
  and \<open>StoryExported\<close> is the base one, without the action name and the
  path, which decode as \<open>None\<close>.
\<close>

fun dict_image_payload :: "payload \<Rightarrow> payload" where
  "dict_image_payload (ReminderCancelled _) = ReminderCancelled PNone"
| "dict_image_payload (StoryExported _) = StoryExported PNone"
| "dict_image_payload p = p"

definition dict_image :: "event \<Rightarrow> event" where
  "dict_image e = e\<lparr>body := dict_image_payload (body e)\<rparr>"

text \<open>
  The date helpers agree: what \<open>parse\<close> produces survives
  \<open>isoformat\<close> followed by \<open>parse\<close>.
\<close>

definition parse_iso_ok :: "runtime \<Rightarrow> bool" where
  "parse_iso_ok rt \<longleftrightarrow> (\<forall>v t. parse_date rt v = Some t \<longrightarrow> parse_date rt (isoformat rt t) = Some t)"

section \<open>Lemmas\<close>

lemmas codec_defs = from_parameters_cls_def base_from_parameters_def from_story_string_cls_def
  UserUttered_from_parse_data_def UserUttered_init_def BotUttered_init_def SlotSet_init_def
  ReminderScheduled_init_def ActionExecuted_init_def AgentUttered_init_def
  ActionExecutionRejected_init_def Event_init_def

lemmas init_defs = BotUttered_init_def SlotSet_init_def ActionExecuted_init_def
  AgentUttered_init_def ActionExecutionRejected_init_def ReminderScheduled_init_def

lemmas as_dict_defs = as_dict_def as_dict_items_def base_as_dict_def reminder_data_obj_def

lemma event_literal_update [simp]:
  "\<lparr>timestamp = timestamp e, metadata = metadata e, body = b\<rparr> = e\<lparr>body := b\<rparr>"
  by (cases e) simp

lemma as_dict_event: "dict_get (as_dict rt e) ''event'' = PStr (type_name (class_of (body e)))"
  by (cases "body e") (simp_all add: as_dict_defs)

lemma as_dict_timestamp: "dict_get (as_dict rt e) ''timestamp'' = timestamp e"
  by (cases "body e") (simp_all add: as_dict_defs)

lemma from_parameters_as_dict:
  "from_parameters rt (as_dict rt e) dflt = from_parameters_cls rt (class_of (body e)) (as_dict rt e)"
  by (simp add: from_parameters_def as_dict_event resolve_by_type_tag)

lemma from_parameters_tag:
  "dict_get params ''event'' = PStr (type_name c) \<Longrightarrow>
   from_parameters rt params dflt = from_parameters_cls rt c params"
  by (simp add: from_parameters_def resolve_by_type_tag)

lemma from_parameters_cls_as_dict:
  assumes "wf_event rt e"
  shows "from_parameters_cls rt (class_of (body e)) (as_dict rt e) = Inr (Some (dict_image e))"
proof -
  from assms have ts: "py_truthy (timestamp e)" and md: "py_truthy (metadata e) \<or> metadata e = PDict []"
    and wp: "wf_payload rt (body e)" by (simp_all add: wf_event_def)
  then show ?thesis
    by (cases "body e")
       (auto simp: codec_defs as_dict_defs dict_image_def py_or_def split: pyval.splits)
qed

lemma dict_image_id:
  "class_of (body e) \<notin> {CReminderCancelled, CStoryExported} \<Longrightarrow> dict_image e = e"
  by (cases "body e") (simp_all add: dict_image_def)

lemma from_parameters_as_dict_wf:
  "wf_event rt e \<Longrightarrow> from_parameters rt (as_dict rt e) dflt = Inr (Some (dict_image e))"
  by (simp add: from_parameters_as_dict from_parameters_cls_as_dict)

subsection \<open>Constructors and decoders produce well-formed events\<close>

lemma wf_Event_init:
  "py_truthy (now rt) \<Longrightarrow> wf_payload rt p \<Longrightarrow> wf_event rt (Event_init rt ts md p)"
  by (simp add: wf_event_def Event_init_def py_or_def)

lemma wf_UserUttered_init:
  assumes "py_truthy (now rt)"
    and "\<not> py_truthy parse_data \<or>
         (\<exists>d. parse_data = PDict d \<and> py_or (dict_get d ''intent'') (PDict []) = py_or intent (PDict [])
              \<and> py_or (dict_get_default d ''entities'' (PList [])) (PList []) = py_or entities (PList []))"
  shows "wf_event rt (UserUttered_init rt text intent entities parse_data ts ic mid md)"
  using assms unfolding UserUttered_init_def Let_def
  by (intro wf_Event_init) auto

lemma call2_wf:
  "py_truthy (now rt) \<Longrightarrow> c \<noteq> CUserUttered \<Longrightarrow> c \<noteq> CReminderScheduled
   \<Longrightarrow> wf_event rt (call2 rt c a b)"
  by (cases c) (auto intro!: wf_Event_init simp: init_defs py_or_def)

lemma from_story_string_cls_wf:
  assumes "py_truthy (now rt)" "fresh_uuid rt \<noteq> PNone" "parse_iso_ok rt"
    and "from_story_string_cls rt c params = Inr (Some es)" and "e \<in> set es"
  shows "wf_event rt e"
  using assms
  by (cases c)
     (auto simp: from_story_string_cls_def UserUttered_from_parse_data_def Let_def err_bind_eq_Inr
        py_get_Inr init_defs parse_iso_ok_def py_or_def
        intro!: wf_UserUttered_init wf_Event_init call2_wf split: option.splits if_splits)

lemma base_from_parameters_Some:
  assumes "base_from_parameters rt c params = Inr (Some e)"
  shows "\<exists>es. from_story_string_cls rt c params = Inr (Some es) \<and> e \<in> set es"
proof (cases "from_story_string_cls rt c params")
  case (Inl err)
  with assms show ?thesis by (simp add: base_from_parameters_def)
next
  case (Inr r)
  with assms show ?thesis
    by (cases r) (auto simp: base_from_parameters_def split: list.splits)
qed

lemma from_parameters_cls_wf:
  assumes "py_truthy (now rt)" "fresh_uuid rt \<noteq> PNone" "parse_iso_ok rt"
    and "from_parameters_cls rt c params = Inr (Some e)"
  shows "wf_event rt e"
proof (cases "c \<in> {CBotUttered, CSlotSet, CAgentUttered, CFormValidation, CActionExecutionRejected}")
  case True
  with assms(1,4) show ?thesis
    by (auto simp: from_parameters_cls_def init_defs py_or_def intro!: wf_Event_init)
next
  case False
  with assms(4) have "base_from_parameters rt c params = Inr (Some e)"
    by (cases c) (simp_all add: from_parameters_cls_def)
  then obtain es where "from_story_string_cls rt c params = Inr (Some es)" and "e \<in> set es"
    by (blast dest: base_from_parameters_Some)
  with assms(1-3) show ?thesis by (rule from_story_string_cls_wf)
qed

lemma from_parameters_Some:
  "from_parameters rt params dflt = Inr (Some e) \<Longrightarrow>
   \<exists>c. from_parameters_cls rt c params = Inr (Some e)"
  by (auto simp: from_parameters_def Let_def err_bind_eq_Inr split: if_splits option.splits)

lemma decoded_wf:
  "py_truthy (now rt) \<Longrightarrow> fresh_uuid rt \<noteq> PNone \<Longrightarrow> parse_iso_ok rt \<Longrightarrow>
   from_parameters rt params dflt = Inr (Some e) \<Longrightarrow> wf_event rt e"
  by (blast dest: from_parameters_Some intro: from_parameters_cls_wf)

text \<open>C1: Dict round trip: decoding the dict form of a well-formed event gives the
  event back, field for field, except the action name of \<open>ReminderCancelled\<close>
  and the path of \<open>StoryExported\<close>, which the dict form does not carry;
  the default class the caller passes plays no part.\<close>

theorem dict_roundtrip:
  assumes "wf_event rt e"
  shows "from_parameters rt (as_dict rt e) dflt = Inr (Some (dict_image e))"
  using assms by (rule from_parameters_as_dict_wf)

theorem dict_roundtrip_witness:
  "from_parameters demo_runtime
     (as_dict demo_runtime (UserUttered_init demo_runtime (PStr ''hi'') (PDict [(''name'', PStr ''greet'')])
        PNone PNone PNone PNone PNone PNone)) None
   = Inr (Some (dict_image (UserUttered_init demo_runtime (PStr ''hi'') (PDict [(''name'', PStr ''greet'')])
        PNone PNone PNone PNone PNone PNone)))"
  by (rule dict_roundtrip)
     (simp add: wf_event_def UserUttered_init_def Event_init_def demo_runtime_def py_or_def Let_def)

lemma from_parameters_unknown:
  assumes "dict_get e ''event'' = PStr s" and "s \<notin> type_name ` set event_classes"
    and "s \<noteq> ''topic''"
  shows "from_parameters rt e None = Inl (UnknownEventName (PStr s))"
  using assms by (simp add: from_parameters_def resolve_by_type_str registry_None_iff[symmetric])

lemma dict_has_of_get: "dict_get e k \<noteq> PNone \<Longrightarrow> dict_has e k"
  by (auto simp: dict_has_dom dict_get_default_def split: option.splits)

lemma deserialise_events_Inl_append:
  "deserialise_events rt xs = Inl err \<Longrightarrow> \<exists>err'. deserialise_events rt (pre @ xs) = Inl err'"
proof (induction pre)
  case Nil
  then show ?case by simp
next
  case (Cons e pre)
  then obtain err' where IH: "deserialise_events rt (pre @ xs) = Inl err'" by blast
  show ?case
    by (cases "from_parameters rt e None") (auto simp: IH)
qed

text \<open>C2: One record with an unknown tag aborts the whole batch: whatever records
  precede and follow it, \<open>deserialise_events\<close> raises instead of skipping
  the record (the repository's specification says it is dropped with a
  warning).\<close>

theorem deserialise_events_unknown_aborts:
  assumes "dict_get e ''event'' = PStr s" and "s \<notin> type_name ` set event_classes"
    and "s \<noteq> ''topic''"
  shows "\<exists>err. deserialise_events rt (pre @ e # post) = Inl err"
proof -
  have "dict_has e ''event''" using assms(1) by (simp add: dict_has_of_get)
  with from_parameters_unknown[OF assms]
  have "deserialise_events rt (e # post) = Inl (UnknownEventName (PStr s))" by simp
  then show ?thesis by (rule deserialise_events_Inl_append)
qed

theorem deserialise_events_unknown_aborts_witness:
  "\<exists>err. deserialise_events demo_runtime
     ([[(''event'', PStr ''slot''), (''name'', PStr ''a''), (''value'', PNum 1)]]
      @ [(''event'', PStr ''bogus'')]
      # [[(''event'', PStr ''slot''), (''name'', PStr ''b''), (''value'', PNum 2)]]) = Inl err"
  by (rule deserialise_events_unknown_aborts[where s = "''bogus''"]) (simp_all add: event_classes_def)

text \<open>C3: When every record with an \<open>event\<close> key decodes without an exception,
  \<open>deserialise_events\<close> is the in-order list of the decoded events: records
  without the key and records that decode to no event are skipped, nothing is
  reordered.\<close>

theorem deserialise_events_map_filter:
  assumes "\<forall>e \<in> set es. dict_has e ''event'' \<longrightarrow> from_parameters rt e None = Inr (dec e)"
  shows "deserialise_events rt es = Inr (List.map_filter (\<lambda>e. if dict_has e ''event'' then dec e else None) es)"
  using assms
proof (induction es)
  case Nil
  then show ?case by (simp add: map_filter_simps)
next
  case (Cons e es)
  then show ?case by (cases "dec e") (auto simp: map_filter_simps)
qed

theorem deserialise_events_map_filter_witness:
  "deserialise_events demo_runtime
     [[(''event'', PStr ''topic'')], [(''name'', PStr ''x'')],
      [(''event'', PStr ''action''), (''name'', PStr ''action_listen'')]]
   = Inr (List.map_filter (\<lambda>e. if dict_has e ''event'' then
              (case e of [(_, PStr ''topic'')] \<Rightarrow> None
               | _ \<Rightarrow> Some (ActionExecuted_init demo_runtime (PStr ''action_listen'') PNone PNone PNone PNone))
            else None)
          [[(''event'', PStr ''topic'')], [(''name'', PStr ''x'')],
           [(''event'', PStr ''action''), (''name'', PStr ''action_listen'')]])"
  by (rule deserialise_events_map_filter)
     (simp add: from_parameters_def resolve_by_type_str registry_def event_classes_def
        codec_defs dict_has_def)

text \<open>C5: Every event \<open>Event.from_parameters\<close> returns is well formed: its
  timestamp is set (a missing one is the clock's), its metadata is a truthy
  value or the empty dict and never \<open>None\<close>, a user message carries a
  \<open>parse_data\<close> dict that agrees with its intent and entities, a reminder
  has a name. The clock must be truthy, the uuid not \<open>None\<close>, and the date
  helpers must agree.\<close>

theorem from_parameters_wf:
  assumes "py_truthy (now rt)" and "fresh_uuid rt \<noteq> PNone" and "parse_iso_ok rt"
    and "from_parameters rt params dflt = Inr (Some e)"
  shows "wf_event rt e"
  using assms by (rule decoded_wf)

theorem from_parameters_wf_witness:
  "wf_event demo_runtime (SlotSet_init demo_runtime (PStr ''a'') (PNum 1) PNone PNone)"
proof -
  have "from_parameters demo_runtime [(''event'', PStr ''slot''), (''name'', PStr ''a''), (''value'', PNum 1)] None
        = Inr (Some (SlotSet_init demo_runtime (PStr ''a'') (PNum 1) PNone PNone))"
    by (simp add: from_parameters_def resolve_by_type_str registry_def event_classes_def
        from_parameters_cls_def)
  then show ?thesis
    by (rule from_parameters_wf[rotated 3]) (auto simp: demo_runtime_def parse_iso_ok_def split: pyval.splits)
qed

subsection \<open>User messages\<close>

text \<open>C11: A user message built without \<open>parse_data\<close> survives the dict
  round trip exactly: the \<open>parse_data\<close> the constructor builds carries the
  intent and entities the decoder reads back.\<close>

theorem user_uttered_roundtrip:
  assumes "py_truthy (now rt)" and "\<not> py_truthy parse_data"
  shows "from_parameters rt (as_dict rt (UserUttered_init rt text intent entities parse_data ts ic mid md)) dflt
         = Inr (Some (UserUttered_init rt text intent entities parse_data ts ic mid md))"
proof -
  let ?e = "UserUttered_init rt text intent entities parse_data ts ic mid md"
  have "wf_event rt ?e" using assms by (intro wf_UserUttered_init) simp_all
  then have "from_parameters rt (as_dict rt ?e) dflt = Inr (Some (dict_image ?e))"
    by (rule from_parameters_as_dict_wf)
  moreover have "dict_image ?e = ?e"
    by (rule dict_image_id) (simp add: UserUttered_init_def Event_init_def Let_def)
  ultimately show ?thesis by simp
qed

theorem user_uttered_roundtrip_witness:
  "from_parameters demo_runtime (as_dict demo_runtime
      (UserUttered_init demo_runtime (PStr ''hi'') (PDict [(''name'', PStr ''greet'')]) PNone PNone PNone PNone PNone PNone)) None
   = Inr (Some (UserUttered_init demo_runtime (PStr ''hi'') (PDict [(''name'', PStr ''greet'')]) PNone PNone PNone PNone PNone PNone))"
  by (rule user_uttered_roundtrip) (simp_all add: demo_runtime_def)

text \<open>C13: The dict round trip of a user message built with an explicit
  \<open>parse_data\<close> dict rebuilds the message from \<open>parse_data\<close> alone: its intent
  and entities are those of \<open>parse_data\<close>, whatever the \<open>intent\<close> and
  \<open>entities\<close> arguments were, so the event changes whenever the two intents
  disagree.\<close>

theorem user_parse_data_mismatch:
  assumes "d \<noteq> []"
  shows "from_parameters rt (as_dict rt (UserUttered_init rt text intent entities (PDict d) ts ic mid md)) dflt
         = Inr (Some (UserUttered_init rt text (dict_get_default d ''intent'' PNone)
                        (dict_get_default d ''entities'' (PList [])) (PDict d)
                        (timestamp (UserUttered_init rt text intent entities (PDict d) ts ic mid md)) ic mid
                        (metadata (UserUttered_init rt text intent entities (PDict d) ts ic mid md))))
       \<and> (py_or (dict_get_default d ''intent'' PNone) (PDict []) \<noteq> py_or intent (PDict []) \<longrightarrow>
          body (UserUttered_init rt text (dict_get_default d ''intent'' PNone)
                  (dict_get_default d ''entities'' (PList [])) (PDict d) ts' ic mid md')
          \<noteq> body (UserUttered_init rt text intent entities (PDict d) ts ic mid md))"
proof (intro conjI impI)
  let ?e = "UserUttered_init rt text intent entities (PDict d) ts ic mid md"
  have "from_parameters rt (as_dict rt ?e) dflt = from_parameters_cls rt CUserUttered (as_dict rt ?e)"
    by (simp add: from_parameters_as_dict UserUttered_init_def Event_init_def Let_def)
  also have "\<dots> = Inr (Some (UserUttered_init rt text (dict_get_default d ''intent'' PNone)
                        (dict_get_default d ''entities'' (PList [])) (PDict d) (timestamp ?e) ic mid (metadata ?e)))"
    using assms by (simp add: codec_defs as_dict_defs Let_def)
  finally show "from_parameters rt (as_dict rt ?e) dflt = Inr (Some (UserUttered_init rt text (dict_get_default d ''intent'' PNone)
                        (dict_get_default d ''entities'' (PList [])) (PDict d) (timestamp ?e) ic mid (metadata ?e)))" .
next
  assume "py_or (dict_get_default d ''intent'' PNone) (PDict []) \<noteq> py_or intent (PDict [])"
  then show "body (UserUttered_init rt text (dict_get_default d ''intent'' PNone)
                  (dict_get_default d ''entities'' (PList [])) (PDict d) ts' ic mid md')
          \<noteq> body (UserUttered_init rt text intent entities (PDict d) ts ic mid md)"
    by (simp add: UserUttered_init_def Event_init_def Let_def)
qed

theorem user_parse_data_mismatch_witness:
  "from_parameters demo_runtime (as_dict demo_runtime (UserUttered_init demo_runtime (PStr ''hi'')
       (PDict [(''name'', PStr ''greet'')]) PNone (PDict [(''intent'', PDict [(''name'', PStr ''bye'')])]) PNone PNone PNone PNone)) None
   = Inr (Some (UserUttered_init demo_runtime (PStr ''hi'') (PDict [(''name'', PStr ''bye'')]) (PList [])
       (PDict [(''intent'', PDict [(''name'', PStr ''bye'')])]) (PNum 1700000000) PNone PNone (PDict [])))"
  using user_parse_data_mismatch[of "[(''intent'', PDict [(''name'', PStr ''bye'')])]" demo_runtime "PStr ''hi''"
          "PDict [(''name'', PStr ''greet'')]" PNone PNone PNone PNone PNone None]
  by (simp add: UserUttered_init_def Event_init_def demo_runtime_def Let_def)

subsection \<open>The metadata key\<close>

text \<open>C12: \<open>UserUttered.as_dict\<close> and \<open>BotUttered.as_dict\<close> always write the
  \<open>metadata\<close> key, also when the metadata is empty (the repository's
  specification says the key is omitted when empty); for every other class
  the dict form has a \<open>metadata\<close> key exactly when the metadata is
  non-empty, and then it holds the metadata.\<close>

theorem as_dict_metadata:
  "(class_of (body e) \<in> {CUserUttered, CBotUttered} \<longrightarrow>
      dict_has (as_dict rt e) ''metadata'' \<and> dict_get (as_dict rt e) ''metadata'' = metadata e)
   \<and> (class_of (body e) \<notin> {CUserUttered, CBotUttered} \<longrightarrow>
      (dict_has (as_dict rt e) ''metadata'' \<longleftrightarrow> py_truthy (metadata e))
      \<and> (py_truthy (metadata e) \<longrightarrow> dict_get (as_dict rt e) ''metadata'' = metadata e))"
  by (cases "body e") (auto simp: as_dict_defs dict_has_update)

theorem as_dict_metadata_witness:
  "dict_has (as_dict demo_runtime (BotUttered_init demo_runtime (PStr ''hello'') PNone PNone PNone)) ''metadata''
   \<and> dict_get (as_dict demo_runtime (BotUttered_init demo_runtime (PStr ''hello'') PNone PNone PNone)) ''metadata'' = PDict []
   \<and> \<not> dict_has (as_dict demo_runtime (SlotSet_init demo_runtime (PStr ''a'') (PNum 1) PNone PNone)) ''metadata''
   \<and> dict_get (as_dict demo_runtime (SlotSet_init demo_runtime (PStr ''a'') (PNum 1) PNone (PDict [(''k'', PNum 1)]))) ''metadata'' = PDict [(''k'', PNum 1)]"
  using as_dict_metadata[of "BotUttered_init demo_runtime (PStr ''hello'') PNone PNone PNone" demo_runtime]
        as_dict_metadata[of "SlotSet_init demo_runtime (PStr ''a'') (PNum 1) PNone PNone" demo_runtime]
        as_dict_metadata[of "SlotSet_init demo_runtime (PStr ''a'') (PNum 1) PNone (PDict [(''k'', PNum 1)])" demo_runtime]
  by (simp add: BotUttered_init_def SlotSet_init_def Event_init_def)

subsection \<open>Decoding errors\<close>

text \<open>C14: Missing fields raise nothing. A record that carries only its tag
  decodes to an event for every class but \<open>UserUttered\<close> and
  \<open>ReminderScheduled\<close>: missing fields become \<open>None\<close> (the repository's
  specification asks for a \<open>MalformedEvent\<close> error). A record without an
  \<open>event\<close> key, or with \<open>None\<close> there, decodes to no event.\<close>

theorem decode_missing_fields:
  "(c \<notin> {CUserUttered, CReminderScheduled} \<longrightarrow>
      (\<exists>e. from_parameters rt [(''event'', PStr (type_name c))] dflt = Inr (Some e)))
   \<and> (dict_get params ''event'' = PNone \<longrightarrow> from_parameters rt params dflt = Inr None)"
proof (intro conjI impI)
  assume c: "c \<notin> {CUserUttered, CReminderScheduled}"
  have "from_parameters rt [(''event'', PStr (type_name c))] dflt
        = from_parameters_cls rt c [(''event'', PStr (type_name c))]"
    by (rule from_parameters_tag) simp
  with c show "\<exists>e. from_parameters rt [(''event'', PStr (type_name c))] dflt = Inr (Some e)"
    by (cases c) (simp_all add: from_parameters_cls_def base_from_parameters_def from_story_string_cls_def Let_def)
next
  assume "dict_get params ''event'' = PNone"
  then show "from_parameters rt params dflt = Inr None" by (simp add: from_parameters_def)
qed

theorem decode_missing_fields_witness:
  "(\<exists>e. from_parameters demo_runtime [(''event'', PStr (type_name CSlotSet))] None = Inr (Some e))
   \<and> from_parameters demo_runtime [(''text'', PStr ''hi'')] (Some CSlotSet) = Inr None"
  using decode_missing_fields[of CSlotSet demo_runtime None "[(''text'', PStr ''hi'')]"]
        decode_missing_fields[of CSlotSet demo_runtime "Some CSlotSet" "[(''text'', PStr ''hi'')]"]
  by simp

text \<open>C15: A \<open>user\<close> record whose \<open>parse_data\<close> is missing or not a dict
  raises \<open>AttributeError\<close> (the \<open>except KeyError\<close> meant to turn decoding
  failures into \<open>ValueError\<close> never catches it).\<close>

theorem user_without_parse_data:
  assumes "dict_get params ''event'' = PStr ''user''"
    and "\<forall>d. dict_get params ''parse_data'' \<noteq> PDict d"
  shows "from_parameters rt params dflt = Inl AttributeError"
proof -
  have "from_parameters rt params dflt = from_parameters_cls rt CUserUttered params"
    by (rule from_parameters_tag) (simp add: assms(1))
  also have "\<dots> = Inl AttributeError"
    using assms(2)
    by (cases "dict_get params ''parse_data''")
       (simp_all add: from_parameters_cls_def base_from_parameters_def
          from_story_string_cls_def UserUttered_from_parse_data_def)
  finally show ?thesis .
qed

theorem user_without_parse_data_witness:
  "from_parameters demo_runtime [(''event'', PStr ''user''), (''text'', PStr ''hi'')] None = Inl AttributeError"
  by (rule user_without_parse_data) simp_all

subsection \<open>The inherited story decoder\<close>

text \<open>C16: The classes that inherit \<open>Event._from_story_string\<close> but take
  other constructor arguments first receive the line's timestamp and metadata
  in the wrong fields: a \<open>bot\<close> or \<open>agent\<close> line becomes an utterance whose
  text is the timestamp and whose data is the metadata, a
  \<open>form_validation\<close> line a flag holding the timestamp, an
  \<open>action_execution_rejected\<close> line an action named by the timestamp; the
  event's own timestamp is then the clock's.\<close>

theorem story_default_misbinds:
  "from_story_string_cls rt CBotUttered params
     = Inr (Some [BotUttered_init rt (dict_get params ''timestamp'') (dict_get params ''metadata'') PNone PNone])
   \<and> from_story_string_cls rt CAgentUttered params
     = Inr (Some [AgentUttered_init rt (dict_get params ''timestamp'') (dict_get params ''metadata'') PNone PNone])
   \<and> from_story_string_cls rt CFormValidation params
     = Inr (Some [Event_init rt (dict_get params ''metadata'') PNone (FormValidation (dict_get params ''timestamp''))])
   \<and> from_story_string_cls rt CActionExecutionRejected params
     = Inr (Some [ActionExecutionRejected_init rt (dict_get params ''timestamp'') (dict_get params ''metadata'')
                   PNone PNone PNone])"
  by (simp add: from_story_string_cls_def)

subsection \<open>first_key\<close>

text \<open>C17: On a non-empty dict, \<open>first_key\<close> returns one of its keys, and one
  other than the default key when there are several.\<close>

theorem first_key_spec:
  assumes "distinct (map fst d)" and "d \<noteq> []"
  shows "\<exists>k. first_key d dk = Some k \<and> k \<in> fst ` set d \<and> (1 < length d \<longrightarrow> k \<noteq> dk)"
proof (cases "1 < length d")
  case True
  have "\<not> set (map fst d) \<subseteq> {dk}"
  proof
    assume "set (map fst d) \<subseteq> {dk}"
    then have "card (set (map fst d)) \<le> card {dk}" by (rule card_mono[rotated]) simp
    moreover have "card (set (map fst d)) = length d"
      using distinct_card[OF assms(1)] by simp
    ultimately show False using True by simp
  qed
  then have "find (\<lambda>k. k \<noteq> dk) (map fst d) \<noteq> None"
    by (auto simp: find_None_iff)
  then obtain k where k: "find (\<lambda>k. k \<noteq> dk) (map fst d) = Some k" by blast
  then have "k \<in> set (map fst d) \<and> k \<noteq> dk"
    by (auto simp: find_Some_iff)
  with k True show ?thesis by (auto simp: first_key_def)
next
  case False
  with assms(2) obtain x where "d = [x]" by (cases d) auto
  then show ?thesis by (simp add: first_key_def)
qed

theorem first_key_spec_witness:
  "\<exists>k. first_key [(''text'', PNone), (''intent'', PNone)] ''text'' = Some k
     \<and> k \<in> fst ` set [(''text'', PNone), (''intent'', PNone)]
     \<and> (1 < length [(''text'', PNone), (''intent'', PNone)] \<longrightarrow> k \<noteq> ''text'')"
  by (rule first_key_spec) simp_all

end
