(* ===== verification/JsonRead.thy ===== *)
theory JsonRead
  imports Json
begin

text \<open>
  A reader for the JSON text of \<open>Json\<close>: the part of \<open>json.loads\<close> the
  story reader relies on to turn the parameter object of a story line back
  into a dict. Objects become dicts with later duplicate keys overriding
  earlier ones, as \<open>json.loads\<close> builds them. The recursive descent carries
  fuel; \<open>json_loads\<close> gives it one unit more than the length of the text,
  which the lemmas show is enough for every text \<open>json_dumps\<close> writes. The
  main result is \<open>json_loads (json_dumps a v) = Some v\<close> for every
  well-formed value. Beside it, \<open>json_text\<close> recognises the whole grammar
  \<open>json.loads\<close> accepts, including the numbers and literals the value
  model has no type for.
\<close>

section \<open>Lexical pieces\<close>

definition is_digit :: "char \<Rightarrow> bool" where
  "is_digit c \<longleftrightarrow> 48 \<le> (of_char c :: nat) \<and> (of_char c :: nat) \<le> 57"

definition digit_val :: "char \<Rightarrow> nat" where
  "digit_val c = of_char c - 48"

fun read_digits :: "nat \<Rightarrow> string \<Rightarrow> nat \<times> string" where
  "read_digits acc [] = (acc, [])"
| "read_digits acc (c # cs) = (if is_digit c then read_digits (10 * acc + digit_val c) cs else (acc, c # cs))"

definition is_ws :: "char \<Rightarrow> bool" where
  "is_ws c \<longleftrightarrow> c \<in> {CHR '' '', CHR 0x09, CHR 0x0A, CHR 0x0D}"

definition skip_ws :: "string \<Rightarrow> string" where
  "skip_ws s = dropWhile is_ws s"

definition hex_val :: "char \<Rightarrow> nat option" where
  "hex_val c = (let n = (of_char c :: nat) in
     if 48 \<le> n \<and> n \<le> 57 then Some (n - 48)
     else if 97 \<le> n \<and> n \<le> 102 then Some (n - 87)
     else if 65 \<le> n \<and> n \<le> 70 then Some (n - 55)
     else None)"

text \<open>A \<open>\\uXXXX\<close> escape; code points from 256 on are outside the model's strings.\<close>

definition read_u4 :: "string \<Rightarrow> char option" where
  "read_u4 hs = (case map hex_val hs of
      [Some a, Some b, Some c, Some d] \<Rightarrow>
        (let n = 4096 * a + 256 * b + 16 * c + d in if n < 256 then Some (char_of n) else None)
    | _ \<Rightarrow> None)"

text \<open>The characters of a string literal after its opening quote, up to the closing one.\<close>

fun read_str :: "string \<Rightarrow> (string \<times> string) option" where
  "read_str [] = None"
| "read_str (c # cs) =
     (if c = CHR 0x22 then Some ([], cs)
      else if c = CHR 0x5C then
        (case cs of
           [] \<Rightarrow> None
         | e # r \<Rightarrow>
             (let esc = (if e = CHR ''u'' then read_u4 (take 4 r)
                         else if e = CHR 0x22 \<or> e = CHR 0x5C \<or> e = CHR ''/'' then Some e
                         else if e = CHR ''b'' then Some (CHR 0x08)
                         else if e = CHR ''f'' then Some (CHR 0x0C)
                         else if e = CHR ''n'' then Some (CHR 0x0A)
                         else if e = CHR ''r'' then Some (CHR 0x0D)
                         else if e = CHR ''t'' then Some (CHR 0x09)
                         else None);
                  rest = (if e = CHR ''u'' then drop 4 r else r)
              in case esc of
                   None \<Rightarrow> None
                 | Some ch \<Rightarrow> map_option (\<lambda>(s, r'). (ch # s, r')) (read_str rest)))
      else if (of_char c :: nat) < 32 then None
      else map_option (\<lambda>(s, r'). (c # s, r')) (read_str cs))"

text \<open>
  An integer: an optional minus sign, then \<open>0\<close> or a digit run not starting
  with \<open>0\<close>. A fraction or an exponent would make a \<open>float\<close>, which the value
  model does not have; the reader rejects it.
\<close>

definition read_nat :: "string \<Rightarrow> (nat \<times> string) option" where
  "read_nat s =
     (case s of
        [] \<Rightarrow> None
      | d # ds \<Rightarrow>
          if \<not> is_digit d then None
          else
            (let (m, r) = (if d = CHR ''0'' then (0, ds) else read_digits (digit_val d) ds)
             in if (case r of e # _ \<Rightarrow> e \<in> {CHR ''.'', CHR ''e'', CHR ''E''} | [] \<Rightarrow> False)
                then None
                else Some (m, r)))"

definition read_int :: "string \<Rightarrow> (int \<times> string) option" where
  "read_int s =
     (case s of
        c # cs \<Rightarrow>
          if c = CHR ''-'' then map_option (\<lambda>(m, r). (- int m, r)) (read_nat cs)
          else map_option (\<lambda>(m, r). (int m, r)) (read_nat s)
      | [] \<Rightarrow> None)"

section \<open>Values\<close>

text \<open>
  Recursive descent over the text, one unit of fuel per nested call. Arrays
  and objects are read item by item; an object is built by assigning its
  members in order, so that a repeated key keeps its first position and its
  last value, as \<open>dict(pairs)\<close> does in \<open>json.loads\<close>.
\<close>

fun parse_value :: "nat \<Rightarrow> string \<Rightarrow> (pyval \<times> string) option"
and parse_items :: "nat \<Rightarrow> string \<Rightarrow> (pyval list \<times> string) option"
and parse_members :: "nat \<Rightarrow> pydict \<Rightarrow> string \<Rightarrow> (pydict \<times> string) option" where
  "parse_value 0 s = None"
| "parse_value (Suc n) s =
     (case skip_ws s of
        [] \<Rightarrow> None
      | c # cs \<Rightarrow>
          if c = CHR 0x22 then map_option (\<lambda>(t, r). (PStr t, r)) (read_str cs)
          else if c = CHR ''['' then
            (case skip_ws cs of
               d # ds \<Rightarrow> if d = CHR '']'' then Some (PList [], ds)
                         else map_option (\<lambda>(xs, r). (PList xs, r)) (parse_items n (d # ds))
             | [] \<Rightarrow> None)
          else if c = CHR ''{'' then
            (case skip_ws cs of
               d # ds \<Rightarrow> if d = CHR ''}'' then Some (PDict [], ds)
                         else map_option (\<lambda>(m, r). (PDict m, r)) (parse_members n [] (d # ds))
             | [] \<Rightarrow> None)
          else if take 4 (c # cs) = ''null'' then Some (PNone, drop 3 cs)
          else if take 4 (c # cs) = ''true'' then Some (PBool True, drop 3 cs)
          else if take 5 (c # cs) = ''false'' then Some (PBool False, drop 4 cs)
          else map_option (\<lambda>(i, r). (PNum i, r)) (read_int (c # cs)))"
| "parse_items 0 s = None"
| "parse_items (Suc n) s =
     (case parse_value n s of
        None \<Rightarrow> None
      | Some (v, r) \<Rightarrow>
          (case skip_ws r of
             c # r' \<Rightarrow>
               if c = CHR '','' then map_option (\<lambda>(vs, r''). (v # vs, r'')) (parse_items n r')
               else if c = CHR '']'' then Some ([v], r')
               else None
           | [] \<Rightarrow> None))"
| "parse_members 0 d s = None"
| "parse_members (Suc n) d s =
     (case skip_ws s of
        c # cs \<Rightarrow>
          if c \<noteq> CHR 0x22 then None
          else
            (case read_str cs of
               None \<Rightarrow> None
             | Some (k, r) \<Rightarrow>
                 (case skip_ws r of
                    e # r' \<Rightarrow>
                      if e \<noteq> CHR '':'' then None
                      else
                        (case parse_value n r' of
                           None \<Rightarrow> None
                         | Some (v, r'') \<Rightarrow>
                             (case skip_ws r'' of
                                f # r3 \<Rightarrow>
                                  if f = CHR '','' then parse_members n (dict_set d k v) r3
                                  else if f = CHR ''}'' then Some (dict_set d k v, r3)
                                  else None
                              | [] \<Rightarrow> None))
                  | [] \<Rightarrow> None))
      | [] \<Rightarrow> None)"

text \<open>\<open>json.loads(s)\<close>: one value, surrounded by whitespace only.\<close>

definition json_loads :: "string \<Rightarrow> pyval option" where
  "json_loads s = (case parse_value (Suc (length s)) s of
                     Some (v, r) \<Rightarrow> if skip_ws r = [] then Some v else None
                   | None \<Rightarrow> None)"

text \<open>The text that may follow a value inside the output of \<open>json_dumps\<close>.\<close>

definition json_stop :: "string \<Rightarrow> bool" where
  "json_stop r \<longleftrightarrow> r = [] \<or> hd r \<in> {CHR '','', CHR '']'', CHR ''}''}"

abbreviation parses :: "bool \<Rightarrow> pyval \<Rightarrow> bool" where
  "parses a x \<equiv> \<forall>n r. length (json_dumps a x) < n \<longrightarrow> json_stop r \<longrightarrow>
                   parse_value n (json_dumps a x @ r) = Some (x, r)"

abbreviation json_member :: "bool \<Rightarrow> string \<times> pyval \<Rightarrow> string" where
  "json_member a kv \<equiv> json_str a (fst kv) @ '': '' @ json_dumps a (snd kv)"

section \<open>The grammar \<open>json.loads\<close> accepts\<close>

text \<open>
  The value reader above covers the values of the model; \<open>json.loads\<close>
  accepts more: numbers with a fraction or an exponent, \<open>NaN\<close>,
  \<open>Infinity\<close> and \<open>-Infinity\<close>, and \<open>\u\<close> escapes of any code point.
  \<open>json_text\<close> recognises the full text \<open>json.loads\<close> accepts (the grammar of
  its scanner in strict mode: no control characters in strings, no trailing
  commas, only whitespace after the value), by a step function over the
  characters with a stack of the open brackets, so that a text the value
  reader rejects can be told apart: not JSON at all (\<open>JSONDecodeError\<close>),
  or JSON whose value the model cannot hold.
\<close>

datatype jctx = JInKey | JInVal

datatype jstate =
    JVal bool | JKey bool | JColon | JAfter
  | JStr jctx | JEsc jctx | JHex nat jctx | JLit string
  | JMinus | JZero | JInt | JDot | JFrac | JE | JESign | JExp

definition is_hex :: "char \<Rightarrow> bool" where
  "is_hex c \<longleftrightarrow> hex_val c \<noteq> None"

definition after_char :: "char list \<Rightarrow> char \<Rightarrow> (jstate \<times> char list) option" where
  "after_char stk c =
     (if is_ws c then Some (JAfter, stk)
      else case stk of
        [] \<Rightarrow> None
      | b # rest \<Rightarrow>
          if c = CHR '','' then Some (if b = CHR ''['' then JVal False else JKey False, stk)
          else if (b = CHR ''['' \<and> c = CHR '']'') \<or> (b = CHR ''{'' \<and> c = CHR ''}'') then Some (JAfter, rest)
          else None)"

definition value_char :: "bool \<Rightarrow> char list \<Rightarrow> char \<Rightarrow> (jstate \<times> char list) option" where
  "value_char first stk c =
     (if is_ws c then Some (JVal first, stk)
      else if c = CHR 0x22 then Some (JStr JInVal, stk)
      else if c = CHR ''['' then Some (JVal True, CHR ''['' # stk)
      else if c = CHR ''{'' then Some (JKey True, CHR ''{'' # stk)
      else if c = CHR '']'' \<and> first \<and> stk \<noteq> [] \<and> hd stk = CHR ''['' then Some (JAfter, tl stk)
      else if c = CHR ''t'' then Some (JLit ''rue'', stk)
      else if c = CHR ''f'' then Some (JLit ''alse'', stk)
      else if c = CHR ''n'' then Some (JLit ''ull'', stk)
      else if c = CHR ''N'' then Some (JLit ''aN'', stk)
      else if c = CHR ''I'' then Some (JLit ''nfinity'', stk)
      else if c = CHR ''-'' then Some (JMinus, stk)
      else if c = CHR ''0'' then Some (JZero, stk)
      else if is_digit c then Some (JInt, stk)
      else None)"

definition is_exp_mark :: "char \<Rightarrow> bool" where
  "is_exp_mark c \<longleftrightarrow> c = CHR ''e'' \<or> c = CHR ''E''"

fun json_step :: "jstate \<Rightarrow> char list \<Rightarrow> char \<Rightarrow> (jstate \<times> char list) option" where
  "json_step (JVal first) stk c = value_char first stk c"
| "json_step (JKey first) stk c =
     (if is_ws c then Some (JKey first, stk)
      else if c = CHR 0x22 then Some (JStr JInKey, stk)
      else if c = CHR ''}'' \<and> first \<and> stk \<noteq> [] \<and> hd stk = CHR ''{'' then Some (JAfter, tl stk)
      else None)"
| "json_step JColon stk c =
     (if is_ws c then Some (JColon, stk) else if c = CHR '':'' then Some (JVal False, stk) else None)"
| "json_step JAfter stk c = after_char stk c"
| "json_step (JStr k) stk c =
     (if c = CHR 0x22 then Some (if k = JInKey then JColon else JAfter, stk)
      else if c = CHR 0x5C then Some (JEsc k, stk)
      else if (of_char c :: nat) < 32 then None
      else Some (JStr k, stk))"
| "json_step (JEsc k) stk c =
     (if c \<in> {CHR 0x22, CHR 0x5C, CHR ''/'', CHR ''b'', CHR ''f'', CHR ''n'', CHR ''r'', CHR ''t''}
      then Some (JStr k, stk)
      else if c = CHR ''u'' then Some (JHex 4 k, stk)
      else None)"
| "json_step (JHex n k) stk c =
     (if is_hex c then Some (if n \<le> 1 then JStr k else JHex (n - 1) k, stk) else None)"
| "json_step (JLit []) stk c = after_char stk c"
| "json_step (JLit (x # xs)) stk c =
     (if c = x then Some (if xs = [] then JAfter else JLit xs, stk) else None)"
| "json_step JMinus stk c =
     (if c = CHR ''0'' then Some (JZero, stk)
      else if is_digit c then Some (JInt, stk)
      else if c = CHR ''I'' then Some (JLit ''nfinity'', stk)
      else None)"
| "json_step JZero stk c =
     (if c = CHR ''.'' then Some (JDot, stk) else if is_exp_mark c then Some (JE, stk) else after_char stk c)"
| "json_step JInt stk c =
     (if is_digit c then Some (JInt, stk) else if c = CHR ''.'' then Some (JDot, stk)
      else if is_exp_mark c then Some (JE, stk) else after_char stk c)"
| "json_step JDot stk c = (if is_digit c then Some (JFrac, stk) else None)"
| "json_step JFrac stk c =
     (if is_digit c then Some (JFrac, stk) else if is_exp_mark c then Some (JE, stk) else after_char stk c)"
| "json_step JE stk c =
     (if c = CHR ''+'' \<or> c = CHR ''-'' then Some (JESign, stk)
      else if is_digit c then Some (JExp, stk) else None)"
| "json_step JESign stk c = (if is_digit c then Some (JExp, stk) else None)"
| "json_step JExp stk c = (if is_digit c then Some (JExp, stk) else after_char stk c)"

fun value_done :: "jstate \<Rightarrow> bool" where
  "value_done JAfter = True"
| "value_done JZero = True"
| "value_done JInt = True"
| "value_done JFrac = True"
| "value_done JExp = True"
| "value_done _ = False"

fun json_run :: "jstate \<Rightarrow> char list \<Rightarrow> string \<Rightarrow> bool" where
  "json_run st stk [] = (stk = [] \<and> value_done st)"
| "json_run st stk (c # cs) = (case json_step st stk c of None \<Rightarrow> False | Some (st', stk') \<Rightarrow> json_run st' stk' cs)"

definition json_text :: "string \<Rightarrow> bool" where
  "json_text s = json_run (JVal False) [] s"

text \<open>
  What the fuel lemmas establish of one call: the rest is strictly shorter
  than the input, and any fuel at least the number of characters consumed
  gives the same result.
\<close>

abbreviation value_fuel_ok :: "string \<Rightarrow> pyval \<Rightarrow> string \<Rightarrow> bool" where
  "value_fuel_ok s v r \<equiv> length r < length s \<and>
     (\<forall>m. length s - length r \<le> m \<longrightarrow> parse_value m s = Some (v, r))"

abbreviation items_fuel_ok :: "string \<Rightarrow> pyval list \<Rightarrow> string \<Rightarrow> bool" where
  "items_fuel_ok s vs r \<equiv> length r < length s \<and>
     (\<forall>m. length s - length r \<le> m \<longrightarrow> parse_items m s = Some (vs, r))"

abbreviation members_fuel_ok :: "pydict \<Rightarrow> string \<Rightarrow> pydict \<Rightarrow> string \<Rightarrow> bool" where
  "members_fuel_ok d s d' r \<equiv> length r < length s \<and>
     (\<forall>m. length s - length r \<le> m \<longrightarrow> parse_members m d s = Some (d', r))"

section \<open>Lemmas\<close>

subsection \<open>Consumption\<close>

lemma length_skip_ws: "length (skip_ws s) \<le> length s"
  by (simp add: skip_ws_def length_dropWhile_le)

lemma read_str_len: "read_str s = Some (t, r) \<Longrightarrow> length r < length s"
proof (induction "length s" arbitrary: s t r rule: less_induct)
  case less
  then obtain c cs where s: "s = c # cs" by (cases s) auto
  consider (q) "c = CHR 0x22" | (b) "c \<noteq> CHR 0x22" "c = CHR 0x5C" | (o) "c \<noteq> CHR 0x22" "c \<noteq> CHR 0x5C"
    by blast
  then show ?case
  proof cases
    case q
    with less.prems s show ?thesis by simp
  next
    case b
    with less.prems s obtain e r0 where cs: "cs = e # r0" by (cases cs) auto
    let ?rest = "if e = CHR ''u'' then drop 4 r0 else r0"
    from less.prems b obtain t' where "read_str ?rest = Some (t', r)"
      unfolding s cs by (auto simp: Let_def split: option.splits)
    moreover have "length ?rest < length s" using s cs by auto
    ultimately have "length r < length ?rest"
      using less.hyps by blast
    then show ?thesis using s cs by (auto split: if_splits)
  next
    case o
    from less.prems o obtain t' where "read_str cs = Some (t', r)"
      unfolding s by (auto split: if_splits)
    then show ?thesis using less.hyps[of cs t' r] s by simp
  qed
qed

lemma read_digits_len: "read_digits acc s = (m, r) \<Longrightarrow> length r \<le> length s"
  by (induction acc s rule: read_digits.induct) (auto split: if_splits)

lemma read_nat_len: "read_nat s = Some (m, r) \<Longrightarrow> length r < length s"
proof -
  assume h: "read_nat s = Some (m, r)"
  then obtain d ds where s: "s = d # ds" by (cases s) (simp_all add: read_nat_def)
  obtain m0 r0 where rd: "(if d = CHR ''0'' then (0, ds) else read_digits (digit_val d) ds) = (m0, r0)"
    by fastforce
  have "length r0 \<le> length ds"
    using rd read_digits_len[of "digit_val d" ds m0 r0] by (auto split: if_splits)
  moreover have "r = r0"
    using h rd unfolding s read_nat_def by (simp split: if_splits)
  ultimately show ?thesis using s by simp
qed

lemma read_int_len: "read_int s = Some (i, r) \<Longrightarrow> length r < length s"
proof -
  assume h: "read_int s = Some (i, r)"
  then obtain c cs where s: "s = c # cs" by (cases s) (simp_all add: read_int_def)
  show ?thesis
  proof (cases "c = CHR ''-''")
    case True
    with h s obtain m where "read_nat cs = Some (m, r)" by (auto simp: read_int_def)
    then show ?thesis using s read_nat_len by fastforce
  next
    case False
    with h s obtain m where "read_nat s = Some (m, r)" by (auto simp: read_int_def)
    then show ?thesis by (rule read_nat_len)
  qed
qed

subsection \<open>The recogniser on examples\<close>

lemma json_text_examples:
  "json_text ''[1.5]'' \<and> json_text ''[ ]'' \<and> json_text ''-0'' \<and> json_text ''NaN'' \<and> json_text '' [-Infinity, 1e-7, 0.25E+3] ''
   \<and> json_text ''{\"a\": [true, false, null], \"b\": {}}'' \<and> json_text ([CHR 0x22, CHR 0x5C] @ ''u0100'' @ [CHR 0x22])
   \<and> \<not> json_text ''[1,]'' \<and> \<not> json_text ''01'' \<and> \<not> json_text ''1.'' \<and> \<not> json_text ''''
   \<and> \<not> json_text ''{\"a\" 1}'' \<and> \<not> json_text ''[1]]'' \<and> \<not> json_text ''-NaN''
   \<and> \<not> json_text ''{,}'' \<and> \<not> json_text [CHR 0x22, CHR 0x5C, CHR ''x'', CHR 0x22] \<and> \<not> json_text ''tru''"
  by code_simp

subsection \<open>String literals\<close>

lemma hex_val_hex_char: "k < 16 \<Longrightarrow> hex_val (hex_char k) = Some k"
  by (auto simp: hex_val_def hex_char_def Let_def)

lemma u_escape_shape:
  "\<exists>h. u_escape c = CHR 0x5C # CHR ''u'' # h \<and> length h = 4 \<and> read_u4 h = Some c"
proof -
  let ?n = "of_char c :: nat"
  have lt: "?n < 256" by simp
  have d1: "?n div 4096 = 0" using lt by (intro div_less) linarith
  have d2: "?n div 256 = 0" using lt by (intro div_less)
  have d3: "?n div 16 < 16" using lt by (simp add: div_less_iff_less_mult)
  then have d4: "?n div 16 mod 16 = ?n div 16" by simp
  have "read_u4 [hex_char (?n div 4096 mod 16), hex_char (?n div 256 mod 16),
                 hex_char (?n div 16 mod 16), hex_char (?n mod 16)] = Some c"
    using lt d3 by (simp add: read_u4_def hex_val_hex_char Let_def d1 d2 d4 mult_div_mod_eq)
  then show ?thesis by (simp add: u_escape_def Let_def)
qed

lemma read_str_escape_char:
  "read_str (json_escape_char a c @ rest) = map_option (\<lambda>(s, r'). (c # s, r')) (read_str rest)"
proof (cases "c \<in> {CHR 0x5C, CHR 0x22, CHR 0x08, CHR 0x0C, CHR 0x0A, CHR 0x0D, CHR 0x09}")
  case True
  then show ?thesis
    by (elim insertE) (simp_all add: json_escape_char_def)
next
  case named: False
  let ?n = "of_char c :: nat"
  from named have esc: "json_escape_char a c = (if ?n < 32 \<or> (a \<and> 126 < ?n) then u_escape c else [c])"
    by (simp add: json_escape_char_def)
  show ?thesis
  proof (cases "?n < 32 \<or> (a \<and> 126 < ?n)")
    case True
    obtain h where h: "u_escape c = CHR 0x5C # CHR ''u'' # h" "length h = 4" "read_u4 h = Some c"
      using u_escape_shape by blast
    show ?thesis
      using True by (simp add: esc h Let_def)
  next
    case False
    then have "json_escape_char a c = [c]" unfolding esc by auto
    with False named show ?thesis by simp
  qed
qed

lemma read_str_json_str:
  "read_str (tl (json_str a s) @ rest) = Some (s, rest)"
proof -
  have "read_str (concat (map (json_escape_char a) s) @ CHR 0x22 # rest) = Some (s, rest)"
    by (induction s) (simp_all add: read_str_escape_char)
  then show ?thesis by (simp add: json_str_def)
qed

subsection \<open>Integers\<close>

lemma digit_char_is_digit: "n < 10 \<Longrightarrow> is_digit (digit_char n) \<and> digit_val (digit_char n) = n"
  by (simp add: is_digit_def digit_val_def digit_char_def)

lemma show_nat_digits: "\<forall>c \<in> set (show_nat m). is_digit c"
  by (induction m rule: show_nat.induct) (subst show_nat.simps, simp add: digit_char_is_digit)

lemma char_of_48: "char_of (48::nat) = CHR ''0''"
  by code_simp

lemma digit_char_zero: "n < 10 \<Longrightarrow> digit_char n = CHR ''0'' \<longleftrightarrow> n = 0"
proof
  assume "n < 10" "digit_char n = CHR ''0''"
  then have "(of_char (digit_char n) :: nat) = of_char (CHR ''0'')" by simp
  with \<open>n < 10\<close> show "n = 0" by (simp add: digit_char_def)
qed (simp add: digit_char_def char_of_48)

lemma show_nat_hd: "show_nat m \<noteq> [] \<and> (hd (show_nat m) = CHR ''0'' \<longleftrightarrow> m = 0)"
proof (induction m rule: show_nat.induct)
  case (1 n)
  show ?case
  proof (cases "n < 10")
    case True
    then show ?thesis
      by (simp add: show_nat.simps digit_char_zero)
  next
    case False
    then have "n div 10 \<noteq> 0" by simp
    moreover have "show_nat n = show_nat (n div 10) @ [digit_char (n mod 10)]"
      using False by (simp add: show_nat.simps)
    ultimately show ?thesis using 1 False by simp
  qed
qed

lemma read_digits_show_nat:
  "read_digits acc (show_nat m @ r) = read_digits (acc * 10 ^ length (show_nat m) + m) r"
proof (induction m arbitrary: acc r rule: show_nat.induct)
  case (1 n)
  show ?case
  proof (cases "n < 10")
    case True
    then show ?thesis by (subst (1 2) show_nat.simps) (simp add: digit_char_is_digit mult.commute)
  next
    case False
    then have "read_digits acc (show_nat n @ r) =
               read_digits (acc * 10 ^ length (show_nat (n div 10)) + n div 10) (digit_char (n mod 10) # r)"
      using 1 by (subst show_nat.simps) simp
    also have "\<dots> = read_digits (acc * 10 ^ Suc (length (show_nat (n div 10))) + n) r"
      by (simp add: digit_char_is_digit algebra_simps)
    finally show ?thesis using False by (subst (2) show_nat.simps) simp
  qed
qed

lemma read_digits_stop: "json_stop r \<Longrightarrow> read_digits acc r = (acc, r)"
  by (cases r) (auto simp: json_stop_def is_digit_def)

lemma read_nat_show_nat: "json_stop r \<Longrightarrow> read_nat (show_nat m @ r) = Some (m, r)"
proof -
  assume st: "json_stop r"
  obtain d ds where sn: "show_nat m = d # ds"
    using show_nat_hd[of m] by (cases "show_nat m") auto
  have dig: "is_digit d" using show_nat_digits[of m] sn by simp
  have rd: "read_digits 0 (show_nat m @ r) = (m, r)"
    using st by (simp add: read_digits_show_nat read_digits_stop)
  have ndr: "\<not> (case r of e # _ \<Rightarrow> e \<in> {CHR ''.'', CHR ''e'', CHR ''E''} | [] \<Rightarrow> False)"
    using st by (cases r) (auto simp: json_stop_def)
  show ?thesis
  proof (cases "d = CHR ''0''")
    case True
    then have "m = 0" using show_nat_hd[of m] sn by simp
    then have "ds = []" using sn by (simp add: show_nat.simps digit_char_def)
    with True sn ndr \<open>m = 0\<close> show ?thesis by (simp add: read_nat_def is_digit_def)
  next
    case False
    with rd sn dig ndr show ?thesis by (auto simp: read_nat_def)
  qed
qed

lemma read_int_show_int: "json_stop r \<Longrightarrow> read_int (show_int i @ r) = Some (i, r)"
proof (cases "i < 0")
  case True
  assume "json_stop r"
  with True show ?thesis by (simp add: show_int_def read_int_def read_nat_show_nat)
next
  case False
  assume "json_stop r"
  moreover obtain d ds where "show_nat (nat i) = d # ds"
    using show_nat_hd[of "nat i"] by (cases "show_nat (nat i)") auto
  moreover have "d \<noteq> CHR ''-''"
    using show_nat_digits[of "nat i"] calculation(2) by (auto simp: is_digit_def)
  ultimately show ?thesis using False read_nat_show_nat[of r "nat i"]
    by (simp add: show_int_def read_int_def)
qed

subsection \<open>Values\<close>

lemma join_str_Cons: "xs \<noteq> [] \<Longrightarrow> join_str sep (x # xs) = x @ sep @ join_str sep xs"
  by (cases xs) auto

lemma skip_ws_Nil [simp]: "skip_ws [] = []"
  by (simp add: skip_ws_def)

lemma skip_ws_Cons [simp]: "skip_ws (c # cs) = (if is_ws c then skip_ws cs else c # cs)"
  by (simp add: skip_ws_def)

lemma parse_value_space [simp]: "parse_value n (CHR '' '' # s) = parse_value n s"
  by (cases n) (simp_all add: is_ws_def)

lemma parse_items_space [simp]: "parse_items n (CHR '' '' # s) = parse_items n s"
  by (cases n) simp_all

lemma parse_members_space [simp]: "parse_members n d (CHR '' '' # s) = parse_members n d s"
  by (cases n) (simp_all add: is_ws_def)

lemma json_str_Cons: "json_str a s = CHR 0x22 # tl (json_str a s)"
  by (simp add: json_str_def)

lemma parse_items_join:
  assumes "\<forall>x\<in>set xs. parses a x" and "xs \<noteq> []"
    and "Suc (length (join_str '', '' (map (json_dumps a) xs))) < n"
  shows "parse_items n (join_str '', '' (map (json_dumps a) xs) @ CHR '']'' # r) = Some (xs, r)"
  using assms
proof (induction xs arbitrary: n)
  case Nil
  then show ?case by simp
next
  case (Cons x xs)
  obtain m where n: "n = Suc m" using Cons.prems(3) by (cases n) auto
  show ?case
  proof (cases "xs = []")
    case True
    have "parse_value m (json_dumps a x @ CHR '']'' # r) = Some (x, CHR '']'' # r)"
      using Cons.prems True n by (simp add: json_stop_def)
    then show ?thesis using True n by (simp add: is_ws_def)
  next
    case False
    let ?rest = "join_str '', '' (map (json_dumps a) xs) @ CHR '']'' # r"
    have pv: "parse_value m (json_dumps a x @ '', '' @ ?rest) = Some (x, '', '' @ ?rest)"
      using Cons.prems False n by (simp add: json_stop_def join_str_Cons)
    have "parse_items m ?rest = Some (xs, r)"
      using Cons.IH[of m] Cons.prems False n by (simp add: join_str_Cons)
    with pv False n show ?thesis by (simp add: join_str_Cons is_ws_def)
  qed
qed

lemma dict_set_new: "\<not> dict_has d k \<Longrightarrow> dict_set d k v = d @ [(k, v)]"
  by (simp add: dict_set_def)

lemma parse_member:
  assumes "parses a v" and "length (json_member a (k, v)) < m" and "json_stop rest"
  shows "parse_members (Suc m) d (json_member a (k, v) @ rest) =
           (case skip_ws rest of
              f # r3 \<Rightarrow> if f = CHR '','' then parse_members m (dict_set d k v) r3
                        else if f = CHR ''}'' then Some (dict_set d k v, r3) else None
            | [] \<Rightarrow> None)"
proof -
  have "read_str (tl (json_str a k) @ '': '' @ json_dumps a v @ rest) = Some (k, '': '' @ json_dumps a v @ rest)"
    using read_str_json_str by simp
  moreover have "parse_value m (json_dumps a v @ rest) = Some (v, rest)"
    using assms by simp
  ultimately show ?thesis
    by (subst json_str_Cons) (simp add: is_ws_def)
qed

lemma parse_members_join:
  assumes "\<forall>kv\<in>set kvs. parses a (snd kv)" and "kvs \<noteq> []" and "distinct (map fst kvs)"
    and "set (map fst kvs) \<inter> set (map fst d) = {}"
    and "Suc (length (join_str '', '' (map (json_member a) kvs))) < n"
  shows "parse_members n d (join_str '', '' (map (json_member a) kvs) @ CHR ''}'' # r) = Some (d @ kvs, r)"
  using assms
proof (induction kvs arbitrary: n d)
  case Nil
  then show ?case by simp
next
  case (Cons kv kvs)
  obtain k v where kv: "kv = (k, v)" by (cases kv)
  obtain m where n: "n = Suc m" using Cons.prems(5) by (cases n) auto
  have new: "dict_set d k v = d @ [(k, v)]"
    using Cons.prems(4) kv by (auto simp: dict_set_new dict_has_def)
  show ?case
  proof (cases "kvs = []")
    case True
    have "parse_members (Suc m) d (json_member a (k, v) @ CHR ''}'' # r) = Some (dict_set d k v, r)"
      using Cons.prems kv n True
      by (subst parse_member) (simp_all add: json_stop_def is_ws_def)
    then show ?thesis using kv n new True by simp
  next
    case False
    let ?rest = "join_str '', '' (map (json_member a) kvs) @ CHR ''}'' # r"
    have "parse_members m (d @ [(k, v)]) ?rest = Some ((d @ [(k, v)]) @ kvs, r)"
      using Cons.IH[of "d @ [(k, v)]" m] Cons.prems False n kv by (auto simp: join_str_Cons)
    moreover have "parse_members (Suc m) d (json_member a (k, v) @ '', '' @ ?rest) =
                     parse_members m (dict_set d k v) ?rest"
      using Cons.prems kv n False
      by (subst parse_member) (simp_all add: json_stop_def is_ws_def join_str_Cons)
    ultimately show ?thesis using kv n new False by (simp add: join_str_Cons)
  qed
qed

lemma show_int_Cons: "\<exists>c cs. show_int i = c # cs \<and> (c = CHR ''-'' \<or> is_digit c)"
proof -
  obtain d ds where "show_nat (nat (if i < 0 then - i else i)) = d # ds"
    using show_nat_hd by (cases "show_nat (nat (if i < 0 then - i else i))") auto
  moreover have "is_digit d"
    using show_nat_digits calculation by (metis list.set_intros(1))
  ultimately show ?thesis by (auto simp: show_int_def)
qed

lemma json_dumps_Cons:
  "\<exists>c cs. json_dumps a v = c # cs \<and> \<not> is_ws c \<and> c \<noteq> CHR '']'' \<and> c \<noteq> CHR ''}''"
proof (cases v)
  case (PNum i)
  then show ?thesis using show_int_Cons[of i] by (auto simp: is_ws_def is_digit_def)
qed (auto simp: is_ws_def json_str_def)

lemma join_dumps_Cons:
  assumes "xs \<noteq> []"
  obtains c cs where "join_str '', '' (map (json_dumps a) xs) @ r = c # cs"
    and "\<not> is_ws c" and "c \<noteq> CHR '']''"
proof -
  obtain x xs' where xs: "xs = x # xs'" using assms by (cases xs) auto
  obtain c cs where "json_dumps a x = c # cs" "\<not> is_ws c" "c \<noteq> CHR '']''"
    using json_dumps_Cons by blast
  with xs that show ?thesis by (cases xs') auto
qed

lemma join_members_Cons:
  assumes "kvs \<noteq> []"
  obtains cs where "join_str '', '' (map (json_member a) kvs) @ r = CHR 0x22 # cs"
proof -
  obtain kv kvs' where "kvs = kv # kvs'" using assms by (cases kvs) auto
  with that show ?thesis by (cases kvs') (auto simp: json_str_def)
qed

lemma parses_PNone: "parses a PNone"
  by (auto simp: is_ws_def dest!: less_imp_Suc_add)

lemma parses_PBool: "parses a (PBool b)"
  by (auto simp: is_ws_def dest!: less_imp_Suc_add)

lemma parses_PNum: "parses a (PNum i)"
proof -
  obtain c cs where sc: "show_int i = c # cs" and c: "c = CHR ''-'' \<or> is_digit c"
    using show_int_Cons by blast
  then have "c \<notin> {CHR 0x22, CHR ''['', CHR ''{'', CHR ''n'', CHR ''t'', CHR ''f''} \<and> \<not> is_ws c"
    by (auto simp: is_digit_def is_ws_def)
  then show ?thesis using read_int_show_int[of _ i] sc
    by (auto dest!: less_imp_Suc_add)
qed

lemma parses_PStr: "parses a (PStr s)"
  using read_str_json_str[of a s] by (auto simp: is_ws_def json_str_def dest!: less_imp_Suc_add)

lemma parse_value_json_dumps:
  "wf_pyval v \<Longrightarrow> parses a v"
proof (induction v rule: wf_pyval.induct)
  case (1 xs)
  show ?case
  proof (intro allI impI)
    fix n r
    assume len: "length (json_dumps a (PList xs)) < n" and st: "json_stop r"
    obtain m where n: "n = Suc m" using len by (cases n) auto
    show "parse_value n (json_dumps a (PList xs) @ r) = Some (PList xs, r)"
    proof (cases "xs = []")
      case True
      then show ?thesis using n by (simp add: is_ws_def)
    next
      case False
      have "parse_items m (join_str '', '' (map (json_dumps a) xs) @ CHR '']'' # r) = Some (xs, r)"
        using 1 False len n by (intro parse_items_join) auto
      moreover obtain c cs where "join_str '', '' (map (json_dumps a) xs) @ CHR '']'' # r = c # cs"
        and "\<not> is_ws c" and "c \<noteq> CHR '']''"
        using join_dumps_Cons False by blast
      ultimately show ?thesis using n by (simp add: is_ws_def)
    qed
  qed
next
  case (2 d)
  show ?case
  proof (intro allI impI)
    fix n r
    assume len: "length (json_dumps a (PDict d)) < n" and st: "json_stop r"
    obtain m where n: "n = Suc m" using len by (cases n) auto
    show "parse_value n (json_dumps a (PDict d) @ r) = Some (PDict d, r)"
    proof (cases "d = []")
      case True
      then show ?thesis using n by (simp add: is_ws_def)
    next
      case False
      have "parse_members m [] (join_str '', '' (map (json_member a) d) @ CHR ''}'' # r) = Some (d, r)"
        using 2 False len n parse_members_join[of d a "[]" m r] by auto
      moreover obtain cs where "join_str '', '' (map (json_member a) d) @ CHR ''}'' # r = CHR 0x22 # cs"
        using join_members_Cons False by blast
      ultimately show ?thesis using n by (simp add: is_ws_def)
    qed
  qed
next
  show "parses a PNone" by (rule parses_PNone)
next
  show "parses a (PBool b)" for b by (rule parses_PBool)
next
  show "parses a (PNum i)" for i by (rule parses_PNum)
next
  show "parses a (PStr s)" for s by (rule parses_PStr)
qed

text \<open>\<open>json.loads\<close> reads back every well-formed value from the text
  \<open>json.dumps\<close> writes for it, in both \<open>ensure_ascii\<close> modes; the fuel
  \<open>json_loads\<close> gives the descent is enough.\<close>

lemma json_loads_dumps: "wf_pyval v \<Longrightarrow> json_loads (json_dumps a v) = Some v"
proof -
  assume "wf_pyval v"
  then have "parse_value (Suc (length (json_dumps a v))) (json_dumps a v @ []) = Some (v, [])"
    using parse_value_json_dumps[of v a] by (simp add: json_stop_def del: parse_value.simps)
  then show ?thesis by (simp add: json_loads_def del: parse_value.simps)
qed

subsection \<open>Fuel\<close>

lemma fuel_Suc:
  assumes "length r < length s" and "\<And>m'. length s - length r \<le> Suc m' \<Longrightarrow> P (Suc m')"
  shows "\<forall>m. length s - length r \<le> m \<longrightarrow> P m"
proof (intro allI impI)
  fix m assume "length s - length r \<le> m"
  with assms(1) obtain m' where "m = Suc m'" by (cases m) auto
  with assms(2) \<open>length s - length r \<le> m\<close> show "P m" by simp
qed

lemma value_fuel:
  assumes IHi: "\<And>s vs r. parse_items n s = Some (vs, r) \<Longrightarrow> items_fuel_ok s vs r"
    and IHm: "\<And>s d' r. parse_members n [] s = Some (d', r) \<Longrightarrow> members_fuel_ok [] s d' r"
    and h: "parse_value (Suc n) s = Some (v, r)"
  shows "value_fuel_ok s v r"
proof -
  obtain c cs where sw: "skip_ws s = c # cs" using h by (cases "skip_ws s") auto
  have lcs: "length cs < length s" using length_skip_ws[of s] sw by simp
  have lds: "length (skip_ws cs) < length s" using length_skip_ws[of cs] lcs by simp
  have "length r < length s \<and> (\<forall>m'. length s - length r \<le> Suc m' \<longrightarrow> parse_value (Suc m') s = Some (v, r))"
  proof (cases "c = CHR 0x22 \<or> c = CHR ''['' \<or> c = CHR ''{''")
    case False
    then show ?thesis
      using h lcs read_int_len[of "c # cs" _ r] length_skip_ws[of s] unfolding sw
      by (auto simp: sw split: if_splits)
  next
    case True
    consider (q) "c = CHR 0x22" | (l) "c = CHR ''[''" | (o) "c = CHR ''{''" using True by blast
    then show ?thesis
    proof cases
      case q
      with h sw obtain t where "read_str cs = Some (t, r)" "v = PStr t" by auto
      then show ?thesis using q sw read_str_len[of cs t r] lcs by simp
    next
      case l
      with h sw obtain d ds where cs: "skip_ws cs = d # ds" by (auto split: list.splits)
      have ld: "length (d # ds) < length s" using lds cs by simp
      show ?thesis
      proof (cases "d = CHR '']''")
        case True
        with h sw l cs ld show ?thesis by auto
      next
        case False
        with h sw l cs obtain xs where p: "parse_items n (d # ds) = Some (xs, r)" and v: "v = PList xs"
          by auto
        from IHi[OF p] have ok: "items_fuel_ok (d # ds) xs r" .
        show ?thesis
        proof (intro conjI allI impI)
          show "length r < length s" using ok ld by simp
          fix m' assume "length s - length r \<le> Suc m'"
          then have "length (d # ds) - length r \<le> m'" using ld ok by linarith
          then have "parse_items m' (d # ds) = Some (xs, r)" using ok by blast
          then show "parse_value (Suc m') s = Some (v, r)" using sw l cs False v by simp
        qed
      qed
    next
      case o
      with h sw obtain d ds where cs: "skip_ws cs = d # ds" by (auto split: list.splits)
      have ld: "length (d # ds) < length s" using lds cs by simp
      show ?thesis
      proof (cases "d = CHR ''}''")
        case True
        with h sw o cs ld show ?thesis by auto
      next
        case False
        with h sw o cs obtain d' where p: "parse_members n [] (d # ds) = Some (d', r)" and v: "v = PDict d'"
          by auto
        from IHm[OF p] have ok: "members_fuel_ok [] (d # ds) d' r" .
        show ?thesis
        proof (intro conjI allI impI)
          show "length r < length s" using ok ld by simp
          fix m' assume "length s - length r \<le> Suc m'"
          then have "length (d # ds) - length r \<le> m'" using ld ok by linarith
          then have "parse_members m' [] (d # ds) = Some (d', r)" using ok by blast
          then show "parse_value (Suc m') s = Some (v, r)" using sw o cs False v by simp
        qed
      qed
    qed
  qed
  then show ?thesis using fuel_Suc[of r s "\<lambda>m. parse_value m s = Some (v, r)"] by blast
qed


lemma items_fuel:
  assumes IHv: "\<And>s v r. parse_value n s = Some (v, r) \<Longrightarrow> value_fuel_ok s v r"
    and IHi: "\<And>s vs r. parse_items n s = Some (vs, r) \<Longrightarrow> items_fuel_ok s vs r"
    and h: "parse_items (Suc n) s = Some (vs, r)"
  shows "items_fuel_ok s vs r"
proof -
  obtain v0 r0 where pv: "parse_value n s = Some (v0, r0)" using h by (auto split: option.splits)
  have okv: "value_fuel_ok s v0 r0" by (rule IHv[OF pv])
  obtain c r' where sw: "skip_ws r0 = c # r'" using h pv by (auto split: list.splits)
  have lr': "length r' < length r0" using length_skip_ws[of r0] sw by simp
  have "length r < length s \<and> (\<forall>m'. length s - length r \<le> Suc m' \<longrightarrow> parse_items (Suc m') s = Some (vs, r))"
  proof (cases "c = CHR '',''")
    case True
    with h pv sw obtain vs' where pi: "parse_items n r' = Some (vs', r)" and vs: "vs = v0 # vs'"
      by auto
    have oki: "items_fuel_ok r' vs' r" by (rule IHi[OF pi])
    show ?thesis
    proof (intro conjI allI impI)
      show "length r < length s" using oki okv lr' by simp
      fix m' assume m': "length s - length r \<le> Suc m'"
      have "length s - length r0 \<le> m'" using okv[THEN conjunct1] oki[THEN conjunct1] lr' m' by linarith
      then have "parse_value m' s = Some (v0, r0)" using okv by blast
      moreover have "length r' - length r \<le> m'" using okv[THEN conjunct1] oki[THEN conjunct1] lr' m' by linarith
      then have "parse_items m' r' = Some (vs', r)" using oki by blast
      ultimately show "parse_items (Suc m') s = Some (vs, r)" using sw True vs pi by simp
    qed
  next
    case False
    with h pv sw have c: "c = CHR '']''" and r: "r = r'" and vs: "vs = [v0]"
      by (auto split: if_splits)
    show ?thesis
    proof (intro conjI allI impI)
      show "length r < length s" using okv lr' r by simp
      fix m' assume m': "length s - length r \<le> Suc m'"
      have "length s - length r0 \<le> m'" using okv[THEN conjunct1] lr' m' unfolding r by linarith
      then have "parse_value m' s = Some (v0, r0)" using okv by blast
      then show "parse_items (Suc m') s = Some (vs, r)" using sw c r vs by simp
    qed
  qed
  then show ?thesis using fuel_Suc[of r s "\<lambda>m. parse_items m s = Some (vs, r)"] by blast
qed


lemma members_fuel:
  assumes IHv: "\<And>s v r. parse_value n s = Some (v, r) \<Longrightarrow> value_fuel_ok s v r"
    and IHm: "\<And>d s d' r. parse_members n d s = Some (d', r) \<Longrightarrow> members_fuel_ok d s d' r"
    and h: "parse_members (Suc n) d s = Some (d', r)"
  shows "members_fuel_ok d s d' r"
proof -
  obtain c cs where sw: "skip_ws s = c # cs" using h by (cases "skip_ws s") auto
  have c: "c = CHR 0x22" using h sw by (auto split: if_splits)
  obtain k r1 where rs: "read_str cs = Some (k, r1)" using h sw c by (auto split: option.splits)
  obtain e r2 where sw1: "skip_ws r1 = e # r2" using h sw c rs by (auto split: list.splits)
  have e: "e = CHR '':''" using h sw c rs sw1 by (auto split: if_splits)
  obtain v r3 where pv: "parse_value n r2 = Some (v, r3)" using h sw c rs sw1 e by (auto split: option.splits)
  have okv: "value_fuel_ok r2 v r3" by (rule IHv[OF pv])
  obtain f r4 where sw2: "skip_ws r3 = f # r4" using h sw c rs sw1 e pv by (auto split: list.splits)
  have l2: "length r2 < length s"
    using length_skip_ws[of s] length_skip_ws[of r1] sw sw1 read_str_len[OF rs] by simp
  have l4: "length r4 < length r3" using length_skip_ws[of r3] sw2 by simp
  have "length r < length s \<and> (\<forall>m'. length s - length r \<le> Suc m' \<longrightarrow> parse_members (Suc m') d s = Some (d', r))"
  proof (cases "f = CHR '',''")
    case True
    with h sw c rs sw1 e pv sw2 have pm: "parse_members n (dict_set d k v) r4 = Some (d', r)"
      by simp
    have okm: "members_fuel_ok (dict_set d k v) r4 d' r" by (rule IHm[OF pm])
    show ?thesis
    proof (intro conjI allI impI)
      show "length r < length s" using okm okv l2 l4 by simp
      fix m' assume m': "length s - length r \<le> Suc m'"
      have "length r2 - length r3 \<le> m'" using okv[THEN conjunct1] okm[THEN conjunct1] l2 l4 m' by linarith
      then have "parse_value m' r2 = Some (v, r3)" using okv by blast
      moreover have "length r4 - length r \<le> m'" using okv[THEN conjunct1] okm[THEN conjunct1] l2 l4 m' by linarith
      then have "parse_members m' (dict_set d k v) r4 = Some (d', r)" using okm by blast
      ultimately show "parse_members (Suc m') d s = Some (d', r)" using sw c rs sw1 e sw2 True by simp
    qed
  next
    case False
    with h sw c rs sw1 e pv sw2 have f: "f = CHR ''}''" and r: "r = r4" and d': "d' = dict_set d k v"
      by (auto split: if_splits)
    show ?thesis
    proof (intro conjI allI impI)
      show "length r < length s" using okv l2 l4 r by simp
      fix m' assume m': "length s - length r \<le> Suc m'"
      have "length r2 - length r3 \<le> m'" using okv[THEN conjunct1] l2 l4 m' unfolding r by linarith
      then have "parse_value m' r2 = Some (v, r3)" using okv by blast
      then show "parse_members (Suc m') d s = Some (d', r)" using sw c rs sw1 e sw2 f r d' by simp
    qed
  qed
  then show ?thesis using fuel_Suc[of r s "\<lambda>m. parse_members m d s = Some (d', r)"] by blast
qed


lemma parse_fuel:
  "(\<forall>s v r. parse_value n s = Some (v, r) \<longrightarrow> value_fuel_ok s v r)
   \<and> (\<forall>s vs r. parse_items n s = Some (vs, r) \<longrightarrow> items_fuel_ok s vs r)
   \<and> (\<forall>d s d' r. parse_members n d s = Some (d', r) \<longrightarrow> members_fuel_ok d s d' r)"
proof (induction n)
  case (Suc n)
  have IHv: "\<And>s v r. parse_value n s = Some (v, r) \<Longrightarrow> value_fuel_ok s v r"
    using Suc.IH[THEN conjunct1] by (elim allE impE)
  have IHi: "\<And>s vs r. parse_items n s = Some (vs, r) \<Longrightarrow> items_fuel_ok s vs r"
    using Suc.IH[THEN conjunct2, THEN conjunct1] by (elim allE impE)
  have IHm: "\<And>d s d' r. parse_members n d s = Some (d', r) \<Longrightarrow> members_fuel_ok d s d' r"
    using Suc.IH[THEN conjunct2, THEN conjunct2] by (elim allE impE)
  show ?case
  proof (intro conjI)
    show "\<forall>s v r. parse_value (Suc n) s = Some (v, r) \<longrightarrow> value_fuel_ok s v r"
      by (intro allI impI) (rule value_fuel[OF IHi IHm])
    show "\<forall>s vs r. parse_items (Suc n) s = Some (vs, r) \<longrightarrow> items_fuel_ok s vs r"
      by (intro allI impI) (rule items_fuel[OF IHv IHi])
    show "\<forall>d s d' r. parse_members (Suc n) d s = Some (d', r) \<longrightarrow> members_fuel_ok d s d' r"
      by (intro allI impI) (rule members_fuel[OF IHv IHm])
  qed
qed simp


lemma parse_value_enough_fuel:
  "parse_value n s = Some (v, r) \<Longrightarrow> parse_value (Suc (length s)) s = Some (v, r)"
proof -
  assume "parse_value n s = Some (v, r)"
  then have "value_fuel_ok s v r" by (rule parse_fuel[of n, THEN conjunct1, rule_format])
  then show ?thesis by (elim conjE allE[of _ "Suc (length s)"] impE) simp_all
qed

text \<open>The fuel \<open>json_loads\<close> gives the descent, one more than the length of
  the text, is enough: it accepts exactly what some fuel reads.\<close>

lemma json_loads_fuel:
  "json_loads s = Some v \<longleftrightarrow> (\<exists>n r. parse_value n s = Some (v, r) \<and> skip_ws r = [])"
proof
  assume "json_loads s = Some v"
  then obtain r where "parse_value (Suc (length s)) s = Some (v, r)" and "skip_ws r = []"
    unfolding json_loads_def by (auto simp del: parse_value.simps split: option.splits if_splits)
  then show "\<exists>n r. parse_value n s = Some (v, r) \<and> skip_ws r = []" by blast
next
  assume "\<exists>n r. parse_value n s = Some (v, r) \<and> skip_ws r = []"
  then obtain n r where "parse_value n s = Some (v, r)" and "skip_ws r = []" by blast
  then show "json_loads s = Some v"
    by (simp add: json_loads_def parse_value_enough_fuel del: parse_value.simps)
qed

subsection \<open>Well-formed results\<close>

lemma parse_wf:
  "(\<forall>s v r. parse_value n s = Some (v, r) \<longrightarrow> wf_pyval v)
   \<and> (\<forall>s vs r. parse_items n s = Some (vs, r) \<longrightarrow> (\<forall>x\<in>set vs. wf_pyval x))
   \<and> (\<forall>d s d' r. parse_members n d s = Some (d', r) \<longrightarrow> wf_pyval (PDict d) \<longrightarrow> wf_pyval (PDict d'))"
proof (induction n)
  case (Suc n)
  have IHv: "\<And>s v r. parse_value n s = Some (v, r) \<Longrightarrow> wf_pyval v"
    using Suc.IH[THEN conjunct1] by (elim allE impE)
  have IHi: "\<And>s vs r. parse_items n s = Some (vs, r) \<Longrightarrow> \<forall>x\<in>set vs. wf_pyval x"
    using Suc.IH[THEN conjunct2, THEN conjunct1] by (elim allE impE)
  have IHm: "\<And>d s d' r. parse_members n d s = Some (d', r) \<Longrightarrow> wf_pyval (PDict d) \<Longrightarrow> wf_pyval (PDict d')"
    using Suc.IH[THEN conjunct2, THEN conjunct2] by (elim allE impE)
  show ?case
  proof (intro conjI allI impI)
    fix s v r assume "parse_value (Suc n) s = Some (v, r)"
    then show "wf_pyval v"
      by (auto split: list.splits if_splits dest: IHi IHm[OF _ wf_pyval.simps(2)[of "[]", THEN iffD2]])
  next
    fix s vs r assume "parse_items (Suc n) s = Some (vs, r)"
    then show "\<forall>x\<in>set vs. wf_pyval x"
      by (auto split: option.splits list.splits if_splits) (auto dest: IHv IHi)
  next
    fix d s d' r assume "parse_members (Suc n) d s = Some (d', r)" and "wf_pyval (PDict d)"
    then show "wf_pyval (PDict d')"
      by (auto split: option.splits list.splits if_splits simp del: wf_pyval.simps(2))
         (auto dest!: IHv intro: IHm wf_dict_set simp del: wf_pyval.simps(2))
  qed
qed simp

text \<open>Whatever text it accepts, \<open>json_loads\<close> returns a well-formed value.\<close>

lemma json_loads_wf: "json_loads s = Some v \<Longrightarrow> wf_pyval v"
  unfolding json_loads_def
  by (auto split: option.splits if_splits simp del: parse_value.simps dest: parse_wf[THEN conjunct1, rule_format])

end
