(* ===== verification/StoryCodec.thy ===== *)
theory StoryCodec
  imports DictCodec JsonRead
begin

text \<open>
  The story-string side of the module: \<open>deserialise_entities\<close>, which reads
  the entities of a message from their JSON text; the \<open>as_story_string\<close>
  of every class; \<open>Event.from_story_string\<close>; and the reading of one story
  line \<open><tag><JSON object>\<close>, whose reader lives outside the module and is
  modelled from the line format of the specification.
\<close>

section \<open>Entities\<close>

text \<open>
  \<open>deserialise_entities(entities)\<close>: a string is parsed with
  \<open>json.loads\<close> first; the result is iterated and its dicts kept. Iterating
  a dict gives its keys, a string its characters; iterating \<open>None\<close>, a
  number or a bool raises \<open>TypeError\<close>. A string that is not JSON text
  raises \<open>JSONDecodeError\<close>; JSON text whose value holds a float, \<open>NaN\<close>,
  \<open>Infinity\<close> or a code point from 256 on is outside the value model
  (\<open>OutOfModel\<close>), where Python returns a value.
\<close>

definition is_pdict :: "pyval \<Rightarrow> bool" where
  "is_pdict v = (case v of PDict _ \<Rightarrow> True | _ \<Rightarrow> False)"

definition deserialise_entities :: "pyval \<Rightarrow> py_error + pyval list" where
  "deserialise_entities entities =
     err_bind (case entities of
                 PStr s \<Rightarrow> (case json_loads s of Some v \<Rightarrow> Inr v
                             | None \<Rightarrow> Inl (if json_text s then OutOfModel else JSONDecodeError))
               | _ \<Rightarrow> Inr entities)
       (\<lambda>es. err_bind (py_iter es) (\<lambda>xs. Inr (filter is_pdict xs)))"

text \<open>
  \<open>md_format_message(text, intent, entities)\<close>: the message text as the
  markdown reader of the training-data package parses it, then the markdown
  writer on a dict of that text, the intent and the deserialised entities.
  Reader and writer are outside this repository and are parameters here.
\<close>

definition md_format_message ::
  "(pyval \<Rightarrow> py_error + pyval) \<Rightarrow> (pyval \<Rightarrow> py_error + pyval) \<Rightarrow> pyval \<Rightarrow> pyval \<Rightarrow> pyval \<Rightarrow> py_error + pyval" where
  "md_format_message md_read md_write text intent entities =
     err_bind (md_read text) (\<lambda>msg_text.
     err_bind (deserialise_entities entities) (\<lambda>ents.
       md_write (PDict [(''text'', msg_text), (''intent'', intent), (''entities'', PList ents)])))"

section \<open>Python text of values\<close>

text \<open>
  \<open>repr\<close> of a string: single quotes unless the string holds a single quote
  and no double quote; the quote and the backslash escaped, tab, newline and
  carriage return by name, the other control characters, DEL and the
  non-printable Latin-1 characters (0x80--0xa0 and the soft hyphen 0xad) by
  \<open>\\xNN\<close>.
\<close>

definition py_repr_char :: "char \<Rightarrow> char \<Rightarrow> string" where
  "py_repr_char q c =
     (let n = (of_char c :: nat) in
      if c = q \<or> c = CHR 0x5C then [CHR 0x5C, c]
      else if c = CHR 0x09 then [CHR 0x5C, CHR ''t'']
      else if c = CHR 0x0A then [CHR 0x5C, CHR ''n'']
      else if c = CHR 0x0D then [CHR 0x5C, CHR ''r'']
      else if n < 32 \<or> (127 \<le> n \<and> n \<le> 160) \<or> n = 173
        then [CHR 0x5C, CHR ''x'', hex_char (n div 16), hex_char (n mod 16)]
      else [c])"

definition py_repr_str :: "string \<Rightarrow> string" where
  "py_repr_str s =
     (let q = (if CHR 0x27 \<in> set s \<and> CHR 0x22 \<notin> set s then CHR 0x22 else CHR 0x27)
      in q # concat (map (py_repr_char q) s) @ [q])"

fun py_repr :: "pyval \<Rightarrow> string" where
  "py_repr PNone = ''None''"
| "py_repr (PBool b) = (if b then ''True'' else ''False'')"
| "py_repr (PNum i) = show_int i"
| "py_repr (PStr s) = py_repr_str s"
| "py_repr (PList xs) = CHR ''['' # join_str '', '' (map py_repr xs) @ '']''"
| "py_repr (PDict d) = CHR ''{'' #
     join_str '', '' (map (\<lambda>kv. py_repr_str (fst kv) @ '': '' @ py_repr (snd kv)) d) @ ''}''"

text \<open>\<open>str(v)\<close>, which \<open>format\<close> uses for a field without format spec.\<close>

definition py_str :: "pyval \<Rightarrow> string" where
  "py_str v = (case v of PStr s \<Rightarrow> s | _ \<Rightarrow> py_repr v)"

section \<open>Writing story strings\<close>

text \<open>\<open>v[k]\<close> with a string index: \<open>KeyError\<close> on a dict without the key,
  \<open>TypeError\<close> on every other value.\<close>

definition py_subscript :: "pyval \<Rightarrow> string \<Rightarrow> py_error + pyval" where
  "py_subscript v k = (case v of
      PDict d \<Rightarrow> if dict_has d k then Inr (dict_get d k) else Inl (KeyError k)
    | _ \<Rightarrow> Inl TypeError)"

text \<open>
  A dict whose keys are any hashable values: \<open>d[k] = v\<close> replaces the value
  of the first key equal to \<open>k\<close> by Python \<open>==\<close> (so \<open>True\<close> and
  \<open>1\<close> are one key), keeping that key, and appends otherwise.
\<close>

fun kd_set :: "(pyval \<times> pyval) list \<Rightarrow> pyval \<Rightarrow> pyval \<Rightarrow> (pyval \<times> pyval) list" where
  "kd_set [] k v = [(k, v)]"
| "kd_set ((k', v') # kd) k v = (if py_eq k' k then (k', v) # kd else (k', v') # kd_set kd k v)"

text \<open>How \<open>json.dumps\<close> writes a dict key that is not a string.\<close>

fun json_key :: "pyval \<Rightarrow> string" where
  "json_key (PStr s) = s"
| "json_key (PBool b) = (if b then ''true'' else ''false'')"
| "json_key PNone = ''null''"
| "json_key (PNum i) = show_int i"
| "json_key _ = []"

definition json_dumps_kd :: "bool \<Rightarrow> (pyval \<times> pyval) list \<Rightarrow> string" where
  "json_dumps_kd a kd = json_dumps a (PDict (map (\<lambda>kv. (json_key (fst kv), snd kv)) kd))"

text \<open>
  \<open>{ent["entity"]: ent["value"] for ent in self.entities}\<close>: the key is
  read before the value, and an unhashable key raises \<open>TypeError\<close> when it is
  inserted.
\<close>

fun entity_items :: "(pyval \<times> pyval) list \<Rightarrow> pyval list \<Rightarrow> py_error + (pyval \<times> pyval) list" where
  "entity_items acc [] = Inr acc"
| "entity_items acc (ent # ents) =
     err_bind (py_subscript ent ''entity'') (\<lambda>k.
     err_bind (py_subscript ent ''value'') (\<lambda>v.
       if py_hashable k then entity_items (kd_set acc k v) ents else Inl TypeError))"

text \<open>
  \<open>UserUttered.as_story_string(e2e)\<close>. The entity string and the intent
  name are computed before the \<open>e2e\<close> branch; in end-to-end mode the
  message comes from \<open>md_format_message\<close>, which delegates to the markdown
  reader and writer of the training-data package and is a parameter here.
\<close>

definition UserUttered_as_story_string ::
  "(pyval \<Rightarrow> pyval \<Rightarrow> pyval \<Rightarrow> py_error + pyval) \<Rightarrow> bool \<Rightarrow> pyval \<Rightarrow> pyval \<Rightarrow> pyval \<Rightarrow> py_error + pyval" where
  "UserUttered_as_story_string md_format e2e text intent entities =
     (if py_truthy intent then
        err_bind (if py_truthy entities then
                    err_bind (py_iter entities) (\<lambda>ents.
                    err_bind (entity_items [] ents) (\<lambda>kd. Inr (json_dumps_kd False kd)))
                  else Inr [])
          (\<lambda>ent_string.
        err_bind (py_get intent ''name'' (PStr [])) (\<lambda>name.
          if e2e then
            err_bind (md_format text intent entities) (\<lambda>message.
            err_bind (py_get intent ''name'' PNone) (\<lambda>n.
              Inr (PStr (py_str n @ '': '' @ py_str message))))
          else Inr (PStr (py_str name @ ent_string))))
      else Inr text)"

text \<open>
  \<open>as_story_string\<close> of every class: \<open>None\<close> for the four classes a story
  cannot hold, the bare action name for \<open>ActionExecuted\<close>, the tag for the
  classes without parameters, and the tag followed by a JSON object for the
  others: without ASCII escaping for \<open>SlotSet\<close>, with the default escaping
  of \<open>json.dumps\<close> for \<open>ReminderScheduled\<close>, \<open>ReminderCancelled\<close>,
  \<open>FollowupAction\<close> and \<open>Form\<close>.
\<close>

definition as_story_string ::
  "runtime \<Rightarrow> (pyval \<Rightarrow> pyval \<Rightarrow> pyval \<Rightarrow> py_error + pyval) \<Rightarrow> bool \<Rightarrow> event \<Rightarrow> py_error + pyval" where
  "as_story_string rt md_format e2e e = (let tag = type_name (class_of (body e)) in case body e of
      UserUttered t i es _ _ _ \<Rightarrow> UserUttered_as_story_string md_format e2e t i es
    | BotUttered _ _ \<Rightarrow> Inr PNone
    | SlotSet k v \<Rightarrow>
        if py_hashable k then Inr (PStr (tag @ json_dumps False (PDict [(json_key k, v)])))
        else Inl TypeError
    | ReminderScheduled a trig n kill \<Rightarrow>
        Inr (PStr (tag @ json_dumps True (PDict (reminder_data_obj rt a trig n kill))))
    | ReminderCancelled a \<Rightarrow> Inr (PStr (tag @ json_dumps True (PDict [(''action'', a)])))
    | FollowupAction a \<Rightarrow> Inr (PStr (tag @ json_dumps True (PDict [(''name'', a)])))
    | ActionExecuted a _ _ \<Rightarrow> Inr a
    | AgentUttered _ _ \<Rightarrow> Inr PNone
    | Form n \<Rightarrow> Inr (PStr (tag @ json_dumps True (PDict [(''name'', n)])))
    | FormValidation _ \<Rightarrow> Inr PNone
    | ActionExecutionRejected _ _ _ \<Rightarrow> Inr PNone
    | _ \<Rightarrow> Inr (PStr tag))"

section \<open>Reading story strings\<close>

text \<open>\<open>Event.from_story_string(event_name, parameters, default)\<close>.\<close>

definition Event_from_story_string ::
  "runtime \<Rightarrow> pyval \<Rightarrow> pydict \<Rightarrow> event_class option \<Rightarrow> py_error + event list option" where
  "Event_from_story_string rt event_name params dflt =
     err_bind (resolve_by_type event_name dflt) (\<lambda>c. case c of
        None \<Rightarrow> Inr None
      | Some cls \<Rightarrow> from_story_string_cls rt cls params)"

text \<open>
  One line of the story format, \<open><tag><JSON object>\<close> or a bare tag: the
  tag runs up to the first brace, the rest must be a JSON object. The story
  reader lives outside the module; this is the line format of the
  specification. Valid JSON whose values the model cannot hold (floats,
  \<open>NaN\<close>, code points from 256 on) gives \<open>OutOfModel\<close>, not an error.
\<close>

definition parse_event_line :: "string \<Rightarrow> py_error + (string \<times> pydict)" where
  "parse_event_line line =
     (let name = takeWhile (\<lambda>c. c \<noteq> CHR ''{'') line;
          rest = dropWhile (\<lambda>c. c \<noteq> CHR ''{'') line
      in if rest = [] then Inr (name, [])
         else (case json_loads rest of
                 Some (PDict d) \<Rightarrow> Inr (name, d)
               | Some _ \<Rightarrow> Inl JSONDecodeError
               | None \<Rightarrow> Inl (if json_text rest then OutOfModel else JSONDecodeError)))"

definition story_decode :: "runtime \<Rightarrow> string \<Rightarrow> py_error + event list option" where
  "story_decode rt line =
     err_bind (parse_event_line line) (\<lambda>(name, params). Event_from_story_string rt (PStr name) params None)"

section \<open>Conditions of the story round trip\<close>

text \<open>
  What a story line needs to carry an event back: a string slot key, JSON
  values that are well formed (no duplicate keys) and, for a reminder, a name
  and a date that the date parser reads back.
\<close>

definition story_wf :: "runtime \<Rightarrow> payload \<Rightarrow> bool" where
  "story_wf rt p = (case p of
      SlotSet k v \<Rightarrow> (case k of PStr _ \<Rightarrow> True | _ \<Rightarrow> False) \<and> wf_pyval v
    | ReminderScheduled a t n kill \<Rightarrow>
        wf_pyval a \<and> wf_pyval (isoformat rt t) \<and> wf_pyval n \<and> wf_pyval kill \<and> n \<noteq> PNone
        \<and> parse_date rt (isoformat rt t) \<noteq> None
    | ReminderCancelled a \<Rightarrow> wf_pyval a
    | FollowupAction a \<Rightarrow> wf_pyval a
    | Form n \<Rightarrow> wf_pyval n
    | _ \<Rightarrow> True)"

text \<open>The parameters the story line of an event carries.\<close>

definition story_params :: "runtime \<Rightarrow> payload \<Rightarrow> pydict" where
  "story_params rt p = (case p of
      SlotSet (PStr k) v \<Rightarrow> [(k, v)]
    | ReminderScheduled a t n kill \<Rightarrow> reminder_data_obj rt a t n kill
    | ReminderCancelled a \<Rightarrow> [(''action'', a)]
    | FollowupAction a \<Rightarrow> [(''name'', a)]
    | Form n \<Rightarrow> [(''name'', n)]
    | _ \<Rightarrow> [])"

abbreviation entity_dicts :: "(string \<times> pyval) list \<Rightarrow> pyval list" where
  "entity_dicts kvs \<equiv> map (\<lambda>kv. PDict [(''entity'', PStr (fst kv)), (''value'', snd kv)]) kvs"

section \<open>Lemmas\<close>

subsection \<open>Story lines\<close>

lemma type_name_no_brace: "CHR ''{'' \<notin> set (type_name c)"
  by (cases c) simp_all

lemma parse_event_line_tag: "CHR ''{'' \<notin> set tag \<Longrightarrow> parse_event_line tag = Inr (tag, [])"
proof -
  assume "CHR ''{'' \<notin> set tag"
  then have "takeWhile (\<lambda>c. c \<noteq> CHR ''{'') tag = tag" "dropWhile (\<lambda>c. c \<noteq> CHR ''{'') tag = []"
    by (auto simp: takeWhile_eq_all_conv dropWhile_eq_Nil_conv)
  then show ?thesis by (simp add: parse_event_line_def)
qed

lemma json_dumps_PDict_Cons: "\<exists>cs. json_dumps a (PDict d) = CHR ''{'' # cs"
  by simp

lemma parse_event_line_obj:
  assumes "CHR ''{'' \<notin> set tag" and "wf_pyval (PDict d)"
  shows "parse_event_line (tag @ json_dumps a (PDict d)) = Inr (tag, d)"
proof -
  obtain cs where j: "json_dumps a (PDict d) = CHR ''{'' # cs" using json_dumps_PDict_Cons by blast
  have nb: "\<And>x. x \<in> set tag \<Longrightarrow> x \<noteq> CHR ''{''" using assms(1) by auto
  have "takeWhile (\<lambda>c. c \<noteq> CHR ''{'') (tag @ json_dumps a (PDict d)) = tag"
    using takeWhile_append2[of tag "\<lambda>c. c \<noteq> CHR ''{''", OF nb] j by simp
  moreover have "dropWhile (\<lambda>c. c \<noteq> CHR ''{'') (tag @ json_dumps a (PDict d)) = json_dumps a (PDict d)"
    using dropWhile_append2[of tag "\<lambda>c. c \<noteq> CHR ''{''", OF nb] j by simp
  ultimately show ?thesis
    using json_loads_dumps[OF assms(2), of a] j by (simp add: parse_event_line_def del: json_dumps.simps)
qed

lemma Event_from_story_string_tag:
  "Event_from_story_string rt (PStr (type_name c)) params dflt = from_story_string_cls rt c params"
  unfolding Event_from_story_string_def resolve_by_type_def find_type_name by simp

lemma story_decode_tag: "story_decode rt (type_name c) = from_story_string_cls rt c []"
  by (simp add: story_decode_def parse_event_line_tag type_name_no_brace Event_from_story_string_tag)

lemma story_decode_obj:
  "wf_pyval (PDict d) \<Longrightarrow> story_decode rt (type_name c @ json_dumps a (PDict d)) = from_story_string_cls rt c d"
  by (simp add: story_decode_def parse_event_line_obj type_name_no_brace Event_from_story_string_tag
           del: json_dumps.simps wf_pyval.simps)

lemma as_story_string_shape:
  assumes "as_story_string rt md e2e e = Inr (PStr s)" and "story_wf rt (body e)"
    and "class_of (body e) \<notin> {CUserUttered, CActionExecuted}"
  shows "s = type_name (class_of (body e)) \<and> story_params rt (body e) = []
         \<or> (\<exists>a. s = type_name (class_of (body e)) @ json_dumps a (PDict (story_params rt (body e)))
                \<and> wf_pyval (PDict (story_params rt (body e))))"
  using assms
  by (cases "body e")
     (auto simp: as_story_string_def story_wf_def story_params_def reminder_data_obj_def
           split: pyval.splits if_splits simp del: json_dumps.simps)

lemma story_decode_params:
  assumes "as_story_string rt md e2e e = Inr (PStr s)" and "story_wf rt (body e)"
    and "class_of (body e) \<notin> {CUserUttered, CActionExecuted}"
  shows "story_decode rt s = from_story_string_cls rt (class_of (body e)) (story_params rt (body e))"
  using as_story_string_shape[OF assms] story_decode_tag story_decode_obj by auto

lemma from_story_params:
  assumes "story_wf rt (body e)" and "class_of (body e) \<notin> {CUserUttered, CActionExecuted}"
    and "class_of (body e) \<notin> {CBotUttered, CAgentUttered, CFormValidation, CActionExecutionRejected}"
  shows "\<exists>e'. from_story_string_cls rt (class_of (body e)) (story_params rt (body e)) = Inr (Some [e'])
              \<and> event_eq e' e = Inr True"
  using assms
  by (cases "body e")
     (auto simp: story_wf_def story_params_def from_story_string_cls_def reminder_data_obj_def
                 SlotSet_init_def ReminderScheduled_init_def ActionExecuted_init_def Event_init_def
                 event_eq_def split: pyval.splits)

subsection \<open>Escaping and entities\<close>

lemma set_join_str: "set (join_str sep xs) \<subseteq> set sep \<union> \<Union> (set ` set xs)"
  by (induction sep xs rule: join_str.induct) auto

lemma hex_char_ascii: "k < 16 \<Longrightarrow> (of_char (hex_char k) :: nat) < 127"
  by (simp add: hex_char_def)

lemma json_escape_ascii: "x \<in> set (json_escape_char True c) \<Longrightarrow> (of_char x :: nat) < 127"
  by (auto simp: json_escape_char_def u_escape_def Let_def hex_char_ascii split: if_splits)

lemma show_int_ascii: "x \<in> set (show_int i) \<Longrightarrow> (of_char x :: nat) < 127"
  using show_nat_digits[of "nat (- i)"] show_nat_digits[of "nat i"]
  by (auto simp: show_int_def is_digit_def split: if_splits)


lemma join_str_ascii:
  "\<forall>x\<in>set sep. P x \<Longrightarrow> \<forall>s\<in>set xs. \<forall>x\<in>set s. P x \<Longrightarrow> \<forall>x\<in>set (join_str sep xs). P x"
  using set_join_str[of sep xs] by blast

lemma json_str_ascii: "\<forall>x\<in>set (json_str True s). (of_char x :: nat) < 127"
  using json_escape_ascii by (auto simp: json_str_def)

lemma json_dumps_ascii: "\<forall>x\<in>set (json_dumps True v). (of_char x :: nat) < 127"
proof (induction True v rule: json_dumps.induct)
  case (5 xs)
  then have "\<forall>x\<in>set (join_str '', '' (map (json_dumps True) xs)). (of_char x :: nat) < 127"
    by (intro join_str_ascii) auto
  then show ?case by simp
next
  case (6 d)
  then have "\<forall>x\<in>set (join_str '', '' (map (\<lambda>kv. json_str True (fst kv) @ '': '' @ json_dumps True (snd kv)) d)).
               (of_char x :: nat) < 127"
    using json_str_ascii by (intro join_str_ascii) auto
  then show ?case by simp
qed (simp_all add: show_int_ascii json_str_ascii)

lemma json_dumps_keeps: "c \<in> set s \<Longrightarrow> 127 \<le> (of_char c :: nat) \<Longrightarrow> c \<in> set (json_dumps False (PStr s))"
proof -
  assume cs: "c \<in> set s" and hi: "127 \<le> (of_char c :: nat)"
  have "c \<noteq> CHR 0x5C \<and> c \<noteq> CHR 0x22 \<and> c \<noteq> CHR 0x08 \<and> c \<noteq> CHR 0x0C \<and> c \<noteq> CHR 0x0A
        \<and> c \<noteq> CHR 0x0D \<and> c \<noteq> CHR 0x09"
    using hi by auto
  with hi have "json_escape_char False c = [c]" by (simp add: json_escape_char_def)
  with cs have "c \<in> set (concat (map (json_escape_char False) s))" by force
  then show ?thesis by (simp add: json_str_def)
qed

lemma py_eq_PStr_right: "py_eq v (PStr s) \<longleftrightarrow> v = PStr s"
  using py_eq_PStr py_eq_sym by metis

lemma kd_set_new: "\<forall>kv\<in>set kd. \<not> py_eq (fst kv) k \<Longrightarrow> kd_set kd k v = kd @ [(k, v)]"
  by (induction kd) auto

lemma entity_items_dicts:
  "distinct (map fst kvs) \<Longrightarrow> \<forall>kv\<in>set acc. fst kv \<notin> PStr ` set (map fst kvs) \<Longrightarrow>
   entity_items acc (entity_dicts kvs) = Inr (acc @ map (\<lambda>kv. (PStr (fst kv), snd kv)) kvs)"
proof (induction kvs arbitrary: acc)
  case (Cons kv kvs)
  have "kd_set acc (PStr (fst kv)) (snd kv) = acc @ [(PStr (fst kv), snd kv)]"
    using Cons.prems(2) by (intro kd_set_new) (auto simp: py_eq_PStr_right)
  moreover have "entity_items (acc @ [(PStr (fst kv), snd kv)]) (entity_dicts kvs)
                   = Inr ((acc @ [(PStr (fst kv), snd kv)]) @ map (\<lambda>kv. (PStr (fst kv), snd kv)) kvs)"
    using Cons.prems by (intro Cons.IH) auto
  ultimately show ?case by (simp add: py_subscript_def dict_has_def)
qed simp

lemma json_dumps_kd_PStr:
  "json_dumps_kd a (map (\<lambda>kv. (PStr (fst kv), snd kv)) kvs) = json_dumps a (PDict kvs)"
  by (simp add: json_dumps_kd_def comp_def)

subsection \<open>Entities\<close>

text \<open>C19: The entities of a message survive their JSON text: reading back the
  text \<open>json.dumps\<close> writes for a list of well-formed values gives the dicts of
  the list, in order.\<close>

theorem deserialise_entities_roundtrip:
  "wf_pyval (PList es) \<Longrightarrow>
   deserialise_entities (PStr (json_dumps a (PList es))) = Inr (filter is_pdict es)"
  using json_loads_dumps[of "PList es" a]
  by (simp add: deserialise_entities_def del: wf_pyval.simps json_dumps.simps)

theorem deserialise_entities_roundtrip_witness:
  "wf_pyval (PList [PDict [(''entity'', PStr ''city''), (''value'', PStr ''Berlin'')], PNum 3])
   \<and> deserialise_entities (PStr (json_dumps False (PList [PDict [(''entity'', PStr ''city''), (''value'', PStr ''Berlin'')], PNum 3])))
     = Inr (filter is_pdict [PDict [(''entity'', PStr ''city''), (''value'', PStr ''Berlin'')], PNum 3])"
  by (rule conjI, simp, rule deserialise_entities_roundtrip, simp)

text \<open>C20: A single entity written as a JSON object, not inside a list, is
  silently lost: iterating the decoded dict yields its keys, which are strings
  and no dicts, so \<open>deserialise_entities\<close> returns no entities and raises
  nothing.\<close>

theorem deserialise_entities_single_object:
  "wf_pyval (PDict d) \<Longrightarrow> deserialise_entities (PStr (json_dumps a (PDict d))) = Inr []"
  using json_loads_dumps[of "PDict d" a]
  by (simp add: deserialise_entities_def is_pdict_def filter_empty_conv
           del: wf_pyval.simps json_dumps.simps)

theorem deserialise_entities_single_object_witness:
  "wf_pyval (PDict [(''entity'', PStr ''city''), (''value'', PStr ''Berlin'')])
   \<and> deserialise_entities (PStr (json_dumps False (PDict [(''entity'', PStr ''city''), (''value'', PStr ''Berlin'')]))) = Inr []"
  by (rule conjI, simp, rule deserialise_entities_single_object, simp)

lemma md_format_message_json:
  "wf_pyval (PList es) \<Longrightarrow>
   md_format_message r w text intent (PStr (json_dumps a (PList es)))
     = err_bind (r text) (\<lambda>t. w (PDict [(''text'', t), (''intent'', intent), (''entities'', PList (filter is_pdict es))]))"
  using json_loads_dumps[of "PList es" a]
  by (simp add: md_format_message_def deserialise_entities_def del: wf_pyval.simps json_dumps.simps)

text \<open>The \<open>empty()\<close> events write no story line.\<close>

lemma empty_story_absent:
  "as_story_string rt md e2e (UserUttered_empty rt) = Inr PNone
   \<and> as_story_string rt md e2e (BotUttered_empty rt) = Inr PNone
   \<and> as_story_string rt md e2e (AgentUttered_empty rt) = Inr PNone"
  by (simp add: UserUttered_empty_def BotUttered_empty_def AgentUttered_empty_def as_story_string_def
                UserUttered_init_def BotUttered_init_def AgentUttered_init_def Event_init_def
                UserUttered_as_story_string_def Let_def)

lemma py_iter_wf_dicts:
  "wf_pyval v \<Longrightarrow> py_iter v = Inr xs \<Longrightarrow> \<forall>x\<in>set (filter is_pdict xs). wf_pyval x"
  by (cases v) (auto simp: is_pdict_def)

text \<open>C33: Every entity \<open>deserialise_entities\<close> returns from a JSON text is a
  well-formed dict: non-dict items are dropped, and an object with a repeated
  key keeps the key once, with its last value.\<close>

theorem deserialise_entities_wf:
  "deserialise_entities (PStr s) = Inr es \<Longrightarrow> \<forall>x\<in>set es. is_pdict x \<and> wf_pyval x"
proof -
  assume h: "deserialise_entities (PStr s) = Inr es"
  then obtain v xs where j: "json_loads s = Some v" and it: "py_iter v = Inr xs"
    and es: "es = filter is_pdict xs"
    by (auto simp: deserialise_entities_def err_bind_eq_Inr split: option.splits)
  show ?thesis
    using py_iter_wf_dicts[OF json_loads_wf[OF j] it] es by simp
qed

theorem deserialise_entities_wf_witness:
  "deserialise_entities (PStr ''[{\"a\": 1, \"a\": 2}, 3]'') = Inr [PDict [(''a'', PNum 2)]]
   \<and> is_pdict (PDict [(''a'', PNum 2)]) \<and> wf_pyval (PDict [(''a'', PNum 2)])"
proof -
  have d: "deserialise_entities (PStr ''[{\"a\": 1, \"a\": 2}, 3]'') = Inr [PDict [(''a'', PNum 2)]]"
    by code_simp
  show ?thesis using deserialise_entities_wf[OF d] d by simp
qed

subsection \<open>Properties\<close>

text \<open>C21: Story round trip: for every class a story line can hold, except
  \<open>UserUttered\<close> and \<open>ActionExecuted\<close> whose lines the story reader
  handles apart, reading back the line \<open>as_story_string\<close> writes gives one
  event equal to the original by its class's own \<open>__eq__\<close>.\<close>

theorem story_roundtrip:
  assumes "as_story_string rt md e2e e = Inr (PStr s)" and "story_wf rt (body e)"
    and "class_of (body e) \<notin> {CUserUttered, CActionExecuted}"
  shows "\<exists>e'. story_decode rt s = Inr (Some [e']) \<and> event_eq e' e = Inr True"
proof -
  have "class_of (body e) \<notin> {CBotUttered, CAgentUttered, CFormValidation, CActionExecutionRejected}"
    using assms(1) by (cases "body e") (auto simp: as_story_string_def)
  then show ?thesis
    using story_decode_params[OF assms] from_story_params[OF assms(2,3)] by simp
qed

theorem story_roundtrip_witness:
  "as_story_string demo_runtime (\<lambda>_ _ _. Inr PNone) False (SlotSet_init demo_runtime (PStr ''city'') (PStr ''Berlin'') PNone PNone)
     = Inr (PStr ''slot{\"city\": \"Berlin\"}'')
   \<and> story_wf demo_runtime (body (SlotSet_init demo_runtime (PStr ''city'') (PStr ''Berlin'') PNone PNone))
   \<and> class_of (body (SlotSet_init demo_runtime (PStr ''city'') (PStr ''Berlin'') PNone PNone)) \<notin> {CUserUttered, CActionExecuted}
   \<and> (\<exists>e'. story_decode demo_runtime ''slot{\"city\": \"Berlin\"}'' = Inr (Some [e'])
         \<and> event_eq e' (SlotSet_init demo_runtime (PStr ''city'') (PStr ''Berlin'') PNone PNone) = Inr True)"
proof -
  have h1: "as_story_string demo_runtime (\<lambda>_ _ _. Inr PNone) False (SlotSet_init demo_runtime (PStr ''city'') (PStr ''Berlin'') PNone PNone)
              = Inr (PStr ''slot{\"city\": \"Berlin\"}'')"
    by (simp add: as_story_string_def SlotSet_init_def Event_init_def json_str_def json_escape_char_def)
  have h2: "story_wf demo_runtime (body (SlotSet_init demo_runtime (PStr ''city'') (PStr ''Berlin'') PNone PNone))"
    by (simp add: story_wf_def SlotSet_init_def Event_init_def)
  have h3: "class_of (body (SlotSet_init demo_runtime (PStr ''city'') (PStr ''Berlin'') PNone PNone)) \<notin> {CUserUttered, CActionExecuted}"
    by (simp add: SlotSet_init_def Event_init_def)
  show ?thesis using story_roundtrip[OF h1 h2 h3] h1 h2 h3 by blast
qed

text \<open>C22: Among the classes other than \<open>UserUttered\<close> and \<open>ActionExecuted\<close>,
  \<open>as_story_string\<close> returns \<open>None\<close> exactly for \<open>BotUttered\<close>,
  \<open>AgentUttered\<close>, \<open>FormValidation\<close> and \<open>ActionExecutionRejected\<close>, the
  four classes the specification names as not representable; a user message
  with neither intent nor text, and an action event without a name, also
  write no story line.\<close>

theorem story_absent:
  "(class_of (body e) \<notin> {CUserUttered, CActionExecuted} \<longrightarrow>
     (as_story_string rt md e2e e = Inr PNone \<longleftrightarrow>
      class_of (body e) \<in> {CBotUttered, CAgentUttered, CFormValidation, CActionExecutionRejected}))
   \<and> as_story_string rt md e2e (UserUttered_init rt PNone PNone es pd ts ic mid m) = Inr PNone
   \<and> as_story_string rt md e2e (ActionExecuted_init rt PNone p c ts m) = Inr PNone"
proof (intro conjI impI)
  assume "class_of (body e) \<notin> {CUserUttered, CActionExecuted}"
  then show "as_story_string rt md e2e e = Inr PNone \<longleftrightarrow>
      class_of (body e) \<in> {CBotUttered, CAgentUttered, CFormValidation, CActionExecutionRejected}"
    by (cases "body e") (simp_all add: as_story_string_def)
qed (simp_all add: as_story_string_def UserUttered_init_def ActionExecuted_init_def Event_init_def
                   UserUttered_as_story_string_def Let_def)

theorem story_absent_witness:
  "as_story_string demo_runtime (\<lambda>_ _ _. Inr PNone) False (BotUttered_init demo_runtime (PStr ''hi'') PNone PNone PNone) = Inr PNone
   \<and> as_story_string demo_runtime (\<lambda>_ _ _. Inr PNone) False (Event_init demo_runtime PNone PNone (Form (PStr ''f''))) \<noteq> Inr PNone"
  using story_absent[of "BotUttered_init demo_runtime (PStr ''hi'') PNone PNone PNone" demo_runtime "\<lambda>_ _ _. Inr PNone" False]
        story_absent[of "Event_init demo_runtime PNone PNone (Form (PStr ''f''))" demo_runtime "\<lambda>_ _ _. Inr PNone" False]
  by (simp add: BotUttered_init_def Event_init_def)

text \<open>C23: Multi-slot story lines: \<open>Event.from_story_string("slot", params)\<close>
  yields one \<open>SlotSet\<close> per key of the parameters, in their order, and no
  events (\<open>None\<close>) for empty parameters, whatever default is given.\<close>

theorem slot_story_multi:
  "Event_from_story_string rt (PStr ''slot'') d dflt =
     Inr (if d = [] then None else Some (map (\<lambda>kv. SlotSet_init rt (PStr (fst kv)) (snd kv) PNone PNone) d))"
  using Event_from_story_string_tag[of rt CSlotSet d dflt] by (simp add: from_story_string_cls_def)

text \<open>C24: The story lines of \<open>followup\<close>, \<open>form\<close> and \<open>cancel_reminder\<close>
  escape every non-ASCII character (\<open>json.dumps\<close> with its default
  \<open>ensure_ascii\<close>), while the \<open>slot\<close> line keeps it literally; the
  specification requires literal non-ASCII text for all keyed lines.\<close>

theorem story_ascii_escaping:
  assumes "c \<in> set s" and "127 \<le> (of_char c :: nat)"
    and "p \<in> {FollowupAction (PStr s), Form (PStr s), ReminderCancelled (PStr s)}"
  shows "(\<exists>t. as_story_string rt md e2e (Event_init rt ts m p) = Inr (PStr t) \<and> c \<notin> set t)
       \<and> (\<exists>t. as_story_string rt md e2e (SlotSet_init rt (PStr k) (PStr s) ts m) = Inr (PStr t) \<and> c \<in> set t)"
proof
  obtain key where str: "as_story_string rt md e2e (Event_init rt ts m p)
                      = Inr (PStr (type_name (class_of p) @ json_dumps True (PDict [(key, PStr s)])))"
    and tag: "\<forall>x \<in> set (type_name (class_of p)). (of_char x :: nat) < 127"
    using assms(3) by (elim insertE) (auto simp: as_story_string_def Event_init_def simp del: json_dumps.simps)
  have "c \<notin> set (type_name (class_of p) @ json_dumps True (PDict [(key, PStr s)]))"
    using tag json_dumps_ascii[of "PDict [(key, PStr s)]"] assms(2) by (auto simp del: json_dumps.simps)
  with str show "\<exists>t. as_story_string rt md e2e (Event_init rt ts m p) = Inr (PStr t) \<and> c \<notin> set t"
    by blast
next
  have "c \<in> set (type_name CSlotSet @ json_dumps False (PDict [(k, PStr s)]))"
    using json_dumps_keeps[OF assms(1,2)] by (simp del: json_dumps.simps add: json_dumps.simps(6))
  then show "\<exists>t. as_story_string rt md e2e (SlotSet_init rt (PStr k) (PStr s) ts m) = Inr (PStr t) \<and> c \<in> set t"
    by (simp add: as_story_string_def SlotSet_init_def Event_init_def del: json_dumps.simps)
qed

theorem story_ascii_escaping_witness:
  "(\<exists>t. as_story_string demo_runtime (\<lambda>_ _ _. Inr PNone) False (Event_init demo_runtime PNone PNone (FollowupAction (PStr [CHR 0xE9])))
         = Inr (PStr t) \<and> CHR 0xE9 \<notin> set t)
   \<and> (\<exists>t. as_story_string demo_runtime (\<lambda>_ _ _. Inr PNone) False (SlotSet_init demo_runtime (PStr ''k'') (PStr [CHR 0xE9]) PNone PNone)
         = Inr (PStr t) \<and> CHR 0xE9 \<in> set t)"
  by (rule story_ascii_escaping) simp_all

text \<open>C25: A slot key that is not a string does not survive the story line:
  \<open>json.dumps\<close> writes the integer key as a string, so the line reads back as a
  \<open>SlotSet\<close> with the string key, which is not equal to the original.\<close>

theorem slot_story_key_stringified:
  "wf_pyval v \<Longrightarrow>
   \<exists>s. as_story_string rt md e2e (SlotSet_init rt (PNum i) v ts m) = Inr (PStr s)
     \<and> story_decode rt s = Inr (Some [SlotSet_init rt (PStr (show_int i)) v PNone PNone])
     \<and> event_eq (SlotSet_init rt (PStr (show_int i)) v PNone PNone) (SlotSet_init rt (PNum i) v ts m) = Inr False"
proof -
  assume v: "wf_pyval v"
  then have wf: "wf_pyval (PDict [(show_int i, v)])" by simp
  have "as_story_string rt md e2e (SlotSet_init rt (PNum i) v ts m)
          = Inr (PStr (type_name CSlotSet @ json_dumps False (PDict [(show_int i, v)])))"
    by (simp add: as_story_string_def SlotSet_init_def Event_init_def del: json_dumps.simps)
  moreover have "story_decode rt (type_name CSlotSet @ json_dumps False (PDict [(show_int i, v)]))
                   = Inr (Some [SlotSet_init rt (PStr (show_int i)) v PNone PNone])"
    using story_decode_obj[OF wf, of rt CSlotSet False] by (simp add: from_story_string_cls_def)
  moreover have "event_eq (SlotSet_init rt (PStr (show_int i)) v PNone PNone) (SlotSet_init rt (PNum i) v ts m) = Inr False"
    by (simp add: event_eq_def SlotSet_init_def Event_init_def py_eq_def)
  ultimately show ?thesis by blast
qed

theorem slot_story_key_stringified_witness:
  "wf_pyval (PStr ''on'')
   \<and> (\<exists>s. as_story_string demo_runtime (\<lambda>_ _ _. Inr PNone) False (SlotSet_init demo_runtime (PNum 7) (PStr ''on'') PNone PNone) = Inr (PStr s)
       \<and> story_decode demo_runtime s = Inr (Some [SlotSet_init demo_runtime (PStr (show_int 7)) (PStr ''on'') PNone PNone])
       \<and> event_eq (SlotSet_init demo_runtime (PStr (show_int 7)) (PStr ''on'') PNone PNone)
                  (SlotSet_init demo_runtime (PNum 7) (PStr ''on'') PNone PNone) = Inr False)"
  using slot_story_key_stringified[of "PStr ''on''"] by simp

text \<open>C26: The story string of a user message with an intent and entities is the
  intent name followed by the JSON object from entity names to values, without
  ASCII escaping; in end-to-end mode it is the intent name, a colon and the
  markdown message.\<close>

theorem user_story_string:
  assumes "map_of d ''name'' = Some (PStr n)" and "distinct (map fst kvs)" and "kvs \<noteq> []"
  shows "UserUttered_as_story_string md False text (PDict d) (PList (entity_dicts kvs))
           = Inr (PStr (n @ json_dumps False (PDict kvs)))
       \<and> UserUttered_as_story_string md True text (PDict d) (PList (entity_dicts kvs))
           = err_bind (md text (PDict d) (PList (entity_dicts kvs))) (\<lambda>msg. Inr (PStr (n @ '': '' @ py_str msg)))"
proof -
  have ents: "entity_items [] (entity_dicts kvs) = Inr (map (\<lambda>kv. (PStr (fst kv), snd kv)) kvs)"
    using entity_items_dicts[OF assms(2), of "[]"] by simp
  have "d \<noteq> []" using assms(1) by auto
  with assms(1,3) ents show ?thesis
    by (simp add: UserUttered_as_story_string_def dict_get_default_def json_dumps_kd_PStr py_str_def
             del: json_dumps.simps)
qed

theorem user_story_string_witness:
  "map_of [(''name'', PStr ''inform'')] ''name'' = Some (PStr ''inform'')
   \<and> distinct (map fst [(''city'', PStr ''Berlin'')]) \<and> [(''city'', PStr ''Berlin'')] \<noteq> []
   \<and> UserUttered_as_story_string (\<lambda>_ _ _. Inr (PStr ''m'')) False (PStr ''to Berlin'') (PDict [(''name'', PStr ''inform'')])
        (PList (entity_dicts [(''city'', PStr ''Berlin'')]))
       = Inr (PStr (''inform'' @ json_dumps False (PDict [(''city'', PStr ''Berlin'')])))"
  using user_story_string[of "[(''name'', PStr ''inform'')]" "''inform''" "[(''city'', PStr ''Berlin'')]"
                             "\<lambda>_ _ _. Inr (PStr ''m'')" "PStr ''to Berlin''"]
  by (simp del: json_dumps.simps)

text \<open>C27: With a truthy intent, an entity without an \<open>entity\<close> key raises
  \<open>KeyError\<close>, an unhashable entity name or entities given as a dict raise
  \<open>TypeError\<close>, even in end-to-end mode, and a truthy intent that is not a
  dict raises \<open>AttributeError\<close>. Entities given as non-empty JSON text also
  raise \<open>TypeError\<close> (the entity string indexes each character), so the
  end-to-end branch never reaches \<open>md_format_message\<close>, whose
  \<open>deserialise_entities\<close> would have parsed that text.\<close>

theorem user_story_errors:
  assumes "py_truthy intent" and "s \<noteq> []"
  shows "UserUttered_as_story_string md e2e text intent (PList [PDict [(''value'', v)]]) = Inl (KeyError ''entity'')
       \<and> UserUttered_as_story_string md e2e text intent (PList [PDict [(''entity'', PList xs), (''value'', v)]]) = Inl TypeError
       \<and> UserUttered_as_story_string md e2e text intent (PDict [(''entity'', x)]) = Inl TypeError
       \<and> UserUttered_as_story_string md e2e text (PStr s) (PList []) = Inl AttributeError
       \<and> UserUttered_as_story_string md e2e text intent (PStr s) = Inl TypeError"
  using assms by (cases s) (simp_all add: UserUttered_as_story_string_def py_subscript_def dict_has_def)

theorem user_story_errors_witness:
  "UserUttered_as_story_string (\<lambda>_ _ _. Inr PNone) True PNone (PDict [(''name'', PStr ''inform'')]) (PList [PDict [(''value'', PNum 1)]])
     = Inl (KeyError ''entity'')
   \<and> UserUttered_as_story_string (\<lambda>_ _ _. Inr PNone) True PNone (PStr ''inform'') (PList []) = Inl AttributeError"
  using user_story_errors[of "PDict [(''name'', PStr ''inform'')]" "''inform''" "\<lambda>_ _ _. Inr PNone" True PNone "PNum 1"]
        user_story_errors[of "PStr ''inform''" "''inform''" "\<lambda>_ _ _. Inr PNone" True PNone "PNum 1"]
  by simp

end
