(* ===== verification/Tracker.thy ===== *)
theory Tracker
  imports Events
begin

text \<open>
  The apply protocol: \<open>apply_to\<close> of each class as the sequence of calls it
  makes on the conversation tracker, in the order of the source, and a
  tracker that executes them. The tracker (\<open>DialogueStateTracker\<close>) is not
  part of this repository; its state and operations are modelled from the
  aggregate interface of the specification: slots with their initial
  values, the latest user and bot messages and action, the follow-up action,
  the paused flag, the active form and its validation flag, the rejected
  actions, the story exports, and the event history, replayed without the
  reverted events on a rewind.
\<close>

section \<open>The calls of \<open>apply_to\<close>\<close>

datatype tracker_call =
    SetLatestMessage event            \<comment> \<open>\<open>tracker.latest_message = self\<close>\<close>
  | ClearFollowupAction               \<comment> \<open>\<open>tracker.clear_followup_action()\<close>\<close>
  | SetLatestBotUtterance event       \<comment> \<open>\<open>tracker.latest_bot_utterance = self\<close>\<close>
  | SetSlot pyval pyval               \<comment> \<open>\<open>tracker._set_slot(key, value)\<close>\<close>
  | Reset                             \<comment> \<open>\<open>tracker._reset()\<close>\<close>
  | TriggerFollowupAction pyval       \<comment> \<open>\<open>tracker.trigger_followup_action(name)\<close>\<close>
  | ReplayEvents                      \<comment> \<open>\<open>tracker.replay_events()\<close>\<close>
  | ResetSlots                        \<comment> \<open>\<open>tracker._reset_slots()\<close>\<close>
  | ExportStoriesToFile pyval         \<comment> \<open>\<open>tracker.export_stories_to_file(path)\<close>\<close>
  | SetPaused bool                    \<comment> \<open>\<open>tracker._paused = ...\<close>\<close>
  | SetLatestActionName pyval         \<comment> \<open>\<open>tracker.set_latest_action_name(name)\<close>\<close>
  | ChangeFormTo pyval                \<comment> \<open>\<open>tracker.change_form_to(name)\<close>\<close>
  | SetFormValidation pyval           \<comment> \<open>\<open>tracker.set_form_validation(validate)\<close>\<close>
  | RejectAction pyval                \<comment> \<open>\<open>tracker.reject_action(name)\<close>\<close>

text \<open>\<open>ACTION_LISTEN_NAME\<close> of the action module, the canonical listen action.\<close>

definition ACTION_LISTEN_NAME :: pyval where
  "ACTION_LISTEN_NAME = PStr ''action_listen''"

text \<open>
  \<open>e.apply_to(tracker)\<close>: the classes that do not override it
  (\<open>ReminderScheduled\<close>, \<open>ReminderCancelled\<close>) inherit the empty
  \<open>Event.apply_to\<close>; \<open>AgentUttered.apply_to\<close> is empty too.
\<close>

definition apply_calls :: "event \<Rightarrow> tracker_call list" where
  "apply_calls e = (case body e of
      UserUttered _ _ _ _ _ _ \<Rightarrow> [SetLatestMessage e, ClearFollowupAction]
    | BotUttered _ _ \<Rightarrow> [SetLatestBotUtterance e]
    | SlotSet k v \<Rightarrow> [SetSlot k v]
    | Restarted \<Rightarrow> [Reset, TriggerFollowupAction ACTION_LISTEN_NAME]
    | UserUtteranceReverted \<Rightarrow> [Reset, ReplayEvents]
    | AllSlotsReset \<Rightarrow> [ResetSlots]
    | ReminderScheduled _ _ _ _ \<Rightarrow> []
    | ReminderCancelled _ \<Rightarrow> []
    | ActionReverted \<Rightarrow> [Reset, ReplayEvents]
    | StoryExported path \<Rightarrow> (if py_truthy path then [ExportStoriesToFile path] else [])
    | FollowupAction a \<Rightarrow> [TriggerFollowupAction a]
    | ConversationPaused \<Rightarrow> [SetPaused True]
    | ConversationResumed \<Rightarrow> [SetPaused False]
    | ActionExecuted a _ _ \<Rightarrow> [SetLatestActionName a, ClearFollowupAction]
    | AgentUttered _ _ \<Rightarrow> []
    | Form n \<Rightarrow> [ChangeFormTo n]
    | FormValidation v \<Rightarrow> [SetFormValidation v]
    | ActionExecutionRejected a _ _ \<Rightarrow> [RejectAction a])"

section \<open>The tracker\<close>

record tracker =
  tr_events :: "event list"
  tr_slot_init :: "(pyval \<times> pyval) list"
  tr_slots :: "(pyval \<times> pyval) list"
  tr_latest_message :: "event option"
  tr_latest_bot_utterance :: "event option"
  tr_latest_action_name :: pyval
  tr_followup_action :: pyval
  tr_paused :: bool
  tr_active_form :: pyval
  tr_form_validation :: pyval
  tr_rejected :: "pyval list"
  tr_exported :: "pyval list"

definition init_tracker :: "(pyval \<times> pyval) list \<Rightarrow> tracker" where
  "init_tracker si =
     \<lparr>tr_events = [], tr_slot_init = si, tr_slots = si, tr_latest_message = None,
      tr_latest_bot_utterance = None, tr_latest_action_name = PNone, tr_followup_action = PNone,
      tr_paused = False, tr_active_form = PNone, tr_form_validation = PNone,
      tr_rejected = [], tr_exported = []\<rparr>"

text \<open>Setting a slot the domain defines; other keys leave the slots unchanged.\<close>

definition set_slot :: "(pyval \<times> pyval) list \<Rightarrow> pyval \<Rightarrow> pyval \<Rightarrow> (pyval \<times> pyval) list" where
  "set_slot sl k v = map (\<lambda>kv. if fst kv = k then (k, v) else kv) sl"

text \<open>Wiping the conversation state: slots back to their initial values.\<close>

definition tracker_reset :: "tracker \<Rightarrow> tracker" where
  "tracker_reset t =
     t\<lparr>tr_slots := tr_slot_init t, tr_latest_message := None, tr_latest_bot_utterance := None,
       tr_latest_action_name := PNone, tr_followup_action := PNone, tr_paused := False,
       tr_active_form := PNone, tr_form_validation := PNone\<rparr>"

text \<open>One call, with \<open>replay_events\<close> left to \<open>exec_call\<close>.\<close>

fun exec_base :: "tracker_call \<Rightarrow> tracker \<Rightarrow> tracker" where
  "exec_base (SetLatestMessage e) t = t\<lparr>tr_latest_message := Some e\<rparr>"
| "exec_base ClearFollowupAction t = t\<lparr>tr_followup_action := PNone\<rparr>"
| "exec_base (SetLatestBotUtterance e) t = t\<lparr>tr_latest_bot_utterance := Some e\<rparr>"
| "exec_base (SetSlot k v) t = t\<lparr>tr_slots := set_slot (tr_slots t) k v\<rparr>"
| "exec_base Reset t = tracker_reset t"
| "exec_base (TriggerFollowupAction a) t = t\<lparr>tr_followup_action := a\<rparr>"
| "exec_base ReplayEvents t = t"
| "exec_base ResetSlots t = t\<lparr>tr_slots := tr_slot_init t\<rparr>"
| "exec_base (ExportStoriesToFile p) t = t\<lparr>tr_exported := tr_exported t @ [p]\<rparr>"
| "exec_base (SetPaused b) t = t\<lparr>tr_paused := b\<rparr>"
| "exec_base (SetLatestActionName a) t = t\<lparr>tr_latest_action_name := a\<rparr>"
| "exec_base (ChangeFormTo n) t = t\<lparr>tr_active_form := n\<rparr>"
| "exec_base (SetFormValidation v) t = t\<lparr>tr_form_validation := v\<rparr>"
| "exec_base (RejectAction a) t = t\<lparr>tr_rejected := tr_rejected t @ [a]\<rparr>"

text \<open>
  The events whose effect stands: a restart forgets everything before it, an
  action revert removes the events back to and including the last executed
  action, a user revert those back to and including the last user message.
\<close>

definition undo_till :: "event_class \<Rightarrow> event list \<Rightarrow> event list" where
  "undo_till c xs = rev (drop 1 (dropWhile (\<lambda>e. class_of (body e) \<noteq> c) (rev xs)))"

definition applied_step :: "event \<Rightarrow> event list \<Rightarrow> event list" where
  "applied_step e acc = (case class_of (body e) of
      CRestarted \<Rightarrow> []
    | CActionReverted \<Rightarrow> undo_till CActionExecuted acc
    | CUserUtteranceReverted \<Rightarrow> undo_till CUserUttered acc
    | _ \<Rightarrow> acc @ [e])"

definition applied_events :: "event list \<Rightarrow> event list" where
  "applied_events es = fold applied_step es []"

definition apply_base :: "event \<Rightarrow> tracker \<Rightarrow> tracker" where
  "apply_base e t = fold exec_base (apply_calls e) t"

definition exec_call :: "tracker_call \<Rightarrow> tracker \<Rightarrow> tracker" where
  "exec_call c t = (if c = ReplayEvents then fold apply_base (applied_events (tr_events t)) t
                    else exec_base c t)"

text \<open>\<open>tracker.update(event)\<close>: the event joins the history, then is applied.\<close>

definition tracker_update :: "tracker \<Rightarrow> event \<Rightarrow> tracker" where
  "tracker_update t e = fold exec_call (apply_calls e) (t\<lparr>tr_events := tr_events t @ [e]\<rparr>)"

text \<open>The part of the state the applied events determine.\<close>

definition tracker_view :: "tracker \<Rightarrow> _" where
  "tracker_view t = (tr_slot_init t, tr_slots t, tr_latest_message t, tr_latest_bot_utterance t,
                     tr_latest_action_name t, tr_paused t, tr_active_form t, tr_form_validation t)"

text \<open>
  The trackers reachable from a fresh one with initial slots \<open>si\<close> by
  updates with any events.
\<close>

inductive reachable :: "(pyval \<times> pyval) list \<Rightarrow> tracker \<Rightarrow> bool" for si where
  init: "reachable si (init_tracker si)"
| update: "reachable si t \<Longrightarrow> reachable si (tracker_update t e)"

section \<open>Lemmas\<close>

lemma view_exec_base:
  "tracker_view t1 = tracker_view t2 \<Longrightarrow> tracker_view (exec_base c t1) = tracker_view (exec_base c t2)"
  by (cases c) (simp_all add: tracker_view_def tracker_reset_def)

lemma view_fold_exec_base:
  "tracker_view t1 = tracker_view t2 \<Longrightarrow>
   tracker_view (fold exec_base cs t1) = tracker_view (fold exec_base cs t2)"
proof (induction cs arbitrary: t1 t2)
  case (Cons c cs)
  show ?case using Cons.IH[OF view_exec_base[OF Cons.prems]] by simp
qed simp

lemma view_fold_apply_base:
  "tracker_view t1 = tracker_view t2 \<Longrightarrow>
   tracker_view (fold apply_base es t1) = tracker_view (fold apply_base es t2)"
proof (induction es arbitrary: t1 t2)
  case (Cons e es)
  show ?case
    using Cons.IH[OF view_fold_exec_base[OF Cons.prems, of "apply_calls e"]] by (simp add: apply_base_def)
qed simp
lemma exec_call_base: "c \<noteq> ReplayEvents \<Longrightarrow> exec_call c t = exec_base c t"
  by (simp add: exec_call_def)

lemma applied_events_snoc: "applied_events (h @ [e]) = applied_step e (applied_events h)"
  by (simp add: applied_events_def)

lemma fold_apply_base_snoc: "fold apply_base (xs @ [e]) t = fold exec_base (apply_calls e) (fold apply_base xs t)"
  by (simp add: apply_base_def)

lemma view_reset: "tr_slot_init t = si \<Longrightarrow> tracker_view (tracker_reset t) = tracker_view (init_tracker si)"
  by (simp add: tracker_view_def tracker_reset_def init_tracker_def)

lemma set_slot_keys [simp]: "map fst (set_slot sl k v) = map fst sl"
  by (induction sl) (auto simp: set_slot_def)

lemma exec_base_frame:
  "tr_events (exec_base c t) = tr_events t \<and> tr_slot_init (exec_base c t) = tr_slot_init t
   \<and> (map fst (tr_slots t) = map fst (tr_slot_init t) \<longrightarrow>
      map fst (tr_slots (exec_base c t)) = map fst (tr_slot_init t))"
  by (cases c) (simp_all add: tracker_reset_def)

lemma fold_exec_base_frame:
  "tr_events (fold exec_base cs t) = tr_events t \<and> tr_slot_init (fold exec_base cs t) = tr_slot_init t
   \<and> (map fst (tr_slots t) = map fst (tr_slot_init t) \<longrightarrow>
      map fst (tr_slots (fold exec_base cs t)) = map fst (tr_slot_init t))"
proof (induction cs arbitrary: t)
  case (Cons c cs)
  show ?case using Cons.IH[of "exec_base c t"] exec_base_frame[of c t] by simp
qed simp

lemma fold_apply_base_frame:
  "tr_events (fold apply_base es t) = tr_events t \<and> tr_slot_init (fold apply_base es t) = tr_slot_init t
   \<and> (map fst (tr_slots t) = map fst (tr_slot_init t) \<longrightarrow>
      map fst (tr_slots (fold apply_base es t)) = map fst (tr_slot_init t))"
proof (induction es arbitrary: t)
  case (Cons e es)
  show ?case
    using Cons.IH[of "apply_base e t"] fold_exec_base_frame[of "apply_calls e" t] by (simp add: apply_base_def)
qed simp

lemma exec_call_frame:
  "tr_events (exec_call c t) = tr_events t \<and> tr_slot_init (exec_call c t) = tr_slot_init t
   \<and> (map fst (tr_slots t) = map fst (tr_slot_init t) \<longrightarrow>
      map fst (tr_slots (exec_call c t)) = map fst (tr_slot_init t))"
  using exec_base_frame[of c t] fold_apply_base_frame[of "applied_events (tr_events t)" t]
  by (simp add: exec_call_def)

lemma fold_exec_call_frame:
  "tr_events (fold exec_call cs t) = tr_events t \<and> tr_slot_init (fold exec_call cs t) = tr_slot_init t
   \<and> (map fst (tr_slots t) = map fst (tr_slot_init t) \<longrightarrow>
      map fst (tr_slots (fold exec_call cs t)) = map fst (tr_slot_init t))"
proof (induction cs arbitrary: t)
  case (Cons c cs)
  show ?case using Cons.IH[of "exec_call c t"] exec_call_frame[of c t] by simp
qed simp

lemma update_frame:
  "tr_events (tracker_update t e) = tr_events t @ [e] \<and> tr_slot_init (tracker_update t e) = tr_slot_init t
   \<and> (map fst (tr_slots t) = map fst (tr_slot_init t) \<longrightarrow>
      map fst (tr_slots (tracker_update t e)) = map fst (tr_slot_init t))"
  using fold_exec_call_frame[of "apply_calls e" "t\<lparr>tr_events := tr_events t @ [e]\<rparr>"]
  by (simp add: tracker_update_def)

lemma fold_exec_call_no_replay:
  "ReplayEvents \<notin> set cs \<Longrightarrow> fold exec_call cs t = fold exec_base cs t"
  by (induction cs arbitrary: t) (auto simp: exec_call_def)

lemma plain_event:
  "class_of (body e) \<notin> {CRestarted, CActionReverted, CUserUtteranceReverted} \<Longrightarrow>
   ReplayEvents \<notin> set (apply_calls e) \<and> applied_step e acc = acc @ [e]"
  by (cases "body e") (simp_all add: apply_calls_def applied_step_def)

lemma update_view:
  assumes si: "tr_slot_init t = si"
    and v: "tracker_view t = tracker_view (fold apply_base (applied_events (tr_events t)) (init_tracker si))"
  shows "tracker_view (tracker_update t e)
           = tracker_view (fold apply_base (applied_events (tr_events t @ [e])) (init_tracker si))"
proof -
  let ?t' = "t\<lparr>tr_events := tr_events t @ [e]\<rparr>"
  have si': "tr_slot_init ?t' = si" using si by simp
  consider (restart) "body e = Restarted"
    | (revert) "body e = UserUtteranceReverted \<or> body e = ActionReverted"
    | (plain) "class_of (body e) \<notin> {CRestarted, CActionReverted, CUserUtteranceReverted}"
    by (cases "body e") auto
  then show ?thesis
  proof cases
    case restart
    then show ?thesis using view_reset[OF si']
      by (simp add: tracker_update_def apply_calls_def exec_call_def applied_events_snoc applied_step_def
                    tracker_view_def tracker_reset_def init_tracker_def)
  next
    case revert
    then have "tracker_update t e = fold apply_base (applied_events (tr_events t @ [e])) (tracker_reset ?t')"
      by (auto simp: tracker_update_def apply_calls_def exec_call_def tracker_reset_def)
    then show ?thesis using view_fold_apply_base[OF view_reset[OF si']] by simp
  next
    case plain
    then have np: "ReplayEvents \<notin> set (apply_calls e)" and ap: "applied_step e (applied_events (tr_events t))
        = applied_events (tr_events t) @ [e]" using plain_event by blast+
    have "tracker_view ?t' = tracker_view (fold apply_base (applied_events (tr_events t)) (init_tracker si))"
      using v by (simp add: tracker_view_def)
    from view_fold_exec_base[OF this, of "apply_calls e"] show ?thesis
      by (simp add: tracker_update_def fold_exec_call_no_replay[OF np] applied_events_snoc ap
                    apply_base_def)
  qed
qed

lemma reachable_view:
  "reachable si t \<Longrightarrow>
   tr_slot_init t = si \<and> map fst (tr_slots t) = map fst si
   \<and> tracker_view t = tracker_view (fold apply_base (applied_events (tr_events t)) (init_tracker si))"
proof (induction rule: reachable.induct)
  case init
  then show ?case by (simp add: init_tracker_def applied_events_def)
next
  case (update t e)
  then show ?case using update_frame[of t e] update_view[of t si e] by simp
qed

lemma reachable_fold: "reachable si t \<Longrightarrow> reachable si (fold (\<lambda>e t. tracker_update t e) es t)"
  by (induction es arbitrary: t) (auto intro: reachable.update)

lemma events_fold: "tr_events (fold (\<lambda>e t. tracker_update t e) es t) = tr_events t @ es"
  by (induction es arbitrary: t) (simp_all add: update_frame)

lemma applied_events_plain:
  "\<forall>x\<in>set xs. class_of (body x) \<notin> {CRestarted, CActionReverted, CUserUtteranceReverted} \<Longrightarrow>
   applied_events (h @ xs) = applied_events h @ xs"
proof (induction xs rule: rev_induct)
  case (snoc x xs)
  then show ?case using plain_event[of x] by (simp add: applied_events_snoc[of "h @ xs", simplified])
qed simp

section \<open>Properties\<close>

text \<open>C28: Replay invariant of the apply protocol: in every tracker reachable
  by \<open>update\<close>, the slots keep the keys of the domain, and the slots, the
  latest messages and action, the paused flag and the form state are those
  obtained by applying only the events a rewind keeps (no restart before
  them, no reverted user turn or action), in order, to a fresh tracker.\<close>

theorem tracker_replay_agrees:
  "reachable si t \<Longrightarrow>
   tr_slot_init t = si \<and> map fst (tr_slots t) = map fst si
   \<and> tracker_view t = tracker_view (fold apply_base (applied_events (tr_events t)) (init_tracker si))"
  by (rule reachable_view)

theorem tracker_replay_agrees_witness:
  "reachable [(PStr ''city'', PNone)]
     (tracker_update (init_tracker [(PStr ''city'', PNone)]) (SlotSet_init demo_runtime (PStr ''city'') (PStr ''Berlin'') PNone PNone))
   \<and> tr_slot_init (tracker_update (init_tracker [(PStr ''city'', PNone)]) (SlotSet_init demo_runtime (PStr ''city'') (PStr ''Berlin'') PNone PNone))
     = [(PStr ''city'', PNone)]"
proof -
  have r: "reachable [(PStr ''city'', PNone)]
     (tracker_update (init_tracker [(PStr ''city'', PNone)]) (SlotSet_init demo_runtime (PStr ''city'') (PStr ''Berlin'') PNone PNone))"
    by (intro reachable.update reachable.init)
  show ?thesis using tracker_replay_agrees[OF r] r by blast
qed

text \<open>C29: A revert rewinds the conversation: updating a reachable tracker
  with a user message (an executed action), then events that are no user
  message (no executed action), restart or revert, then a
  \<open>UserUtteranceReverted\<close> (an \<open>ActionReverted\<close>), leaves the slots, latest
  messages and action, paused flag and form state as they were.\<close>

theorem revert_rewinds:
  assumes "reachable si t"
    and "(class_of (body u), class_of (body r))
           \<in> {(CUserUttered, CUserUtteranceReverted), (CActionExecuted, CActionReverted)}"
    and "\<forall>x\<in>set xs. class_of (body x) \<notin> {class_of (body u), CRestarted, CActionReverted, CUserUtteranceReverted}"
  shows "tracker_view (fold (\<lambda>e t. tracker_update t e) (u # xs @ [r]) t) = tracker_view t"
proof -
  let ?T = "fold (\<lambda>e t. tracker_update t e) (u # xs @ [r]) t"
  let ?c = "class_of (body u)"
  have u: "?c \<notin> {CRestarted, CActionReverted, CUserUtteranceReverted}" using assms(2) by auto
  have "applied_events (tr_events t @ u # xs) = applied_events (tr_events t) @ u # xs"
    using u assms(3) applied_events_plain[of "u # xs" "tr_events t"] by auto
  moreover have "dropWhile (\<lambda>e. class_of (body e) \<noteq> ?c) (rev xs @ [u] @ rev ys) = u # rev ys" for ys
    using assms(3) by (simp add: dropWhile_append3)
  moreover have ev: "tr_events ?T = (tr_events t @ u # xs) @ [r]" by (simp only: events_fold) simp
  moreover have "applied_step r acc = undo_till ?c acc" for acc
    using assms(2) by (auto simp: applied_step_def)
  ultimately have "applied_events (tr_events ?T) = applied_events (tr_events t)"
    unfolding ev applied_events_snoc by (simp add: undo_till_def)
  moreover have "tracker_view ?T = tracker_view (fold apply_base (applied_events (tr_events ?T)) (init_tracker si))"
    using reachable_view[OF reachable_fold[OF assms(1), of "u # xs @ [r]"]] by blast
  moreover have "tracker_view t = tracker_view (fold apply_base (applied_events (tr_events t)) (init_tracker si))"
    using reachable_view[OF assms(1)] by blast
  ultimately show ?thesis by (simp only:)
qed

theorem revert_rewinds_witness:
  "tracker_view (fold (\<lambda>e t. tracker_update t e)
        (UserUttered_init demo_runtime (PStr ''hi'') PNone PNone PNone PNone PNone PNone PNone
         # [SlotSet_init demo_runtime (PStr ''city'') (PStr ''Berlin'') PNone PNone]
         @ [Event_init demo_runtime PNone PNone UserUtteranceReverted])
        (init_tracker [(PStr ''city'', PNone)]))
     = tracker_view (init_tracker [(PStr ''city'', PNone)])"
proof -
  have h1: "reachable [(PStr ''city'', PNone)] (init_tracker [(PStr ''city'', PNone)])" by (rule reachable.init)
  have h2: "class_of (body (UserUttered_init demo_runtime (PStr ''hi'') PNone PNone PNone PNone PNone PNone PNone)) = CUserUttered"
    by (simp add: UserUttered_init_def Event_init_def Let_def)
  have h3: "(class_of (body (UserUttered_init demo_runtime (PStr ''hi'') PNone PNone PNone PNone PNone PNone PNone)),
              class_of (body (Event_init demo_runtime PNone PNone UserUtteranceReverted)))
           \<in> {(CUserUttered, CUserUtteranceReverted), (CActionExecuted, CActionReverted)}"
    using h2 by (simp add: Event_init_def)
  have h4: "\<forall>x\<in>set [SlotSet_init demo_runtime (PStr ''city'') (PStr ''Berlin'') PNone PNone].
        class_of (body x) \<notin> {class_of (body (UserUttered_init demo_runtime (PStr ''hi'') PNone PNone PNone PNone PNone PNone PNone)),
                              CRestarted, CActionReverted, CUserUtteranceReverted}"
    using h2 by (simp add: SlotSet_init_def Event_init_def)
  show ?thesis by (rule revert_rewinds[OF h1 h3 h4])
qed

text \<open>C30: \<open>ReminderScheduled\<close>, \<open>ReminderCancelled\<close> and \<open>AgentUttered\<close> do
  not change the tracker beyond joining its history: their \<open>apply_to\<close> is
  empty, although the specification says a reminder event schedules, and a
  cancellation cancels, the matching reminders.\<close>

theorem reminders_no_effect:
  "class_of (body e) \<in> {CReminderScheduled, CReminderCancelled, CAgentUttered} \<Longrightarrow>
   tracker_update t e = t\<lparr>tr_events := tr_events t @ [e]\<rparr>"
  by (cases "body e") (simp_all add: tracker_update_def apply_calls_def)

theorem reminders_no_effect_witness:
  "tracker_update (init_tracker []) (Event_init demo_runtime PNone PNone (ReminderCancelled (PStr ''remind'')))
     = (init_tracker [])\<lparr>tr_events := [Event_init demo_runtime PNone PNone (ReminderCancelled (PStr ''remind''))]\<rparr>"
proof -
  have h: "class_of (body (Event_init demo_runtime PNone PNone (ReminderCancelled (PStr ''remind''))))
             \<in> {CReminderScheduled, CReminderCancelled, CAgentUttered}"
    by (simp add: Event_init_def)
  show ?thesis using reminders_no_effect[OF h] by (simp add: init_tracker_def)
qed

text \<open>C34: A conversation can always be started over: from every reachable
  tracker, a \<open>Restarted\<close> event brings the slots, latest messages and action,
  paused flag and form state back to those of a fresh tracker, leaves no
  event to replay, and queues \<open>action_listen\<close> as the follow-up action.\<close>

theorem restart_recovers:
  assumes "reachable si t" and "class_of (body e) = CRestarted"
  shows "tracker_view (tracker_update t e) = tracker_view (init_tracker si)
       \<and> applied_events (tr_events (tracker_update t e)) = []
       \<and> tr_followup_action (tracker_update t e) = ACTION_LISTEN_NAME"
proof -
  have b: "body e = Restarted" using assms(2) by (cases "body e") simp_all
  let ?t = "t\<lparr>tr_events := tr_events t @ [e]\<rparr>"
  have u: "tracker_update t e = (tracker_reset ?t)\<lparr>tr_followup_action := ACTION_LISTEN_NAME\<rparr>"
    by (simp add: tracker_update_def apply_calls_def b exec_call_base)
  have si: "tr_slot_init ?t = si" using reachable_view[OF assms(1)] by simp
  have "tracker_view (tracker_update t e) = tracker_view (tracker_reset ?t)"
    unfolding u by (simp add: tracker_view_def)
  also have "\<dots> = tracker_view (init_tracker si)" by (rule view_reset[OF si])
  finally show ?thesis
    using update_frame[of t e] assms(2) u
    by (simp add: applied_events_snoc applied_step_def tracker_reset_def)
qed

theorem restart_recovers_witness:
  "tracker_view (tracker_update (tracker_update (init_tracker [(PStr ''city'', PNone)])
       (SlotSet_init demo_runtime (PStr ''city'') (PStr ''Berlin'') PNone PNone))
       (Event_init demo_runtime PNone PNone Restarted))
     = tracker_view (init_tracker [(PStr ''city'', PNone)])"
proof -
  have h1: "reachable [(PStr ''city'', PNone)]
     (tracker_update (init_tracker [(PStr ''city'', PNone)]) (SlotSet_init demo_runtime (PStr ''city'') (PStr ''Berlin'') PNone PNone))"
    by (intro reachable.update reachable.init)
  have h2: "class_of (body (Event_init demo_runtime PNone PNone Restarted)) = CRestarted"
    by (simp add: Event_init_def)
  show ?thesis using restart_recovers[OF h1 h2] by blast
qed

end
