(* ===== verification/BotMessage.thy ===== *)
theory BotMessage
  imports StoryCodec
begin

text \<open>
  \<open>BotUttered.message()\<close>: the dict a channel receives for a bot message.
  The dict may hold keys that are not strings (\<open>m.update(self.metadata)\<close>
  accepts any iterable of pairs), so it is a dict with hashable keys compared
  by Python \<open>==\<close>, as \<open>kd_set\<close> builds it.
\<close>

section \<open>Definitions\<close>

text \<open>\<open>m.get(k)\<close> on a dict with hashable keys.\<close>

definition kd_get :: "(pyval \<times> pyval) list \<Rightarrow> pyval \<Rightarrow> pyval" where
  "kd_get kd k = (case find (\<lambda>kv. py_eq (fst kv) k) kd of Some kv \<Rightarrow> snd kv | None \<Rightarrow> PNone)"

text \<open>
  One item of the iterable \<open>dict.update\<close> receives: it must iterate to
  exactly two values (\<open>ValueError\<close> otherwise, \<open>TypeError\<close> when it is not
  iterable), the first a hashable key.
\<close>

definition update_item :: "(pyval \<times> pyval) list \<Rightarrow> pyval \<Rightarrow> py_error + (pyval \<times> pyval) list" where
  "update_item kd item =
     err_bind (py_iter item) (\<lambda>ys.
       (case ys of
          [k, v] \<Rightarrow> if py_hashable k then Inr (kd_set kd k v) else Inl TypeError
        | _ \<Rightarrow> Inl ValueError))"

fun update_items :: "(pyval \<times> pyval) list \<Rightarrow> pyval list \<Rightarrow> py_error + (pyval \<times> pyval) list" where
  "update_items kd [] = Inr kd"
| "update_items kd (x # xs) = err_bind (update_item kd x) (\<lambda>kd'. update_items kd' xs)"

text \<open>\<open>m.update(arg)\<close>: a dict is merged key by key; anything else is iterated.\<close>

definition kd_update :: "(pyval \<times> pyval) list \<Rightarrow> pyval \<Rightarrow> py_error + (pyval \<times> pyval) list" where
  "kd_update kd arg = (case arg of
      PDict e \<Rightarrow> Inr (fold (\<lambda>kv acc. kd_set acc (PStr (fst kv)) (snd kv)) e kd)
    | _ \<Rightarrow> err_bind (py_iter arg) (update_items kd))"

text \<open>
  \<open>BotUttered.message()\<close>: a copy of the data (\<open>dict.copy\<close>; a list copies
  too but refuses a string index, other values have no \<open>copy\<close>), then the
  text and the timestamp, then the metadata; when image and attachment are
  equal (\<open>None\<close> when absent) the attachment is set to \<open>None\<close>.
\<close>

definition BotUttered_message :: "event \<Rightarrow> py_error + (pyval \<times> pyval) list" where
  "BotUttered_message e = (case body e of
      BotUttered text data \<Rightarrow>
        (case data of
           PDict d \<Rightarrow>
             (let m = kd_set (kd_set (map (\<lambda>kv. (PStr (fst kv), snd kv)) d) (PStr ''text'') text)
                         (PStr ''timestamp'') (timestamp e)
              in err_bind (kd_update m (metadata e)) (\<lambda>m'.
                   Inr (if py_eq (kd_get m' (PStr ''image'')) (kd_get m' (PStr ''attachment''))
                        then kd_set m' (PStr ''attachment'') PNone else m')))
         | PList _ \<Rightarrow> Inl TypeError
         | _ \<Rightarrow> Inl AttributeError)
    | _ \<Rightarrow> Inl AttributeError)"

abbreviation str_keys :: "pydict \<Rightarrow> (pyval \<times> pyval) list" where
  "str_keys d \<equiv> map (\<lambda>kv. (PStr (fst kv), snd kv)) d"

section \<open>Lemmas\<close>

lemma fst_str_keys [simp]: "fst ` set (str_keys d) = PStr ` set (map fst d)"
  by (simp add: image_image)

lemma kd_get_absent: "PStr s \<notin> fst ` set kd \<Longrightarrow> kd_get kd (PStr s) = PNone"
proof -
  assume "PStr s \<notin> fst ` set kd"
  then have "find (\<lambda>kv. py_eq (fst kv) (PStr s)) kd = None"
    by (force simp: find_None_iff py_eq_PStr_right)
  then show ?thesis by (simp add: kd_get_def)
qed

lemma kd_set_fresh: "PStr s \<notin> fst ` set kd \<Longrightarrow> kd_set kd (PStr s) v = kd @ [(PStr s, v)]"
  by (rule kd_set_new) (force simp: py_eq_PStr_right)

lemma kd_fold_fresh:
  "distinct (map fst e) \<Longrightarrow> \<forall>k\<in>set (map fst e). PStr k \<notin> fst ` set kd \<Longrightarrow>
   fold (\<lambda>kv acc. kd_set acc (PStr (fst kv)) (snd kv)) e kd = kd @ str_keys e"
proof (induction e arbitrary: kd)
  case (Cons kv e)
  have "fold (\<lambda>kv acc. kd_set acc (PStr (fst kv)) (snd kv)) e (kd @ [(PStr (fst kv), snd kv)])
          = (kd @ [(PStr (fst kv), snd kv)]) @ str_keys e"
  proof (rule Cons.IH)
    show "distinct (map fst e)" using Cons.prems(1) by simp
    show "\<forall>k\<in>set (map fst e). PStr k \<notin> fst ` set (kd @ [(PStr (fst kv), snd kv)])"
    proof
      fix k assume k: "k \<in> set (map fst e)"
      have "fst kv \<notin> set (map fst e)" using Cons.prems(1) by simp
      then have "k \<noteq> fst kv" using k by blast
      moreover have "PStr k \<notin> fst ` set kd"
        using bspec[OF Cons.prems(2), of k] k by simp
      ultimately show "PStr k \<notin> fst ` set (kd @ [(PStr (fst kv), snd kv)])" by simp
    qed
  qed
  moreover have "PStr (fst kv) \<notin> fst ` set kd" using Cons.prems(2) by simp
  ultimately show ?case by (simp add: kd_set_fresh)
qed simp

lemma kd_get_set_same: "kd_get (kd_set kd (PStr s) v) (PStr s) = v"
  by (induction kd) (auto simp: kd_get_def py_eq_PStr_right)

lemma kd_get_set_other: "a \<noteq> s \<Longrightarrow> kd_get (kd_set kd (PStr a) v) (PStr s) = kd_get kd (PStr s)"
  by (induction kd) (auto simp: kd_get_def py_eq_PStr_right)

lemma kd_get_fold_set:
  "distinct (map fst e) \<Longrightarrow>
   kd_get (fold (\<lambda>kv acc. kd_set acc (PStr (fst kv)) (snd kv)) e kd) (PStr s)
     = (if dict_has e s then dict_get e s else kd_get kd (PStr s))"
proof (induction e arbitrary: kd)
  case (Cons kv e)
  show ?case
  proof (cases "fst kv = s")
    case True
    then have "\<not> dict_has e s" using Cons.prems by (auto simp: dict_has_def)
    then show ?thesis
      using Cons.IH[of "kd_set kd (PStr (fst kv)) (snd kv)"] Cons.prems True
      by (cases kv) (simp add: kd_get_set_same dict_get_default_def)
  next
    case False
    then show ?thesis
      using Cons.IH[of "kd_set kd (PStr (fst kv)) (snd kv)"] Cons.prems
      by (cases kv) (simp add: kd_get_set_other dict_get_default_def)
  qed
qed simp

section \<open>Properties\<close>

text \<open>C31: The message dict of a bot utterance whose data and metadata are dicts
  with distinct keys, none of them \<open>text\<close>, \<open>timestamp\<close>, \<open>image\<close> or
  \<open>attachment\<close>: the data items, the text and the timestamp, the metadata
  items, in this order, and an \<open>attachment\<close> key with \<open>None\<close> that the
  image/attachment de-duplication adds because the two absent values are
  equal.\<close>

theorem bot_message_shape:
  assumes "body e = BotUttered text (PDict d)" and "metadata e = PDict md"
    and "distinct (map fst (d @ md))"
    and "\<forall>k\<in>set (map fst (d @ md)). k \<notin> {''text'', ''timestamp'', ''image'', ''attachment''}"
  shows "BotUttered_message e =
           Inr (str_keys d @ [(PStr ''text'', text), (PStr ''timestamp'', timestamp e)] @ str_keys md
                @ [(PStr ''attachment'', PNone)])"
proof -
  let ?m = "str_keys d @ [(PStr ''text'', text), (PStr ''timestamp'', timestamp e)]"
  have ks: "x \<notin> fst ` set d \<and> x \<notin> fst ` set md"
    if "x \<in> {''text'', ''timestamp'', ''image'', ''attachment''}" for x
    using assms(4) that by auto
  have t1: "PStr ''text'' \<notin> fst ` set (str_keys d)" using ks[of "''text''"] by force
  have t2: "PStr ''timestamp'' \<notin> fst ` set (str_keys d @ [(PStr ''text'', text)])"
    using ks[of "''timestamp''"] by force
  have m: "kd_set (kd_set (str_keys d) (PStr ''text'') text) (PStr ''timestamp'') (timestamp e) = ?m"
    unfolding kd_set_fresh[OF t1] kd_set_fresh[OF t2] by (simp only: append_assoc append_Cons append_Nil)
  have dj: "set (map fst d) \<inter> set (map fst md) = {}" using assms(3) by simp
  have fresh_md: "\<forall>k\<in>set (map fst md). PStr k \<notin> fst ` set ?m"
  proof
    fix k assume km: "k \<in> set (map fst md)"
    then have "k \<notin> set (map fst d)" "k \<noteq> ''text''" "k \<noteq> ''timestamp''" using dj assms(4) by auto
    then show "PStr k \<notin> fst ` set ?m" by (simp add: image_iff)
  qed
  have u: "kd_update ?m (metadata e) = Inr (?m @ str_keys md)"
    using assms(2,3) kd_fold_fresh[OF _ fresh_md] by (simp add: kd_update_def)
  have i: "PStr ''image'' \<notin> fst ` set (?m @ str_keys md)"
    using ks[of "''image''"] by force
  have a: "PStr ''attachment'' \<notin> fst ` set (?m @ str_keys md)"
    using ks[of "''attachment''"] by force
  have "BotUttered_message e = Inr (kd_set (?m @ str_keys md) (PStr ''attachment'') PNone)"
    using assms(1) kd_get_absent[OF i] kd_get_absent[OF a]
    by (simp add: BotUttered_message_def Let_def m u del: kd_set.simps)
  then show ?thesis unfolding kd_set_fresh[OF a] by (simp only: append_assoc append_Cons append_Nil)
qed

theorem bot_message_shape_witness:
  "BotUttered_message (BotUttered_init demo_runtime (PStr ''hi'') (PDict [(''buttons'', PList [])])
                         (PDict [(''channel'', PStr ''web'')]) PNone)
   = Inr ([(PStr ''buttons'', PList []), (PStr ''text'', PStr ''hi''), (PStr ''timestamp'', PNum 1700000000)]
          @ [(PStr ''channel'', PStr ''web''), (PStr ''attachment'', PNone)])"
proof -
  have h1: "body (BotUttered_init demo_runtime (PStr ''hi'') (PDict [(''buttons'', PList [])]) (PDict [(''channel'', PStr ''web'')]) PNone)
              = BotUttered (PStr ''hi'') (PDict [(''buttons'', PList [])])"
    by (simp add: BotUttered_init_def Event_init_def)
  have h2: "metadata (BotUttered_init demo_runtime (PStr ''hi'') (PDict [(''buttons'', PList [])]) (PDict [(''channel'', PStr ''web'')]) PNone)
              = PDict [(''channel'', PStr ''web'')]"
    by (simp add: BotUttered_init_def Event_init_def)
  have h3: "distinct (map fst ([(''buttons'', PList [])] @ [(''channel'', PStr ''web'')]))" by simp
  have h4: "\<forall>k\<in>set (map fst ([(''buttons'', PList [])] @ [(''channel'', PStr ''web'')])).
              k \<notin> {''text'', ''timestamp'', ''image'', ''attachment''}" by simp
  have ts: "timestamp (BotUttered_init demo_runtime (PStr ''hi'') (PDict [(''buttons'', PList [])]) (PDict [(''channel'', PStr ''web'')]) PNone)
              = PNum 1700000000"
    by (simp add: BotUttered_init_def Event_init_def demo_runtime_def)
  show ?thesis using bot_message_shape[OF h1 h2 h3 h4] by (simp add: ts)
qed

text \<open>C32: The metadata overrides the message: \<open>m.update(self.metadata)\<close>
  runs after the text is set, so whenever the metadata dict has a \<open>text\<close>
  key, the message's \<open>text\<close> is the metadata's value, whatever the bot's text
  and data are.\<close>

theorem bot_message_metadata_overrides:
  assumes "body e = BotUttered t (PDict d)" and "metadata e = PDict md"
    and "distinct (map fst md)" and "dict_has md ''text''"
  shows "\<exists>m. BotUttered_message e = Inr m \<and> kd_get m (PStr ''text'') = dict_get md ''text''"
proof -
  let ?m = "kd_set (kd_set (str_keys d) (PStr ''text'') t) (PStr ''timestamp'') (timestamp e)"
  let ?m' = "fold (\<lambda>kv acc. kd_set acc (PStr (fst kv)) (snd kv)) md ?m"
  have m': "kd_get ?m' (PStr ''text'') = dict_get md ''text''"
    using kd_get_fold_set[OF assms(3), of ?m "''text''"] assms(4) by simp
  have "BotUttered_message e
        = Inr (if py_eq (kd_get ?m' (PStr ''image'')) (kd_get ?m' (PStr ''attachment''))
               then kd_set ?m' (PStr ''attachment'') PNone else ?m')"
    using assms(1,2) by (simp add: BotUttered_message_def kd_update_def Let_def)
  moreover have "kd_get (kd_set ?m' (PStr ''attachment'') PNone) (PStr ''text'') = kd_get ?m' (PStr ''text'')"
    by (rule kd_get_set_other) simp
  ultimately show ?thesis using m' by auto
qed

theorem bot_message_metadata_overrides_witness:
  "\<exists>m. BotUttered_message (BotUttered_init demo_runtime (PStr ''hello'') PNone (PDict [(''text'', PStr ''overridden'')]) PNone) = Inr m
       \<and> kd_get m (PStr ''text'') = PStr ''overridden''"
proof -
  have "\<exists>m. BotUttered_message (BotUttered_init demo_runtime (PStr ''hello'') PNone (PDict [(''text'', PStr ''overridden'')]) PNone) = Inr m
       \<and> kd_get m (PStr ''text'') = dict_get [(''text'', PStr ''overridden'')] ''text''"
    by (rule bot_message_metadata_overrides) (simp_all add: BotUttered_init_def Event_init_def py_or_def dict_has_def)
  then show ?thesis by (simp add: dict_get_default_def)
qed

end
