(* ===== verification/EventText.thy ===== *)
theory EventText
  imports StoryCodec
begin

text \<open>
  The log text of events: \<open>__str__\<close> of every class and \<open>BotUttered.__repr__\<close>.
  A \<open>"{}".format(x)\<close> field is \<open>str(x)\<close> (\<open>py_str\<close>), a \<open>json.dumps\<close>
  field the text \<open>Json\<close> writes with the default \<open>ensure_ascii\<close>, and a
  reminder's date the runtime's \<open>str\<close> of a date. The classes keep their
  Python names, which the text starts with.
\<close>

section \<open>Class names\<close>

definition class_name :: "event_class \<Rightarrow> string" where
  "class_name c = (case c of
      CUserUttered \<Rightarrow> ''UserUttered'' | CBotUttered \<Rightarrow> ''BotUttered'' | CSlotSet \<Rightarrow> ''SlotSet''
    | CRestarted \<Rightarrow> ''Restarted'' | CUserUtteranceReverted \<Rightarrow> ''UserUtteranceReverted''
    | CAllSlotsReset \<Rightarrow> ''AllSlotsReset'' | CReminderScheduled \<Rightarrow> ''ReminderScheduled''
    | CReminderCancelled \<Rightarrow> ''ReminderCancelled'' | CActionReverted \<Rightarrow> ''ActionReverted''
    | CStoryExported \<Rightarrow> ''StoryExported'' | CFollowupAction \<Rightarrow> ''FollowupAction''
    | CConversationPaused \<Rightarrow> ''ConversationPaused'' | CConversationResumed \<Rightarrow> ''ConversationResumed''
    | CActionExecuted \<Rightarrow> ''ActionExecuted'' | CAgentUttered \<Rightarrow> ''AgentUttered''
    | CForm \<Rightarrow> ''Form'' | CFormValidation \<Rightarrow> ''FormValidation''
    | CActionExecutionRejected \<Rightarrow> ''ActionExecutionRejected'')"

section \<open>\<open>__str__\<close> and \<open>__repr__\<close>\<close>

text \<open>\<open>str(e)\<close>: each class's \<open>__str__\<close>, in the order of the source.\<close>

definition event_str :: "runtime \<Rightarrow> event \<Rightarrow> string" where
  "event_str rt e = (case body e of
      UserUttered text intent entities _ _ _ \<Rightarrow>
        ''UserUttered(text: '' @ py_str text @ '', intent: '' @ py_str intent
          @ '', entities: '' @ py_str entities @ '')''
    | BotUttered text data \<Rightarrow>
        ''BotUttered(text: '' @ py_str text @ '', data: '' @ json_dumps True data
          @ '', metadata: '' @ json_dumps True (metadata e) @ '')''
    | SlotSet k v \<Rightarrow> ''SlotSet(key: '' @ py_str k @ '', value: '' @ py_str v @ '')''
    | Restarted \<Rightarrow> ''Restarted()''
    | UserUtteranceReverted \<Rightarrow> ''UserUtteranceReverted()''
    | AllSlotsReset \<Rightarrow> ''AllSlotsReset()''
    | ReminderScheduled a d n _ \<Rightarrow>
        ''ReminderScheduled(action: '' @ py_str a @ '', trigger_date: '' @ date_str rt d
          @ '', name: '' @ py_str n @ '')''
    | ReminderCancelled a \<Rightarrow> ''ReminderCancelled(action: '' @ py_str a @ '')''
    | ActionReverted \<Rightarrow> ''ActionReverted()''
    | StoryExported _ \<Rightarrow> ''StoryExported()''
    | FollowupAction a \<Rightarrow> ''FollowupAction(action: '' @ py_str a @ '')''
    | ConversationPaused \<Rightarrow> ''ConversationPaused()''
    | ConversationResumed \<Rightarrow> ''ConversationResumed()''
    | ActionExecuted a p c \<Rightarrow>
        ''ActionExecuted(action: '' @ py_str a @ '', policy: '' @ py_str p
          @ '', confidence: '' @ py_str c @ '')''
    | AgentUttered text data \<Rightarrow>
        ''AgentUttered(text: '' @ py_str text @ '', data: '' @ json_dumps True data @ '')''
    | Form n \<Rightarrow> ''Form('' @ py_str n @ '')''
    | FormValidation v \<Rightarrow> ''FormValidation('' @ py_str v @ '')''
    | ActionExecutionRejected a p c \<Rightarrow>
        ''ActionExecutionRejected(action: '' @ py_str a @ '', policy: '' @ py_str p
          @ '', confidence: '' @ py_str c @ '')'')"

text \<open>
  \<open>repr(e)\<close> of a bot utterance; the other classes keep the default
  \<open>object.__repr__\<close>, an address, which the model leaves out (\<open>None\<close>).
\<close>

definition BotUttered_repr :: "event \<Rightarrow> string option" where
  "BotUttered_repr e = (case body e of
      BotUttered text data \<Rightarrow>
        Some (''BotUttered('' @ [CHR 0x27] @ py_str text @ [CHR 0x27] @ '', '' @ json_dumps True data
              @ '', '' @ json_dumps True (metadata e) @ '', '' @ py_str (timestamp e) @ '')'')
    | _ \<Rightarrow> None)"

section \<open>Lemmas\<close>

lemma class_name_inj: "class_name c1 = class_name c2 \<Longrightarrow> c1 = c2"
  by (cases c1; cases c2) (simp_all add: class_name_def)

lemma takeWhile_literal_append:
  "CHR ''('' \<notin> set xs \<Longrightarrow> takeWhile (\<lambda>c. c \<noteq> CHR ''('') (xs @ CHR ''('' # ys) = xs"
  by (induction xs) auto

lemma event_str_head:
  "\<exists>rest. event_str rt e = class_name (class_of (body e)) @ CHR ''('' # rest"
  by (cases "body e") (simp_all add: event_str_def class_name_def)

lemma event_str_class_name:
  "takeWhile (\<lambda>c. c \<noteq> CHR ''('') (event_str rt e) = class_name (class_of (body e))"
proof -
  obtain rest where r: "event_str rt e = class_name (class_of (body e)) @ CHR ''('' # rest"
    using event_str_head by blast
  have "CHR ''('' \<notin> set (class_name (class_of (body e)))"
    by (cases "class_of (body e)") (simp_all add: class_name_def)
  then show ?thesis unfolding r by (rule takeWhile_literal_append)
qed

section \<open>Properties\<close>

text \<open>C35: The log text names the class: \<open>str\<close> of an event starts with its
  class's name and a parenthesis, so two events with the same text are of the
  same class, whatever their fields.\<close>

theorem event_str_determines_class:
  "event_str rt e1 = event_str rt e2 \<Longrightarrow> class_of (body e1) = class_of (body e2)"
  using event_str_class_name[of rt e1] event_str_class_name[of rt e2] class_name_inj by metis

theorem event_str_determines_class_witness:
  "event_str demo_runtime (Event_init demo_runtime PNone PNone (Form (PStr ''f'')))
     \<noteq> event_str demo_runtime (Event_init demo_runtime PNone PNone (FormValidation (PBool True)))"
proof
  assume "event_str demo_runtime (Event_init demo_runtime PNone PNone (Form (PStr ''f'')))
     = event_str demo_runtime (Event_init demo_runtime PNone PNone (FormValidation (PBool True)))"
  from event_str_determines_class[OF this] show False by (simp add: Event_init_def)
qed

end
