(* ===== verification/Persistence.thy ===== *)
theory Persistence
  imports DictCodec Tracker
begin

text \<open>
  Persistence and replay together: a tracker rebuilt from a log that went
  through the dict codec. \<open>as_dict\<close> keeps every event but the action name of
  \<open>ReminderCancelled\<close> and the path of \<open>StoryExported\<close> (\<open>dict_image\<close>), so
  replaying the reloaded log acts as replaying the original one, except that
  no story export happens. \<open>forget_exports\<close> is that observation of a tracker.
\<close>

definition forget_exports :: "tracker \<Rightarrow> tracker" where
  "forget_exports t = t\<lparr>tr_events := map dict_image (tr_events t), tr_exported := []\<rparr>"

section \<open>Lemmas\<close>

lemma dict_image_class [simp]: "class_of (body (dict_image e)) = class_of (body e)"
  by (cases "body e") (simp_all add: dict_image_def)

lemma undo_till_dict_image: "undo_till c (map dict_image xs) = map dict_image (undo_till c xs)"
proof -
  have "(\<lambda>e. class_of (body e) \<noteq> c) \<circ> dict_image = (\<lambda>e. class_of (body e) \<noteq> c)" by auto
  then show ?thesis by (simp add: undo_till_def rev_map dropWhile_map drop_map)
qed

lemma applied_step_dict_image:
  "applied_step (dict_image e) (map dict_image acc) = map dict_image (applied_step e acc)"
  by (simp add: applied_step_def undo_till_dict_image split: event_class.splits)

lemma fold_applied_step_dict_image:
  "fold applied_step (map dict_image xs) (map dict_image acc) = map dict_image (fold applied_step xs acc)"
  by (induction xs arbitrary: acc) (simp_all add: applied_step_dict_image)

lemma applied_events_dict_image: "applied_events (map dict_image xs) = map dict_image (applied_events xs)"
  using fold_applied_step_dict_image[of xs "[]"] by (simp add: applied_events_def)

lemma exec_base_forget:
  "\<forall>p. c \<noteq> ExportStoriesToFile p \<Longrightarrow> exec_base c (forget_exports t) = forget_exports (exec_base c t)"
  by (cases c) (simp_all add: forget_exports_def tracker_reset_def)

lemma forget_export [simp]: "forget_exports (t\<lparr>tr_exported := x\<rparr>) = forget_exports t"
  by (simp add: forget_exports_def)

lemma fold_exec_base_forget:
  "\<forall>c\<in>set cs. \<forall>p. c \<noteq> ExportStoriesToFile p \<Longrightarrow>
   fold exec_base cs (forget_exports t) = forget_exports (fold exec_base cs t)"
  by (induction cs arbitrary: t) (simp_all add: exec_base_forget)

lemma apply_calls_exports:
  "class_of (body e) \<noteq> CStoryExported \<Longrightarrow> \<forall>c\<in>set (apply_calls e). \<forall>p. c \<noteq> ExportStoriesToFile p"
  by (cases "body e") (simp_all add: apply_calls_def)

lemma apply_calls_story_exported:
  "body e = StoryExported q \<Longrightarrow> apply_calls (dict_image e) = []
     \<and> (apply_calls e = [] \<or> apply_calls e = [ExportStoriesToFile q])"
  by (simp add: apply_calls_def dict_image_def)

lemma apply_base_forget: "apply_base (dict_image e) (forget_exports t) = forget_exports (apply_base e t)"
proof (cases "class_of (body e) = CStoryExported")
  case True
  then obtain q where "body e = StoryExported q" by (cases "body e") simp_all
  from apply_calls_story_exported[OF this] show ?thesis by (auto simp: apply_base_def)
next
  case False
  then have "dict_image e = e \<or> class_of (body e) = CReminderCancelled" using dict_image_id by blast
  then have "apply_calls (dict_image e) = apply_calls e"
    by (cases "body e") (auto simp: apply_calls_def dict_image_def)
  then show ?thesis
    using fold_exec_base_forget[OF apply_calls_exports[OF False]] by (simp add: apply_base_def)
qed

lemma fold_apply_base_forget:
  "fold apply_base (map dict_image xs) (forget_exports t) = forget_exports (fold apply_base xs t)"
  by (induction xs arbitrary: t) (simp_all add: apply_base_forget)

lemma exec_call_forget:
  "\<forall>p. c \<noteq> ExportStoriesToFile p \<Longrightarrow> exec_call c (forget_exports t) = forget_exports (exec_call c t)"
proof (cases "c = ReplayEvents")
  case True
  have "tr_events (forget_exports t) = map dict_image (tr_events t)" by (simp add: forget_exports_def)
  then show ?thesis
    using True by (simp add: exec_call_def applied_events_dict_image fold_apply_base_forget)
qed (simp add: exec_call_base exec_base_forget)

lemma fold_exec_call_forget:
  "\<forall>c\<in>set cs. \<forall>p. c \<noteq> ExportStoriesToFile p \<Longrightarrow>
   fold exec_call cs (forget_exports t) = forget_exports (fold exec_call cs t)"
  by (induction cs arbitrary: t) (simp_all add: exec_call_forget)

lemma update_forget:
  "tracker_update (forget_exports t) (dict_image e) = forget_exports (tracker_update t e)"
proof -
  let ?s = "t\<lparr>tr_events := tr_events t @ [e]\<rparr>"
  have s: "(forget_exports t)\<lparr>tr_events := tr_events (forget_exports t) @ [dict_image e]\<rparr> = forget_exports ?s"
    by (simp add: forget_exports_def)
  show ?thesis
  proof (cases "class_of (body e) = CStoryExported")
    case True
    then obtain q where q: "body e = StoryExported q" by (cases "body e") simp_all
    show ?thesis
      using apply_calls_story_exported[OF q] unfolding tracker_update_def s
      by (auto simp: exec_call_base)
  next
    case False
    then have "dict_image e = e \<or> class_of (body e) = CReminderCancelled" using dict_image_id by blast
    then have "apply_calls (dict_image e) = apply_calls e"
      by (cases "body e") (auto simp: apply_calls_def dict_image_def)
    then show ?thesis
      unfolding tracker_update_def s using fold_exec_call_forget[OF apply_calls_exports[OF False]] by simp
  qed
qed

lemma replay_forget:
  "fold (\<lambda>e t. tracker_update t e) (map dict_image es) (forget_exports t)
     = forget_exports (fold (\<lambda>e t. tracker_update t e) es t)"
  by (induction es arbitrary: t) (simp_all add: update_forget)

lemma forget_init [simp]: "forget_exports (init_tracker si) = init_tracker si"
  by (simp add: forget_exports_def init_tracker_def)


lemma dict_has_as_dict_event: "dict_has (as_dict rt e) ''event''"
  by (rule dict_has_of_get) (simp add: as_dict_event)

lemma deserialise_as_dict_log:
  assumes "\<forall>e \<in> set es. wf_event rt e"
  shows "deserialise_events rt (map (as_dict rt) es) = Inr (map dict_image es)"
  using assms
proof (induction es)
  case (Cons e es)
  then have "from_parameters rt (as_dict rt e) None = Inr (Some (dict_image e))"
    by (simp add: from_parameters_as_dict_wf)
  with Cons show ?case by (simp add: dict_has_as_dict_event)
qed simp

end
