(* ===== verification/Spec2Isabelle.thy ===== *)
theory Spec2Isabelle
  imports StoryCodec Tracker BotMessage EventText Persistence
begin

text \<open>
  \<^bold>\<open>A verification model of the event layer of the dialogue engine\<close>
  (\<open>src/rasa/core/events/__init__.py\<close>).

  \<^bold>\<open>The program.\<close> Every occurrence in a conversation is an instance of a
  subclass of \<open>Event\<close> (user and bot utterances, slot changes, restarts,
  reverts, reminders, forms, executed and rejected actions, ...). An event
  keeps a \<open>timestamp\<close> and \<open>metadata\<close> (the base class) and the payload of
  its class; each class has a fixed tag \<open>type_name\<close>, its own \<open>__eq__\<close>
  and \<open>__hash__\<close>, a dict form (\<open>as_dict\<close>, decoded by \<open>_from_parameters\<close>),
  a story-line form (\<open>as_story_string\<close>, decoded by \<open>_from_story_string\<close>)
  and an \<open>apply_to\<close> that mutates the conversation tracker. A tag is turned
  back into its class by \<open>Event.resolve_by_type\<close>; \<open>Event.from_parameters\<close>
  decodes one record through it, \<open>deserialise_events\<close> a whole list,
  \<open>Event.from_story_string\<close> one story line. \<open>deserialise_entities\<close> reads
  entities from JSON text and \<open>BotUttered.message\<close> builds the dict a
  channel receives.

  \<^bold>\<open>The theories.\<close>
  \<^item> \<open>Prelude\<close>: Python values (\<open>pyval\<close>; a dict is an association list in
    insertion order), the exceptions (\<open>py_error\<close>; an exception is an
    \<open>Inl\<close> value and \<open>err_bind\<close> propagates it), truthiness and \<open>a or b\<close>,
    \<open>dict.get\<close>, item assignment and \<open>dict.update\<close> with their lookup
    lemmas, Python \<open>==\<close> (\<open>py_eq\<close>, through a normal form that identifies
    \<open>True\<close> with \<open>1\<close> and ignores dict order), and the injected
    \<open>runtime\<close>: clock, uuid, \<open>isoformat\<close>, the date parser and \<open>str\<close> of a
    date.
  \<^item> \<open>Json\<close>: the text \<open>json.dumps\<close> produces (both \<open>ensure_ascii\<close> modes),
    which \<open>jsonpickle.encode\<close> uses on plain data. \<open>JsonRead\<close>: a reader
    for that text, \<open>json_loads\<close>, a recursive descent with fuel, and the
    round trip \<open>json_loads (json_dumps a v) = Some v\<close> for every well-formed
    value. The fuel is one more than the length of the text. It is enough
    for every text, not only for those \<open>json_dumps\<close> writes: a call that
    succeeds consumes at least one character, and any fuel at least the
    number of characters it consumes gives the same result
    (\<open>parse_fuel\<close>), so \<open>json_loads\<close> accepts exactly what some fuel reads
    (\<open>json_loads_fuel\<close>). Every accepted value is well-formed: a repeated
    object key is kept once (\<open>json_loads_wf\<close>). The value model has no
    floats, \<open>NaN\<close>/\<open>Infinity\<close> or code points from 256 on, which
    \<open>json.loads\<close> accepts; \<open>json_text\<close>, a step function over the
    characters with a stack of open brackets, recognises the full grammar
    \<open>json.loads\<close> accepts, so that where the reader fails a text that is
    not JSON raises \<open>JSONDecodeError\<close> and valid JSON outside the value
    model gives \<open>OutOfModel\<close>, a boundary of the model, not an exception.
  \<^item> \<open>Events\<close>: \<open>payload\<close> (one constructor per subclass, fields in source
    order), the record \<open>event\<close>, \<open>event_class\<close> and \<open>type_name\<close>, the
    constructors \<open>Event_init\<close>, \<open>UserUttered_init\<close>, ... (each \<open>__init__\<close>
    with its defaults) and the static \<open>empty()\<close> ones, \<open>call2\<close> (the positional call \<open>cls(a, b)\<close> of the base
    story decoder), \<open>__eq__\<close> as \<open>variant_eq\<close>/\<open>event_eq\<close> and the hashed
    tuple of \<open>__hash__\<close> as \<open>hash_key\<close>. Lemmas: the identity rule of
    each class, symmetry of \<open>==\<close>, where \<open>__hash__\<close> agrees with
    \<open>__eq__\<close> and where it does not.
  \<^item> \<open>Registry\<close>: the class table \<open>event_classes\<close> (the static registration
    of the design notes, in definition order) and \<open>resolve_by_type\<close>,
    with its outcome for a class's own tag, the legacy tag \<open>topic\<close> and an
    unknown tag.
  \<^item> \<open>DictCodec\<close>: \<open>as_dict\<close>, every \<open>_from_story_string\<close> and
    \<open>_from_parameters\<close>, \<open>from_parameters\<close>, \<open>deserialise_events\<close>,
    \<open>first_key\<close>; the well-formedness \<open>wf_event\<close> that the constructors
    establish and the decoders preserve; the dict round trip and its two
    lossy classes; every error path of decoding.
  \<^item> \<open>StoryCodec\<close>: \<open>deserialise_entities\<close>; \<open>str\<close>/\<open>repr\<close> of values
    (\<open>format\<close> uses them); \<open>as_story_string\<close> of every class with the
    entity dict of \<open>UserUttered\<close> (hashable keys compared by \<open>==\<close>,
    \<open>kd_set\<close>); \<open>Event.from_story_string\<close>; the line format
    \<open><tag><JSON object>\<close> of the story reader (\<open>parse_event_line\<close>, from
    the specification: the reader is not in this repository) and the story
    round trip for every class a line can hold. For \<open>deserialise_entities\<close>:
    the glue \<open>md_format_message\<close> around it (markdown reader and writer as
    parameters); the round trip, the lost single object, and that it returns
    well-formed dicts.
  \<^item> \<open>Tracker\<close>: \<open>apply_to\<close> of every class as the ordered list of tracker
    calls it makes (\<open>apply_calls\<close>, from the source); the tracker they act on
    (\<open>DialogueStateTracker\<close>, not in this repository) modelled from the
    aggregate interface of the specification: a record state, one step per
    call (\<open>exec_base\<close>), \<open>update\<close> as append-then-apply, \<open>replay_events\<close>
    over the events a rewind keeps (\<open>applied_events\<close>), and the reachable
    trackers as an inductive predicate; the replay invariant is proved by
    rule induction. Each revert rewinds to before the user message or the
    action it undoes, and from every reachable tracker a restart returns to
    the fresh state.
  \<^item> \<open>BotMessage\<close>: \<open>BotUttered.message\<close>, with \<open>dict.update\<close> in its
    mapping and iterable-of-pairs forms; the layout of the message and the
    metadata overriding the text.
  \<^item> \<open>EventText\<close>: the log text, \<open>__str__\<close> of every class
    (\<open>event_str\<close>) and \<open>BotUttered.__repr__\<close>; the text starts with the
    class's Python name (\<open>class_name\<close>), so it determines the class.
  \<^item> \<open>Persistence\<close>: the dict codec and the tracker together. A log
    persisted with \<open>as_dict\<close> and reloaded with \<open>deserialise_events\<close>
    replays to the tracker of the original log once the history is read
    through \<open>dict_image\<close> and the story exports are forgotten
    (\<open>forget_exports\<close>): each tracker call commutes with that observation.
  This theory holds the header and the property of the event log that spans
  the dict codec and the tracker.

  \<^bold>\<open>Correspondence.\<close> A Python call \<open>C(args)\<close> is \<open>C_init rt args\<close>, with
  the runtime \<open>rt\<close> made explicit; a method that can raise returns
  \<open>py_error + 'a\<close>; a method that returns \<open>None\<close> or a value returns an
  \<open>option\<close> inside it or \<open>PNone\<close>. Numbers are integers (the module never
  computes with them), strings are lists of code points below 256. Every
  function is total: structural recursion everywhere but the JSON reader,
  which carries fuel as described above. The concrete \<open>demo_runtime\<close> is
  used only in witnesses.

  \<^bold>\<open>Findings the theorems show.\<close> An unknown tag aborts a whole batch (the
  specification says it is skipped); \<open>UserUttered\<close> and \<open>BotUttered\<close> always
  write \<open>metadata\<close>; \<open>ReminderCancelled\<close> and \<open>StoryExported\<close> lose their
  payload in the dict form; missing fields never raise \<open>MalformedEvent\<close>;
  \<open>UserUttered\<close> without \<open>parse_data\<close> raises \<open>AttributeError\<close>; the
  inherited story decoder misbinds the fields of four classes; four classes
  break the hash contract; keyed story lines other than \<open>slot\<close> escape
  non-ASCII text; non-string slot keys do not survive the story line; a user
  message without intent and text writes no story line; a single entity
  object is silently dropped by \<open>deserialise_entities\<close>; entities given as
  JSON text make the user story line raise before \<open>md_format_message\<close>
  could parse them; a tracker rebuilt from a persisted log never re-exports
  stories, since the reloaded \<open>StoryExported\<close> has no path; reminder events do
  not act on the tracker; every bot message without image gains
  \<open>attachment: None\<close>, and a metadata key \<open>text\<close> replaces the bot's
  text.

  \<^bold>\<open>Not modelled.\<close> The default \<open>object.__repr__\<close> of the classes other
  than \<open>BotUttered\<close> (an address);
  the values of JSON text outside the value model (floats, \<open>NaN\<close>,
  \<open>Infinity\<close>, code points from 256 on), which give \<open>OutOfModel\<close>;
  the markdown reader and writer of the training-data package, which
  \<open>md_format_message\<close> calls (they are parameters of its model, and the
  end-to-end story string takes the formatter as a parameter); the tracker beyond the interface the specification gives (slot
  types, the follow-up queue policy, story export to files); logging.
\<close>

section \<open>The event log through the dict codec and the tracker\<close>

text \<open>C18: Persisting an event log with \<open>as_dict\<close> and loading it back with
  \<open>deserialise_events\<close> gives the log back in order, up to the two fields the
  dict form drops, when every event is well formed; replaying the reloaded
  log on a fresh tracker gives the tracker the original log gives, except
  that its history holds the reloaded events and no story was exported.\<close>

theorem event_log_reload:
  assumes "\<forall>e \<in> set es. wf_event rt e"
  shows "deserialise_events rt (map (as_dict rt) es) = Inr (map dict_image es)
   \<and> fold (\<lambda>e t. tracker_update t e) (map dict_image es) (init_tracker si)
     = (fold (\<lambda>e t. tracker_update t e) es (init_tracker si))
         \<lparr>tr_events := map dict_image es, tr_exported := []\<rparr>"
proof
  show "deserialise_events rt (map (as_dict rt) es) = Inr (map dict_image es)"
    using assms by (rule deserialise_as_dict_log)
  have "fold (\<lambda>e t. tracker_update t e) (map dict_image es) (init_tracker si)
      = forget_exports (fold (\<lambda>e t. tracker_update t e) es (init_tracker si))"
    using replay_forget[of es "init_tracker si"] by simp
  also have "\<dots> = (fold (\<lambda>e t. tracker_update t e) es (init_tracker si))
         \<lparr>tr_events := map dict_image es, tr_exported := []\<rparr>"
    by (simp add: forget_exports_def events_fold init_tracker_def)
  finally show "fold (\<lambda>e t. tracker_update t e) (map dict_image es) (init_tracker si)
     = (fold (\<lambda>e t. tracker_update t e) es (init_tracker si))
         \<lparr>tr_events := map dict_image es, tr_exported := []\<rparr>" .
qed

theorem event_log_reload_witness:
  "deserialise_events demo_runtime
     (map (as_dict demo_runtime)
        [SlotSet_init demo_runtime (PStr ''city'') (PStr ''Berlin'') PNone PNone,
         Event_init demo_runtime PNone PNone (StoryExported (PStr ''story.md''))])
   = Inr (map dict_image
        [SlotSet_init demo_runtime (PStr ''city'') (PStr ''Berlin'') PNone PNone,
         Event_init demo_runtime PNone PNone (StoryExported (PStr ''story.md''))])
   \<and> tr_exported (fold (\<lambda>e t. tracker_update t e)
        (map dict_image
          [SlotSet_init demo_runtime (PStr ''city'') (PStr ''Berlin'') PNone PNone,
           Event_init demo_runtime PNone PNone (StoryExported (PStr ''story.md''))])
        (init_tracker [(PStr ''city'', PNone)])) = []"
proof -
  have h: "\<forall>e \<in> set [SlotSet_init demo_runtime (PStr ''city'') (PStr ''Berlin'') PNone PNone,
           Event_init demo_runtime PNone PNone (StoryExported (PStr ''story.md''))]. wf_event demo_runtime e"
    by (simp add: wf_event_def SlotSet_init_def Event_init_def demo_runtime_def)
  show ?thesis using event_log_reload[OF h, of "[(PStr ''city'', PNone)]"] by simp
qed

end
